theory Spec2Isabelle
  imports Complex_Main
begin

section \<open>The BB-Astro PixInsight scripts: external tool orchestration\<close>

text \<open>
  The repository holds three PixInsight scripts that follow one pattern:
  \<^item> \<open>BB_DeepCosmicRay.js\<close> (DeepCR), functions \<open>executeDeepCR\<close>, \<open>loadImage\<close>,
    \<open>buildCommandArray\<close>, \<open>generateSecureTempFilename\<close>;
  \<^item> the L.A.Cosmic script (\<open>src/unnamed/part_002\<close>), functions
    \<open>executeCosmicRayRemoval\<close>, \<open>loadFITSImage\<close>, \<open>cleanupTempFiles\<close>;
  \<^item> \<open>BB_CosmeticCorrection.js\<close>, function \<open>applyCosmeticCorrection\<close>.
  JavaScript numbers are modelled as \<open>real\<close> (\<open>int\<close> or \<open>nat\<close> where the script only
  ever holds an integer), strings as \<open>string\<close>, thrown exceptions as the left injection of
  a sum, and everything the scripts ask of the host (files, clock, random numbers, the
  child process, image decoding) as fields of an explicit environment.
\<close>

subsection \<open>JavaScript string helpers\<close>

type_synonym path = string

definition digit10 :: "nat \<Rightarrow> char" where
  "digit10 n = ''0123456789'' ! n"

text \<open>\<open>Number.prototype.toString\<close> on a non-negative integer (\<open>Date.now().toString()\<close>).\<close>

fun decimal :: "nat \<Rightarrow> string" where
  "decimal n = (if n < 10 then [digit10 n] else decimal (n div 10) @ [digit10 (n mod 10)])"

declare decimal.simps [simp del]

definition toLowerChar :: "char \<Rightarrow> char" where
  "toLowerChar c =
     (case map_of (zip ''ABCDEFGHIJKLMNOPQRSTUVWXYZ'' ''abcdefghijklmnopqrstuvwxyz'') c of
        Some d \<Rightarrow> d
      | None \<Rightarrow> c)"

definition toLowerCase :: "string \<Rightarrow> string" where
  "toLowerCase s = map toLowerChar s"

definition endsWith :: "string \<Rightarrow> string \<Rightarrow> bool" where
  "endsWith s suf = (length suf \<le> length s \<and> drop (length s - length suf) s = suf)"

text \<open>\<open>s.substring(a, b)\<close> for \<open>a \<le> b\<close>.\<close>

definition substring :: "string \<Rightarrow> nat \<Rightarrow> nat \<Rightarrow> string" where
  "substring s a b = take (b - a) (drop a s)"

text \<open>\<open>s.substring(0, s.lastIndexOf("."))\<close>: the text before the last dot. When there
  is no dot \<open>lastIndexOf\<close> is \<open>-1\<close>, which \<open>substring\<close> clamps to \<open>0\<close>.\<close>

definition beforeLastDot :: "string \<Rightarrow> string" where
  "beforeLastDot s = rev (drop 1 (dropWhile (\<lambda>c. c \<noteq> CHR ''.'') (rev s)))"

text \<open>\<open>Array.prototype.join(" ")\<close>.\<close>

fun join :: "string list \<Rightarrow> string" where
  "join [] = []"
| "join [x] = x"
| "join (x # y # ys) = x @ '' '' @ join (y # ys)"

subsection \<open>Errors\<close>

text \<open>One constructor for each \<open>throw\<close> of the scripts and for each host call that the
  scripts guard with \<open>try\<close>.\<close>

datatype view = ActiveView | CreatedView string

datatype error =
    WrapperNotFound path
  | NoActiveWindow
  | ExportFailed
  | TimedOut
  | ProcessFailed int
  | OutputNotFound path
  | UnsupportedFormat path
  | CannotOpen path
  | CannotRead path
  | OpenResultFailed
  | IconNotFound string
  | AssignFailed view
  | RemoveFailed path
  | ParameterType string

subsection \<open>The parameter store of a process icon\<close>

text \<open>The host's \<open>Parameters\<close> object, as the persisted form the specification
  describes: named values, each of type bool, integer, real or string.\<close>

datatype pvalue = PBool bool | PInt int | PReal real | PStr string

type_synonym parameters = "string \<rightharpoonup> pvalue"

definition Parameters_set :: "string \<Rightarrow> pvalue \<Rightarrow> parameters \<Rightarrow> parameters" where
  "Parameters_set k v ps = ps(k \<mapsto> v)"

definition Parameters_has :: "parameters \<Rightarrow> string \<Rightarrow> bool" where
  "Parameters_has ps k = (ps k \<noteq> None)"

definition getBoolean :: "parameters \<Rightarrow> string \<Rightarrow> error + bool" where
  "getBoolean ps k = (case ps k of Some (PBool b) \<Rightarrow> Inr b | _ \<Rightarrow> Inl (ParameterType k))"

definition getInteger :: "parameters \<Rightarrow> string \<Rightarrow> error + int" where
  "getInteger ps k = (case ps k of Some (PInt i) \<Rightarrow> Inr i | _ \<Rightarrow> Inl (ParameterType k))"

definition getReal :: "parameters \<Rightarrow> string \<Rightarrow> error + real" where
  "getReal ps k = (case ps k of Some (PReal r) \<Rightarrow> Inr r | _ \<Rightarrow> Inl (ParameterType k))"

definition getString :: "parameters \<Rightarrow> string \<Rightarrow> error + string" where
  "getString ps k = (case ps k of Some (PStr s) \<Rightarrow> Inr s | _ \<Rightarrow> Inl (ParameterType k))"

text \<open>\<open>if (Parameters.has(k)) field = Parameters.getX(k);\<close> followed by the rest of
  the function.\<close>

definition importing ::
  "bool \<Rightarrow> error + 'v \<Rightarrow> ('v \<Rightarrow> 's \<Rightarrow> 's) \<Rightarrow> 's \<Rightarrow> ('s \<Rightarrow> error + 's) \<Rightarrow> error + 's" where
  "importing present got store s rest =
     (if present
      then (case got of Inl e \<Rightarrow> Inl e | Inr v \<Rightarrow> rest (store v s))
      else rest s)"

subsection \<open>Settings of the three scripts\<close>

record BBDeepCR =
  model :: string
  threshold :: real
  inpaint :: bool
  preset :: string
  saveMask :: bool
  replaceActive :: bool
  wrapperScript :: path
  outputDir :: path

text \<open>The L.A.Cosmic script's global \<open>BBLACosmic\<close>; the four fields it shares by name
  with \<open>BBDeepCR\<close> carry the prefix \<open>lac_\<close>.\<close>

record BBLACosmic =
  sigclip :: real
  objlim :: real
  readnoise :: real
  gain :: real
  niter :: int
  cleantype :: string
  sigfrac :: real
  sepmed :: bool
  fsmode :: string
  psfmodel :: string
  psffwhm :: real
  psfsize :: int
  psfbeta :: real
  satlevel :: int
  lac_saveMask :: bool
  lac_replaceActive :: bool
  lac_wrapperScript :: path
  lac_outputDir :: path

text \<open>\<open>CosmeticCorrectionData\<close>; its \<open>targetView\<close> is the host's view and lives in the
  world state below.\<close>

record CosmeticCorrectionData =
  processIconId :: string
  useProcessIcon :: bool
  useAutoDetect :: bool
  hotSigma :: real
  coldSigma :: real
  amount :: real
  cfa :: bool

subsection \<open>exportParameters and importParameters\<close>

definition dcr_exportParameters :: "BBDeepCR \<Rightarrow> parameters \<Rightarrow> parameters" where
  "dcr_exportParameters s ps =
     Parameters_set ''replaceActive'' (PBool (replaceActive s))
       (Parameters_set ''saveMask'' (PBool (saveMask s))
         (Parameters_set ''preset'' (PStr (preset s))
           (Parameters_set ''threshold'' (PReal (threshold s))
             (Parameters_set ''model'' (PStr (model s)) ps))))"

definition dcr_importParameters :: "parameters \<Rightarrow> BBDeepCR \<Rightarrow> error + BBDeepCR" where
  "dcr_importParameters ps s0 =
     importing (Parameters_has ps ''model'') (getString ps ''model'')
       (\<lambda>v s. s\<lparr>model := v\<rparr>) s0 (\<lambda>s1.
     importing (Parameters_has ps ''threshold'') (getReal ps ''threshold'')
       (\<lambda>v s. s\<lparr>threshold := v\<rparr>) s1 (\<lambda>s2.
     importing (Parameters_has ps ''preset'') (getString ps ''preset'')
       (\<lambda>v s. s\<lparr>preset := v\<rparr>) s2 (\<lambda>s3.
     importing (Parameters_has ps ''saveMask'') (getBoolean ps ''saveMask'')
       (\<lambda>v s. s\<lparr>saveMask := v\<rparr>) s3 (\<lambda>s4.
     importing (Parameters_has ps ''replaceActive'') (getBoolean ps ''replaceActive'')
       (\<lambda>v s. s\<lparr>replaceActive := v\<rparr>) s4 Inr))))"

definition lac_exportParameters :: "BBLACosmic \<Rightarrow> parameters \<Rightarrow> parameters" where
  "lac_exportParameters s ps =
     Parameters_set ''replaceActive'' (PBool (lac_replaceActive s))
       (Parameters_set ''saveMask'' (PBool (lac_saveMask s))
         (Parameters_set ''cleantype'' (PStr (cleantype s))
           (Parameters_set ''niter'' (PInt (niter s))
             (Parameters_set ''gain'' (PReal (gain s))
               (Parameters_set ''readnoise'' (PReal (readnoise s))
                 (Parameters_set ''objlim'' (PReal (objlim s))
                   (Parameters_set ''sigclip'' (PReal (sigclip s)) ps)))))))"

definition lac_importParameters :: "parameters \<Rightarrow> BBLACosmic \<Rightarrow> error + BBLACosmic" where
  "lac_importParameters ps s0 =
     importing (Parameters_has ps ''sigclip'') (getReal ps ''sigclip'')
       (\<lambda>v s. s\<lparr>sigclip := v\<rparr>) s0 (\<lambda>s1.
     importing (Parameters_has ps ''objlim'') (getReal ps ''objlim'')
       (\<lambda>v s. s\<lparr>objlim := v\<rparr>) s1 (\<lambda>s2.
     importing (Parameters_has ps ''readnoise'') (getReal ps ''readnoise'')
       (\<lambda>v s. s\<lparr>readnoise := v\<rparr>) s2 (\<lambda>s3.
     importing (Parameters_has ps ''gain'') (getReal ps ''gain'')
       (\<lambda>v s. s\<lparr>gain := v\<rparr>) s3 (\<lambda>s4.
     importing (Parameters_has ps ''niter'') (getInteger ps ''niter'')
       (\<lambda>v s. s\<lparr>niter := v\<rparr>) s4 (\<lambda>s5.
     importing (Parameters_has ps ''cleantype'') (getString ps ''cleantype'')
       (\<lambda>v s. s\<lparr>cleantype := v\<rparr>) s5 (\<lambda>s6.
     importing (Parameters_has ps ''saveMask'') (getBoolean ps ''saveMask'')
       (\<lambda>v s. s\<lparr>lac_saveMask := v\<rparr>) s6 (\<lambda>s7.
     importing (Parameters_has ps ''replaceActive'') (getBoolean ps ''replaceActive'')
       (\<lambda>v s. s\<lparr>lac_replaceActive := v\<rparr>) s7 Inr)))))))"

definition cc_exportParameters :: "CosmeticCorrectionData \<Rightarrow> parameters \<Rightarrow> parameters" where
  "cc_exportParameters d ps =
     Parameters_set ''cfa'' (PBool (cfa d))
       (Parameters_set ''amount'' (PReal (amount d))
         (Parameters_set ''coldSigma'' (PReal (coldSigma d))
           (Parameters_set ''hotSigma'' (PReal (hotSigma d))
             (Parameters_set ''useAutoDetect'' (PBool (useAutoDetect d))
               (Parameters_set ''processIconId'' (PStr (processIconId d))
                 (Parameters_set ''useProcessIcon'' (PBool (useProcessIcon d)) ps))))))"

definition cc_importParameters ::
  "parameters \<Rightarrow> CosmeticCorrectionData \<Rightarrow> error + CosmeticCorrectionData" where
  "cc_importParameters ps d0 =
     importing (Parameters_has ps ''useProcessIcon'') (getBoolean ps ''useProcessIcon'')
       (\<lambda>v d. d\<lparr>useProcessIcon := v\<rparr>) d0 (\<lambda>d1.
     importing (Parameters_has ps ''processIconId'') (getString ps ''processIconId'')
       (\<lambda>v d. d\<lparr>processIconId := v\<rparr>) d1 (\<lambda>d2.
     importing (Parameters_has ps ''useAutoDetect'') (getBoolean ps ''useAutoDetect'')
       (\<lambda>v d. d\<lparr>useAutoDetect := v\<rparr>) d2 (\<lambda>d3.
     importing (Parameters_has ps ''hotSigma'') (getReal ps ''hotSigma'')
       (\<lambda>v d. d\<lparr>hotSigma := v\<rparr>) d3 (\<lambda>d4.
     importing (Parameters_has ps ''coldSigma'') (getReal ps ''coldSigma'')
       (\<lambda>v d. d\<lparr>coldSigma := v\<rparr>) d4 (\<lambda>d5.
     importing (Parameters_has ps ''amount'') (getReal ps ''amount'')
       (\<lambda>v d. d\<lparr>amount := v\<rparr>) d5 (\<lambda>d6.
     importing (Parameters_has ps ''cfa'') (getBoolean ps ''cfa'')
       (\<lambda>v d. d\<lparr>cfa := v\<rparr>) d6 Inr))))))"

subsection \<open>The host environment and the state a job changes\<close>

record image =
  width :: nat
  height :: nat
  samples :: "nat list"

datatype outcome = Success | Failed error

text \<open>What a job does to the host, in the order it does it. \<open>Report\<close> is the line on the
  console that tells the user the outcome (the success line, or the error line that
  \<open>Console.criticalln\<close> writes), \<open>MessageBox\<close> the message box that tells it, \<open>Cleanup\<close>
  the entry into the cleanup code with the values of the job's path variables, and
  \<open>Remove\<close> a call of \<open>File.remove\<close>.\<close>

datatype event =
    SaveAs path
  | Spawn string
  | Kill
  | ExecuteGlobal path
  | OpenFile string path
  | ReadImage path
  | CloseFile path
  | OpenWindow path
  | ForceClose path
  | BeginProcess view
  | Assign view
  | EndProcess view
  | NewWindow string
  | ShowWindow string
  | Report outcome
  | MessageBox outcome
  | Cleanup "path option list"
  | Remove path
  | Warning path

text \<open>The behaviour of the child process started for a command line: after how many
  milliseconds it terminates (\<open>None\<close>: never), what it then reports, and the files it
  has written by then.\<close>

record proc =
  duration :: "nat option"
  exitStatus :: int
  out :: string
  err :: string
  written :: "path list"

record procResult =
  exitCode :: int
  stdout :: string
  stderr :: string
  elapsedMillis :: nat

datatype decoded = Unopenable | Unreadable | Decoded image

record host =
  systemTempDirectory :: path
  now :: nat
  random1 :: string
  random2 :: string
  numberToString :: "real \<Rightarrow> string"
  activeWindow :: bool
  mainViewId :: string
  saveAsOk :: "path \<Rightarrow> bool"
  launch :: "string \<Rightarrow> proc"
  processEventsMillis :: "nat \<Rightarrow> nat"
  decode :: "string \<Rightarrow> path \<Rightarrow> decoded"
  assignOk :: "view \<Rightarrow> bool"
  removeOk :: "path \<Rightarrow> bool"
  iconExists :: "string \<Rightarrow> bool"
  globalOutput :: "path \<Rightarrow> path list"
  openWindows :: "path \<Rightarrow> image list"

text \<open>The three path variables of a DeepCR or L.A.Cosmic job (\<open>outputPath\<close> is
  \<open>cleanedPath\<close> in DeepCR) and the part of the host a job changes.\<close>

record state =
  tempFile :: "path option"
  outputPath :: "path option"
  maskPath :: "path option"
  files :: "path set"
  target :: image
  windows :: "(string \<times> image) list"
  events :: "event list"

text \<open>\<open>var tempFile = null; var outputPath = null; var maskPath = null;\<close> at the start of
  \<open>executeDeepCR\<close> and \<open>executeCosmicRayRemoval\<close>.\<close>

definition jobStart :: "state \<Rightarrow> state" where
  "jobStart \<sigma> = \<sigma>\<lparr>tempFile := None, outputPath := None, maskPath := None\<rparr>"

definition emit :: "event \<Rightarrow> state \<Rightarrow> state" where
  "emit e \<sigma> = \<sigma>\<lparr>events := events \<sigma> @ [e]\<rparr>"

definition File_exists :: "state \<Rightarrow> path \<Rightarrow> bool" where
  "File_exists \<sigma> p = (p \<in> files \<sigma>)"

text \<open>\<open>File.remove(p)\<close>: throws when the host cannot remove the file.\<close>

definition File_remove :: "host \<Rightarrow> path \<Rightarrow> state \<Rightarrow> (error + unit) \<times> state" where
  "File_remove h p \<sigma> =
     (let \<sigma>1 = emit (Remove p) \<sigma>
      in if removeOk h p then (Inr (), \<sigma>1\<lparr>files := files \<sigma>1 - {p}\<rparr>)
         else (Inl (RemoveFailed p), \<sigma>1))"

text \<open>\<open>File.extractName\<close>: the file name without directories and without its suffix.\<close>

definition extractName :: "path \<Rightarrow> string" where
  "extractName p =
     (let name = rev (takeWhile (\<lambda>c. c \<noteq> CHR ''/'') (rev p))
      in if CHR ''.'' \<in> set name then beforeLastDot name else name)"

subsection \<open>Temporary file names\<close>

text \<open>\<open>Math.random().toString(36).substring(2, 15)\<close>, twice.\<close>

definition randomSuffix :: "host \<Rightarrow> string" where
  "randomSuffix h = substring (random1 h) 2 15 @ substring (random2 h) 2 15"

definition dcr_generateSecureTempFilename :: "host \<Rightarrow> path" where
  "dcr_generateSecureTempFilename h =
     systemTempDirectory h @ ''/bbdcr_'' @ decimal (now h) @ ''_'' @ randomSuffix h @ ''.xisf''"

definition lac_generateSecureTempFilename :: "host \<Rightarrow> path" where
  "lac_generateSecureTempFilename h =
     systemTempDirectory h @ ''/bblac_'' @ decimal (now h) @ ''_'' @ randomSuffix h @ ''.fits''"

text \<open>applyCosmeticCorrection, lines 423-426.\<close>

definition cc_tempInputFile :: "host \<Rightarrow> path" where
  "cc_tempInputFile h = systemTempDirectory h @ ''/bb_cc_input_'' @ decimal (now h) @ ''.xisf''"

definition cc_tempOutputFile :: "host \<Rightarrow> path" where
  "cc_tempOutputFile h =
     systemTempDirectory h @ ''/bb_cc_input_'' @ decimal (now h) @ ''_cc.xisf''"

text \<open>For counting the names an allocation can produce: the host in which the two calls of
  \<open>Math.random().toString(36)\<close> return \<open>0.\<close> followed by the digits \<open>a\<close> and by the digits
  \<open>b\<close>, and the strings of \<open>n\<close> base-36 digits. Directory and clock stay as they are, so
  all these allocations fall into the same millisecond.\<close>

definition withRandom :: "host \<Rightarrow> string \<Rightarrow> string \<Rightarrow> host" where
  "withRandom h a b = h\<lparr>random1 := ''0.'' @ a, random2 := ''0.'' @ b\<rparr>"

definition base36 :: "char set" where
  "base36 = set ''0123456789abcdefghijklmnopqrstuvwxyz''"

definition digitStrings :: "nat \<Rightarrow> string set" where
  "digitStrings n = {d. set d \<subseteq> base36 \<and> length d = n}"

subsection \<open>Command lines\<close>

definition dcr_buildCommandArray :: "host \<Rightarrow> BBDeepCR \<Rightarrow> path \<Rightarrow> string list" where
  "dcr_buildCommandArray h s inputPath =
     [''/bin/bash'', wrapperScript s, inputPath, outputDir s, numberToString h (threshold s)]
     @ (if preset s \<noteq> [] \<and> preset s \<noteq> ''custom'' then [''--preset'', preset s] else [])
     @ (if saveMask s then [''--save-mask''] else [])
     @ [''--format'', ''XISF'']"

definition lac_buildCommandArray :: "host \<Rightarrow> BBLACosmic \<Rightarrow> path \<Rightarrow> string list" where
  "lac_buildCommandArray h s inputPath =
     [''/bin/bash'', lac_wrapperScript s, inputPath,
      ''--outdir'', lac_outputDir s,
      ''--suffix'', ''_crr'',
      ''--sigclip'', numberToString h (sigclip s),
      ''--sigfrac'', numberToString h (sigfrac s),
      ''--objlim'', numberToString h (objlim s),
      ''--gain'', numberToString h (gain s),
      ''--readnoise'', numberToString h (readnoise s),
      ''--satlevel'', numberToString h (of_int (satlevel s)),
      ''--niter'', numberToString h (of_int (niter s)),
      ''--cleantype'', cleantype s,
      ''--sepmed'', (if sepmed s then ''True'' else ''False''),
      ''--fsmode'', fsmode s,
      ''--psfmodel'', psfmodel s,
      ''--psffwhm'', numberToString h (psffwhm s),
      ''--psfsize'', numberToString h (of_int (psfsize s)),
      ''--psfbeta'', numberToString h (psfbeta s)]
     @ (if lac_saveMask s then [''--save-mask''] else [])
     @ [''--verbose'']"

subsection \<open>Reading an image file\<close>

text \<open>The part \<open>loadImage\<close> and \<open>loadFITSImage\<close> have in common: open the file with the
  given format, read the image, close the file. A file that does not exist cannot be
  opened.\<close>

definition readImageFile ::
  "host \<Rightarrow> string \<Rightarrow> path \<Rightarrow> state \<Rightarrow> (error + image) \<times> state" where
  "readImageFile h formatExt p \<sigma> =
     (let \<sigma>1 = emit (OpenFile formatExt p) \<sigma>
      in case (if File_exists \<sigma> p then decode h formatExt p else Unopenable) of
           Unopenable \<Rightarrow> (Inl (CannotOpen p), \<sigma>1)
         | Unreadable \<Rightarrow> (Inl (CannotRead p), emit (CloseFile p) (emit (ReadImage p) \<sigma>1))
         | Decoded img \<Rightarrow> (Inr img, emit (CloseFile p) (emit (ReadImage p) \<sigma>1)))"

text \<open>DeepCR, lines 178-206.\<close>

definition loadImage :: "host \<Rightarrow> path \<Rightarrow> state \<Rightarrow> (error + image) \<times> state" where
  "loadImage h p \<sigma> =
     (let extension = toLowerCase p
      in if endsWith extension ''.xisf'' then readImageFile h ''.xisf'' p \<sigma>
         else if endsWith extension ''.fits'' \<or> endsWith extension ''.fit''
         then readImageFile h ''.fits'' p \<sigma>
         else (Inl (UnsupportedFormat p), \<sigma>))"

text \<open>L.A.Cosmic, lines 200-216.\<close>

definition loadFITSImage :: "host \<Rightarrow> path \<Rightarrow> state \<Rightarrow> (error + image) \<times> state" where
  "loadFITSImage h p \<sigma> = readImageFile h ''.fits'' p \<sigma>"

subsection \<open>Supervising the child process\<close>

definition TIMEOUT_MS :: nat where
  "TIMEOUT_MS = 600000"

definition finishedBy :: "nat option \<Rightarrow> nat \<Rightarrow> bool" where
  "finishedBy dur t = (case dur of None \<Rightarrow> False | Some d \<Rightarrow> d \<le> t)"

datatype waited = Finished nat | Expired nat

text \<open>
  \<open>while (!process.waitForFinished(100)) { processEvents(); if ((Date.now() - startTime) >
  TIMEOUT_MS) { process.kill(); ... throw ... } }\<close>.
  Time is counted in milliseconds since \<open>startTime\<close>. \<open>waitLoop dur pe k t\<close> is the loop
  when its \<open>k\<close>-th test starts at time \<open>t\<close>: \<open>waitForFinished(100)\<close> returns true as soon
  as the child has terminated and false after 100 ms otherwise; the \<open>k\<close>-th call of
  \<open>processEvents()\<close> takes \<open>pe k\<close> ms. The result is the time at which the loop is left,
  and how.
\<close>

function waitLoop :: "nat option \<Rightarrow> (nat \<Rightarrow> nat) \<Rightarrow> nat \<Rightarrow> nat \<Rightarrow> waited" where
  "waitLoop dur pe k t =
     (if finishedBy dur (t + 100) then Finished (case dur of None \<Rightarrow> t | Some d \<Rightarrow> max d t)
      else if t + 100 + pe k > TIMEOUT_MS then Expired (t + 100 + pe k)
      else waitLoop dur pe (Suc k) (t + 100 + pe k))"
  by pat_completeness auto
termination
  by (relation "measure (\<lambda>(dur, pe, k, t). TIMEOUT_MS - t)") auto

declare waitLoop.simps [simp del]

text \<open>DeepCR lines 268-289, L.A.Cosmic lines 282-302: start the process, wait for it,
  read its output. The files the tool wrote are on disk once it has terminated.\<close>

definition superviseProcess :: "host \<Rightarrow> string \<Rightarrow> state \<Rightarrow> (error + procResult) \<times> state" where
  "superviseProcess h cmdString \<sigma> =
     (let \<sigma>1 = emit (Spawn cmdString) \<sigma>; p = launch h cmdString
      in case waitLoop (duration p) (processEventsMillis h) 0 0 of
           Expired t \<Rightarrow> (Inl TimedOut, emit Kill \<sigma>1)
         | Finished t \<Rightarrow>
             (Inr \<lparr>exitCode = exitStatus p, stdout = out p, stderr = err p, elapsedMillis = t\<rparr>,
              \<sigma>1\<lparr>files := files \<sigma>1 \<union> set (written p)\<rparr>))"

subsection \<open>Applying an image to a view\<close>

text \<open>Sequencing of steps that may throw.\<close>

definition andThen ::
  "(error + 'a) \<times> state \<Rightarrow> ('a \<Rightarrow> state \<Rightarrow> (error + 'b) \<times> state) \<Rightarrow> (error + 'b) \<times> state" where
  "andThen r f = (case r of (Inl e, \<sigma>) \<Rightarrow> (Inl e, \<sigma>) | (Inr a, \<sigma>) \<Rightarrow> f a \<sigma>)"

fun storeImage :: "view \<Rightarrow> image \<Rightarrow> state \<Rightarrow> state" where
  "storeImage ActiveView img \<sigma> = \<sigma>\<lparr>target := img\<rparr>"
| "storeImage (CreatedView n) img \<sigma> = \<sigma>\<lparr>windows := windows \<sigma> @ [(n, img)]\<rparr>"

text \<open>\<open>view.beginProcess(...); view.image.assign(img); view.endProcess();\<close> where
  \<open>assign\<close> may throw.\<close>

definition assignInProcess :: "host \<Rightarrow> view \<Rightarrow> image \<Rightarrow> state \<Rightarrow> (error + unit) \<times> state" where
  "assignInProcess h v img \<sigma> =
     (let \<sigma>1 = emit (Assign v) (emit (BeginProcess v) \<sigma>)
      in if assignOk h v then (Inr (), emit (EndProcess v) (storeImage v img \<sigma>1))
         else (Inl (AssignFailed v), \<sigma>1))"

text \<open>\<open>new ImageWindow(..., name)\<close>, the assignment in its process bracket, \<open>show()\<close>.\<close>

definition showInNewWindow :: "host \<Rightarrow> string \<Rightarrow> image \<Rightarrow> state \<Rightarrow> (error + unit) \<times> state" where
  "showInNewWindow h name img \<sigma> =
     andThen (assignInProcess h (CreatedView name) img (emit (NewWindow name) \<sigma>))
       (\<lambda>_ \<sigma>1. (Inr (), emit (ShowWindow name) \<sigma>1))"

subsection \<open>DeepCR: executeDeepCR\<close>

text \<open>Lines 233-258: check the wrapper script and the active window, export the image.\<close>

definition dcr_exportView :: "host \<Rightarrow> BBDeepCR \<Rightarrow> state \<Rightarrow> (error + path) \<times> state" where
  "dcr_exportView h s \<sigma> =
     (if \<not> File_exists \<sigma> (wrapperScript s) then (Inl (WrapperNotFound (wrapperScript s)), \<sigma>)
      else if \<not> activeWindow h then (Inl NoActiveWindow, \<sigma>)
      else (let p = dcr_generateSecureTempFilename h;
                \<sigma>1 = emit (SaveAs p) (\<sigma>\<lparr>tempFile := Some p\<rparr>)
            in if \<not> saveAsOk h p then (Inl ExportFailed, \<sigma>1)
               else (Inr p, \<sigma>1\<lparr>files := files \<sigma>1 \<union> {p}\<rparr>)))"

text \<open>Lines 260-305: build the command, run it, check the exit code.\<close>

definition dcr_runTool :: "host \<Rightarrow> BBDeepCR \<Rightarrow> path \<Rightarrow> state \<Rightarrow> (error + unit) \<times> state" where
  "dcr_runTool h s p \<sigma> =
     andThen (superviseProcess h (join (dcr_buildCommandArray h s p)) \<sigma>)
       (\<lambda>r \<sigma>1. if exitCode r \<noteq> 0 then (Inl (ProcessFailed (exitCode r)), \<sigma>1) else (Inr (), \<sigma>1))"

text \<open>Lines 308-313 and 351: the names of the tool's output files.\<close>

definition dcr_baseName :: "path \<Rightarrow> string" where
  "dcr_baseName p =
     (let b = extractName p
      in if endsWith b ''.xisf'' \<or> endsWith b ''.fits'' \<or> endsWith b ''.fit''
         then beforeLastDot b else b)"

definition dcr_cleanedPath :: "host \<Rightarrow> BBDeepCR \<Rightarrow> path \<Rightarrow> path" where
  "dcr_cleanedPath h s p =
     outputDir s @ ''/'' @ dcr_baseName p @ ''_deepcr_th'' @ numberToString h (threshold s)
       @ ''_cleaned.xisf''"

definition dcr_maskPath :: "host \<Rightarrow> BBDeepCR \<Rightarrow> path \<Rightarrow> path" where
  "dcr_maskPath h s p =
     outputDir s @ ''/'' @ dcr_baseName p @ ''_deepcr_th'' @ numberToString h (threshold s)
       @ ''_mask.xisf''"

text \<open>Lines 313-322: locate and load the cleaned image.\<close>

definition dcr_loadCleaned :: "host \<Rightarrow> BBDeepCR \<Rightarrow> path \<Rightarrow> state \<Rightarrow> (error + image) \<times> state" where
  "dcr_loadCleaned h s p \<sigma> =
     (let c = dcr_cleanedPath h s p; \<sigma>1 = \<sigma>\<lparr>outputPath := Some c\<rparr>
      in if \<not> File_exists \<sigma>1 c then (Inl (OutputNotFound c), \<sigma>1) else loadImage h c \<sigma>1)"

text \<open>Lines 325-347: replace the active image or show the result in a new window.\<close>

definition dcr_applyResult :: "host \<Rightarrow> BBDeepCR \<Rightarrow> image \<Rightarrow> state \<Rightarrow> (error + unit) \<times> state" where
  "dcr_applyResult h s img \<sigma> =
     (if replaceActive s then assignInProcess h ActiveView img \<sigma>
      else showInNewWindow h (mainViewId h @ ''_DeepCR'') img \<sigma>)"

text \<open>Lines 350-374: the mask, when requested and present.\<close>

definition dcr_loadMask :: "host \<Rightarrow> BBDeepCR \<Rightarrow> path \<Rightarrow> state \<Rightarrow> (error + unit) \<times> state" where
  "dcr_loadMask h s p \<sigma> =
     (if saveMask s
      then (let m = dcr_maskPath h s p; \<sigma>1 = \<sigma>\<lparr>maskPath := Some m\<rparr>
            in if File_exists \<sigma>1 m
               then andThen (loadImage h m \<sigma>1)
                      (\<lambda>img \<sigma>2. showInNewWindow h (mainViewId h @ ''_CR_Mask'') img \<sigma>2)
               else (Inr (), \<sigma>1))
      else (Inr (), \<sigma>))"

text \<open>The body of the \<open>try\<close> block, in two halves: up to the loaded result (lines
  233-322), and what is done with it (lines 325-374).\<close>

definition dcr_obtain :: "host \<Rightarrow> BBDeepCR \<Rightarrow> state \<Rightarrow> (error + path \<times> image) \<times> state" where
  "dcr_obtain h s \<sigma> =
     andThen (dcr_exportView h s \<sigma>) (\<lambda>p \<sigma>1.
     andThen (dcr_runTool h s p \<sigma>1) (\<lambda>_ \<sigma>2.
     andThen (dcr_loadCleaned h s p \<sigma>2) (\<lambda>img \<sigma>3. (Inr (p, img), \<sigma>3))))"

definition dcr_present ::
  "host \<Rightarrow> BBDeepCR \<Rightarrow> path \<Rightarrow> image \<Rightarrow> state \<Rightarrow> (error + unit) \<times> state" where
  "dcr_present h s p img \<sigma> =
     andThen (dcr_applyResult h s img \<sigma>) (\<lambda>_ \<sigma>1. dcr_loadMask h s p \<sigma>1)"

definition dcr_try :: "host \<Rightarrow> BBDeepCR \<Rightarrow> state \<Rightarrow> (error + unit) \<times> state" where
  "dcr_try h s \<sigma> =
     andThen (dcr_obtain h s \<sigma>) (\<lambda>(p, img) \<sigma>1. dcr_present h s p img \<sigma>1)"

text \<open>\<open>if (path && File.exists(path)) File.remove(path);\<close>\<close>

definition removeIfExists :: "host \<Rightarrow> path option \<Rightarrow> state \<Rightarrow> (error + unit) \<times> state" where
  "removeIfExists h po \<sigma> =
     (case po of
        None \<Rightarrow> (Inr (), \<sigma>)
      | Some p \<Rightarrow> if p \<noteq> [] \<and> File_exists \<sigma> p then File_remove h p \<sigma> else (Inr (), \<sigma>))"

text \<open>Lines 390-408: the \<open>finally\<close> block. An exception of \<open>File.remove\<close> leaves it.\<close>

definition dcr_finally :: "host \<Rightarrow> state \<Rightarrow> (error + unit) \<times> state" where
  "dcr_finally h \<sigma> =
     andThen (removeIfExists h (tempFile \<sigma>)
                (emit (Cleanup [tempFile \<sigma>, outputPath \<sigma>, maskPath \<sigma>]) \<sigma>)) (\<lambda>_ \<sigma>1.
     andThen (removeIfExists h (outputPath \<sigma>) \<sigma>1) (\<lambda>_ \<sigma>2.
     removeIfExists h (maskPath \<sigma>) \<sigma>2))"

text \<open>The whole function: the \<open>try\<close> block, which ends with the success line; in \<open>catch\<close>
  (lines 377-387) the error line on the console and then the error message box; then
  \<open>finally\<close>. \<open>Inl\<close> is an exception that leaves the function.\<close>

definition executeDeepCR :: "host \<Rightarrow> BBDeepCR \<Rightarrow> state \<Rightarrow> (error + outcome) \<times> state" where
  "executeDeepCR h s \<sigma> =
     (let (r, \<sigma>1) = dcr_try h s (jobStart \<sigma>);
          result = (case r of Inl e \<Rightarrow> Failed e | Inr _ \<Rightarrow> Success);
          \<sigma>2 = (case r of
                  Inl e \<Rightarrow> emit (MessageBox (Failed e)) (emit (Report (Failed e)) \<sigma>1)
                | Inr _ \<Rightarrow> emit (Report Success) \<sigma>1)
      in andThen (dcr_finally h \<sigma>2) (\<lambda>_ \<sigma>3. (Inr result, \<sigma>3)))"

text \<open>\<open>thresholdEdit.onTextUpdated\<close>, lines 536-552: whether the dialog accepts the
  number that \<open>parseFloat\<close> returns (\<open>None\<close> for NaN) and stores it in the settings.\<close>

definition dcr_thresholdAccepted :: "real option \<Rightarrow> bool" where
  "dcr_thresholdAccepted v = (case v of None \<Rightarrow> False | Some x \<Rightarrow> \<not> (x \<le> 0 \<or> x > 1))"

text \<open>\<open>main\<close>, lines 728-757. The dialog itself is not modelled: \<open>DialogShown\<close> carries the
  settings it starts from.\<close>

datatype mainResult =
    ImportThrew error
  | Executed "error + outcome"
  | NoImageMessage
  | DialogShown BBDeepCR

definition dcr_main ::
  "host \<Rightarrow> bool \<Rightarrow> bool \<Rightarrow> parameters \<Rightarrow> BBDeepCR \<Rightarrow> state \<Rightarrow> mainResult \<times> state" where
  "dcr_main h isGlobalTarget isViewTarget ps s \<sigma> =
     (case (if isGlobalTarget \<or> isViewTarget then dcr_importParameters ps s else Inr s) of
        Inl e \<Rightarrow> (ImportThrew e, \<sigma>)
      | Inr s1 \<Rightarrow>
          if isViewTarget then (let (r, \<sigma>1) = executeDeepCR h s1 \<sigma> in (Executed r, \<sigma>1))
          else if \<not> activeWindow h then (NoImageMessage, \<sigma>)
          else (DialogShown s1, \<sigma>))"

subsection \<open>L.A.Cosmic: executeCosmicRayRemoval\<close>

text \<open>Lines 222-233: \<open>cleanupTempFiles\<close>; a failing removal is a warning.\<close>

fun cleanupLoop :: "host \<Rightarrow> path option list \<Rightarrow> state \<Rightarrow> state" where
  "cleanupLoop h [] \<sigma> = \<sigma>"
| "cleanupLoop h (po # rest) \<sigma> =
     cleanupLoop h rest
       (case po of
          None \<Rightarrow> \<sigma>
        | Some p \<Rightarrow>
            if p \<noteq> [] \<and> File_exists \<sigma> p
            then (case File_remove h p \<sigma> of
                    (Inl e, \<sigma>1) \<Rightarrow> emit (Warning p) \<sigma>1
                  | (Inr _, \<sigma>1) \<Rightarrow> \<sigma>1)
            else \<sigma>)"

definition cleanupTempFiles :: "host \<Rightarrow> path option list \<Rightarrow> state \<Rightarrow> state" where
  "cleanupTempFiles h filePaths \<sigma> = cleanupLoop h filePaths (emit (Cleanup filePaths) \<sigma>)"

text \<open>Lines 247-267.\<close>

definition lac_exportView :: "host \<Rightarrow> BBLACosmic \<Rightarrow> state \<Rightarrow> (error + path) \<times> state" where
  "lac_exportView h s \<sigma> =
     (if \<not> File_exists \<sigma> (lac_wrapperScript s)
      then (Inl (WrapperNotFound (lac_wrapperScript s)), \<sigma>)
      else if \<not> activeWindow h then (Inl NoActiveWindow, \<sigma>)
      else (let p = lac_generateSecureTempFilename h;
                \<sigma>1 = emit (SaveAs p) (\<sigma>\<lparr>tempFile := Some p\<rparr>)
            in if \<not> saveAsOk h p then (Inl ExportFailed, \<sigma>1)
               else (Inr p, \<sigma>1\<lparr>files := files \<sigma>1 \<union> {p}\<rparr>)))"

text \<open>Lines 269-316.\<close>

definition lac_runTool :: "host \<Rightarrow> BBLACosmic \<Rightarrow> path \<Rightarrow> state \<Rightarrow> (error + unit) \<times> state" where
  "lac_runTool h s p \<sigma> =
     andThen (superviseProcess h (join (lac_buildCommandArray h s p)) \<sigma>)
       (\<lambda>r \<sigma>1. if exitCode r \<noteq> 0 then (Inl (ProcessFailed (exitCode r)), \<sigma>1) else (Inr (), \<sigma>1))"

text \<open>Lines 319-325.\<close>

definition lac_baseName :: "path \<Rightarrow> string" where
  "lac_baseName p =
     (let b = extractName p
      in if endsWith b ''.fits'' \<or> endsWith b ''.fit'' then beforeLastDot b else b)"

definition lac_outputPath :: "BBLACosmic \<Rightarrow> path \<Rightarrow> path" where
  "lac_outputPath s p = lac_outputDir s @ ''/'' @ lac_baseName p @ ''_crr.fits''"

definition lac_maskPath :: "BBLACosmic \<Rightarrow> path \<Rightarrow> path" where
  "lac_maskPath s p = lac_outputDir s @ ''/'' @ lac_baseName p @ ''_crm.fits''"

text \<open>Lines 324-333.\<close>

definition lac_loadCleaned :: "host \<Rightarrow> BBLACosmic \<Rightarrow> path \<Rightarrow> state \<Rightarrow> (error + image) \<times> state" where
  "lac_loadCleaned h s p \<sigma> =
     (let c = lac_outputPath s p;
          \<sigma>1 = \<sigma>\<lparr>outputPath := Some c, maskPath := Some (lac_maskPath s p)\<rparr>
      in if \<not> File_exists \<sigma>1 c then (Inl (OutputNotFound c), \<sigma>1) else loadFITSImage h c \<sigma>1)"

text \<open>Lines 335-355.\<close>

definition lac_applyResult :: "host \<Rightarrow> BBLACosmic \<Rightarrow> image \<Rightarrow> state \<Rightarrow> (error + unit) \<times> state" where
  "lac_applyResult h s img \<sigma> =
     (if lac_replaceActive s then assignInProcess h ActiveView img \<sigma>
      else showInNewWindow h (mainViewId h @ ''_LACosmic'') img \<sigma>)"

text \<open>Lines 358-375.\<close>

definition lac_loadMask :: "host \<Rightarrow> BBLACosmic \<Rightarrow> path \<Rightarrow> state \<Rightarrow> (error + unit) \<times> state" where
  "lac_loadMask h s p \<sigma> =
     (if lac_saveMask s \<and> File_exists \<sigma> (lac_maskPath s p)
      then andThen (loadFITSImage h (lac_maskPath s p) \<sigma>)
             (\<lambda>img \<sigma>1. showInNewWindow h (mainViewId h @ ''_LACosmic_mask'') img \<sigma>1)
      else (Inr (), \<sigma>))"

text \<open>The body of the \<open>try\<close> block before the cleanup, in two halves: up to the loaded
  result (lines 247-333), and what is done with it (lines 335-375).\<close>

definition lac_obtain :: "host \<Rightarrow> BBLACosmic \<Rightarrow> state \<Rightarrow> (error + path \<times> image) \<times> state" where
  "lac_obtain h s \<sigma> =
     andThen (lac_exportView h s \<sigma>) (\<lambda>p \<sigma>1.
     andThen (lac_runTool h s p \<sigma>1) (\<lambda>_ \<sigma>2.
     andThen (lac_loadCleaned h s p \<sigma>2) (\<lambda>img \<sigma>3. (Inr (p, img), \<sigma>3))))"

definition lac_present ::
  "host \<Rightarrow> BBLACosmic \<Rightarrow> path \<Rightarrow> image \<Rightarrow> state \<Rightarrow> (error + unit) \<times> state" where
  "lac_present h s p img \<sigma> =
     andThen (lac_applyResult h s img \<sigma>) (\<lambda>_ \<sigma>1. lac_loadMask h s p \<sigma>1)"

definition lac_try :: "host \<Rightarrow> BBLACosmic \<Rightarrow> state \<Rightarrow> (error + unit) \<times> state" where
  "lac_try h s \<sigma> =
     andThen (lac_obtain h s \<sigma>) (\<lambda>(p, img) \<sigma>1. lac_present h s p img \<sigma>1)"

text \<open>The whole function: at the end of \<open>try\<close> (lines 377-383) the cleanup and then the
  success lines; in \<open>catch\<close> (lines 385-397) the error line on the console, then the
  cleanup, then the error message box.\<close>

definition executeCosmicRayRemoval :: "host \<Rightarrow> BBLACosmic \<Rightarrow> state \<Rightarrow> outcome \<times> state" where
  "executeCosmicRayRemoval h s \<sigma> =
     (case lac_try h s (jobStart \<sigma>) of
        (Inr _, \<sigma>1) \<Rightarrow>
          (Success,
           emit (Report Success)
             (cleanupTempFiles h [tempFile \<sigma>1, outputPath \<sigma>1, maskPath \<sigma>1] \<sigma>1))
      | (Inl e, \<sigma>1) \<Rightarrow>
          (Failed e,
           emit (MessageBox (Failed e))
             (cleanupTempFiles h [tempFile \<sigma>1, outputPath \<sigma>1, maskPath \<sigma>1]
                (emit (Report (Failed e)) \<sigma>1))))"

subsection \<open>CosmeticCorrection: applyCosmeticCorrection\<close>

text \<open>Lines 432-534, the \<open>try\<close> block: save the view, take the process from the icon or
  configure a new one, run it on the file, open its output and copy it into the target
  view. \<open>ProcessInstance.fromIcon\<close> returns null for an unknown icon, and setting a
  property on null throws.\<close>

definition cc_try :: "host \<Rightarrow> CosmeticCorrectionData \<Rightarrow> state \<Rightarrow> (error + unit) \<times> state" where
  "cc_try h d \<sigma> =
     (let i = cc_tempInputFile h; out = cc_tempOutputFile h; \<sigma>1 = emit (SaveAs i) \<sigma>
      in if \<not> saveAsOk h i then (Inl ExportFailed, \<sigma>1)
         else if useProcessIcon d \<and> processIconId d \<noteq> [] \<and> \<not> iconExists h (processIconId d)
         then (Inl (IconNotFound (processIconId d)), \<sigma>1\<lparr>files := files \<sigma>1 \<union> {i}\<rparr>)
         else (let \<sigma>2 = emit (ExecuteGlobal i) (\<sigma>1\<lparr>files := files \<sigma>1 \<union> {i}\<rparr>);
                   \<sigma>3 = \<sigma>2\<lparr>files := files \<sigma>2 \<union> set (globalOutput h i)\<rparr>
               in if \<not> File_exists \<sigma>3 out then (Inl (OutputNotFound out), \<sigma>3)
                  else (case openWindows h out of
                          [] \<Rightarrow> (Inl OpenResultFailed, emit (OpenWindow out) \<sigma>3)
                        | img # _ \<Rightarrow>
                            andThen (assignInProcess h ActiveView img (emit (OpenWindow out) \<sigma>3))
                              (\<lambda>_ \<sigma>4. (Inr (), emit (ForceClose out) \<sigma>4)))))"

text \<open>Lines 549-565, the \<open>finally\<close> block: both removals sit in one \<open>try\<close>.\<close>

definition cc_finally :: "host \<Rightarrow> state \<Rightarrow> state" where
  "cc_finally h \<sigma> =
     (let i = cc_tempInputFile h; out = cc_tempOutputFile h;
          \<sigma>0 = emit (Cleanup [Some i, Some out]) \<sigma>
      in case (if File_exists \<sigma>0 i then File_remove h i \<sigma>0 else (Inr (), \<sigma>0)) of
           (Inl e, \<sigma>1) \<Rightarrow> emit (Warning i) \<sigma>1
         | (Inr _, \<sigma>1) \<Rightarrow>
             (case (if File_exists \<sigma>1 out then File_remove h out \<sigma>1 else (Inr (), \<sigma>1)) of
                (Inl e, \<sigma>2) \<Rightarrow> emit (Warning out) \<sigma>2
              | (Inr _, \<sigma>2) \<Rightarrow> \<sigma>2))"

text \<open>The whole function: the \<open>try\<close> block ends with the success line and the information
  message box (lines 524-534), \<open>catch\<close> writes the error lines and shows the error
  message box (lines 536-548); then \<open>finally\<close>.\<close>

definition applyCosmeticCorrection ::
  "host \<Rightarrow> CosmeticCorrectionData \<Rightarrow> state \<Rightarrow> outcome \<times> state" where
  "applyCosmeticCorrection h d \<sigma> =
     (let (r, \<sigma>1) = cc_try h d \<sigma>;
          result = (case r of Inl e \<Rightarrow> Failed e | Inr _ \<Rightarrow> Success)
      in (result, cc_finally h (emit (MessageBox result) (emit (Report result) \<sigma>1))))"

subsection \<open>Reading the event list\<close>

datatype ekind = IO | OnView view | Window | Outcome | Entering | Removing

fun kind :: "event \<Rightarrow> ekind" where
  "kind (SaveAs p) = IO"
| "kind (Spawn c) = IO"
| "kind Kill = IO"
| "kind (ExecuteGlobal p) = IO"
| "kind (OpenFile f p) = IO"
| "kind (ReadImage p) = IO"
| "kind (CloseFile p) = IO"
| "kind (OpenWindow p) = IO"
| "kind (ForceClose p) = IO"
| "kind (BeginProcess v) = OnView v"
| "kind (Assign v) = OnView v"
| "kind (EndProcess v) = OnView v"
| "kind (NewWindow n) = Window"
| "kind (ShowWindow n) = Window"
| "kind (Report r) = Outcome"
| "kind (MessageBox r) = Outcome"
| "kind (Cleanup ps) = Entering"
| "kind (Remove p) = Removing"
| "kind (Warning p) = Removing"

text \<open>How often the cleanup was entered.\<close>

definition cleanups :: "event list \<Rightarrow> nat" where
  "cleanups evs = length (filter (\<lambda>e. kind e = Entering) evs)"

text \<open>What the user was told about the outcome (console lines and message boxes, in
  their order), and the parts of an event list before the cleanup is first entered and
  from there on.\<close>

definition told :: "event list \<Rightarrow> event list" where
  "told evs = filter (\<lambda>e. kind e = Outcome) evs"

definition beforeCleanup :: "event list \<Rightarrow> event list" where
  "beforeCleanup evs = takeWhile (\<lambda>e. kind e \<noteq> Entering) evs"

definition fromCleanup :: "event list \<Rightarrow> event list" where
  "fromCleanup evs = dropWhile (\<lambda>e. kind e \<noteq> Entering) evs"

text \<open>What each script tells about an outcome: DeepCR and CosmeticCorrection before their
  \<open>finally\<close> block; L.A.Cosmic partly before and partly after \<open>cleanupTempFiles\<close>.\<close>

fun dcr_tells :: "outcome \<Rightarrow> event list" where
  "dcr_tells Success = [Report Success]"
| "dcr_tells (Failed e) = [Report (Failed e), MessageBox (Failed e)]"

fun lac_tellsFirst :: "outcome \<Rightarrow> event list" where
  "lac_tellsFirst Success = []"
| "lac_tellsFirst (Failed e) = [Report (Failed e)]"

fun lac_tellsLast :: "outcome \<Rightarrow> event list" where
  "lac_tellsLast Success = [Report Success]"
| "lac_tellsLast (Failed e) = [MessageBox (Failed e)]"

definition cc_tells :: "outcome \<Rightarrow> event list" where
  "cc_tells r = [Report r, MessageBox r]"

text \<open>The state after the events \<open>evs\<close>.\<close>

definition tell :: "event list \<Rightarrow> state \<Rightarrow> state" where
  "tell evs \<sigma> = \<sigma>\<lparr>events := events \<sigma> @ evs\<rparr>"

text \<open>What a job has added to the event list, and what of it concerns a view.\<close>

definition newEvents :: "state \<Rightarrow> state \<Rightarrow> event list" where
  "newEvents \<sigma> \<sigma>' = drop (length (events \<sigma>)) (events \<sigma>')"

definition onView :: "view \<Rightarrow> event list \<Rightarrow> event list" where
  "onView v evs = filter (\<lambda>e. kind e = OnView v) evs"

text \<open>\<open>\<sigma>'\<close> continues the event list of \<open>\<sigma>\<close> with events that satisfy \<open>P\<close>.\<close>

definition extends :: "(event \<Rightarrow> bool) \<Rightarrow> state \<Rightarrow> state \<Rightarrow> bool" where
  "extends P \<sigma> \<sigma>' = (\<exists>evs. events \<sigma>' = events \<sigma> @ evs \<and> list_all P evs)"

text \<open>Events that neither touch the target view nor report nor clean up.\<close>

definition offTarget :: "event \<Rightarrow> bool" where
  "offTarget e = (kind e = IO \<or> kind e = Window \<or> (\<exists>n. kind e = OnView (CreatedView n)))"

text \<open>Events of the work itself: anything but a report or the cleanup.\<close>

definition working :: "event \<Rightarrow> bool" where
  "working e = (kind e = IO \<or> kind e = Window \<or> (\<exists>v. kind e = OnView v))"

text \<open>The failures that can arise before a loaded result is applied; \<open>c\<close> is the path
  of the primary output, which the loader's errors name.\<close>

fun primaryFailure :: "path \<Rightarrow> error \<Rightarrow> bool" where
  "primaryFailure c (WrapperNotFound p) = True"
| "primaryFailure c NoActiveWindow = True"
| "primaryFailure c ExportFailed = True"
| "primaryFailure c TimedOut = True"
| "primaryFailure c (ProcessFailed n) = True"
| "primaryFailure c (OutputNotFound p) = True"
| "primaryFailure c (UnsupportedFormat p) = (p = c)"
| "primaryFailure c (CannotOpen p) = (p = c)"
| "primaryFailure c (CannotRead p) = (p = c)"
| "primaryFailure c OpenResultFailed = False"
| "primaryFailure c (IconNotFound i) = False"
| "primaryFailure c (AssignFailed v) = False"
| "primaryFailure c (RemoveFailed p) = False"
| "primaryFailure c (ParameterType k) = False"

text \<open>The command line a job runs and the child process the host starts for it.\<close>

definition dcr_command :: "host \<Rightarrow> BBDeepCR \<Rightarrow> string" where
  "dcr_command h s = join (dcr_buildCommandArray h s (dcr_generateSecureTempFilename h))"

definition dcr_child :: "host \<Rightarrow> BBDeepCR \<Rightarrow> proc" where
  "dcr_child h s = launch h (dcr_command h s)"

definition lac_command :: "host \<Rightarrow> BBLACosmic \<Rightarrow> string" where
  "lac_command h s = join (lac_buildCommandArray h s (lac_generateSecureTempFilename h))"

definition lac_child :: "host \<Rightarrow> BBLACosmic \<Rightarrow> proc" where
  "lac_child h s = launch h (lac_command h s)"

text \<open>The outcome a job reports, read off its \<open>try\<close> block.\<close>

definition dcr_outcome :: "host \<Rightarrow> BBDeepCR \<Rightarrow> state \<Rightarrow> outcome" where
  "dcr_outcome h s \<sigma> =
     (case fst (dcr_try h s (jobStart \<sigma>)) of Inl e \<Rightarrow> Failed e | Inr _ \<Rightarrow> Success)"

definition lac_outcome :: "host \<Rightarrow> BBLACosmic \<Rightarrow> state \<Rightarrow> outcome" where
  "lac_outcome h s \<sigma> =
     (case fst (lac_try h s (jobStart \<sigma>)) of Inl e \<Rightarrow> Failed e | Inr _ \<Rightarrow> Success)"

definition cc_outcome :: "host \<Rightarrow> CosmeticCorrectionData \<Rightarrow> state \<Rightarrow> outcome" where
  "cc_outcome h d \<sigma> = (case fst (cc_try h d \<sigma>) of Inl e \<Rightarrow> Failed e | Inr _ \<Rightarrow> Success)"

text \<open>The files a loader opens, each with the format it was opened with.\<close>

fun opens :: "event list \<Rightarrow> (string \<times> path) list" where
  "opens [] = []"
| "opens (OpenFile f p # evs) = (f, p) # opens evs"
| "opens (e # evs) = opens evs"

subsection \<open>A concrete environment\<close>

text \<open>An image named M31 at time 1703 ms, temp directory \<open>/t\<close>; the child terminates
  after 250 ms with the given exit code and files; decoding and assignment behave as
  given; event handling takes no time and every removal succeeds.\<close>

definition demo_image :: image where
  "demo_image = \<lparr>width = 1, height = 1, samples = [7]\<rparr>"

definition demo_child :: "int \<Rightarrow> path list \<Rightarrow> proc" where
  "demo_child code ws = \<lparr>duration = Some 250, exitStatus = code, out = [], err = [], written = ws\<rparr>"

definition demo_env :: "proc \<Rightarrow> (string \<Rightarrow> path \<Rightarrow> decoded) \<Rightarrow> (view \<Rightarrow> bool) \<Rightarrow> host" where
  "demo_env child dec ok =
     \<lparr>systemTempDirectory = ''/t'', now = 1703, random1 = ''0.k3j9'', random2 = ''0.p7w1'',
      numberToString = (\<lambda>x. if x = 5 then ''5'' else ''0.1''),
      activeWindow = True, mainViewId = ''M31'', saveAsOk = (\<lambda>p. True),
      launch = (\<lambda>c. child), processEventsMillis = (\<lambda>k. 0), decode = dec, assignOk = ok,
      removeOk = (\<lambda>p. True), iconExists = (\<lambda>i. False), globalOutput = (\<lambda>p. []),
      openWindows = (\<lambda>p. [])\<rparr>"

definition demo_settings :: BBDeepCR where
  "demo_settings =
     \<lparr>model = ''WFC3-UVIS'', threshold = 1 / 10, inpaint = True, preset = ''optimal'',
      saveMask = True, replaceActive = True, wrapperScript = ''/opt/run.sh'', outputDir = ''/t''\<rparr>"

definition demo_lac :: BBLACosmic where
  "demo_lac =
     \<lparr>sigclip = 3 / 2, objlim = 3 / 2, readnoise = 9, gain = 1, niter = 6,
      cleantype = ''meanmask'', sigfrac = 3 / 10, sepmed = True, fsmode = ''median'',
      psfmodel = ''gauss'', psffwhm = 5 / 2, psfsize = 7, psfbeta = 4765 / 1000,
      satlevel = 65535, lac_saveMask = True, lac_replaceActive = True,
      lac_wrapperScript = ''/opt/run.sh'', lac_outputDir = ''/t''\<rparr>"

definition demo_cc :: CosmeticCorrectionData where
  "demo_cc =
     \<lparr>processIconId = [], useProcessIcon = False, useAutoDetect = True, hotSigma = 18 / 10,
      coldSigma = 14 / 10, amount = 1, cfa = False\<rparr>"

definition demo_state :: state where
  "demo_state =
     \<lparr>tempFile = None, outputPath = None, maskPath = None, files = {''/opt/run.sh''},
      target = \<lparr>width = 1, height = 1, samples = [0]\<rparr>, windows = [], events = []\<rparr>"

section \<open>Auxiliary lemmas\<close>

subsection \<open>Event lists of the stages and of the jobs\<close>

lemma emit_fields [simp]:
  "events (emit e \<sigma>) = events \<sigma> @ [e]"
  "target (emit e \<sigma>) = target \<sigma>"
  "files (emit e \<sigma>) = files \<sigma>"
  "windows (emit e \<sigma>) = windows \<sigma>"
  "tempFile (emit e \<sigma>) = tempFile \<sigma>"
  "outputPath (emit e \<sigma>) = outputPath \<sigma>"
  "maskPath (emit e \<sigma>) = maskPath \<sigma>"
  by (simp_all add: emit_def)

lemma extends_refl: "extends P \<sigma> \<sigma>"
  by (simp add: extends_def)

lemma extends_same: "events \<sigma>' = events \<sigma> \<Longrightarrow> extends P \<sigma> \<sigma>'"
  by (simp add: extends_def)

lemma extends_trans: "extends P \<sigma> \<sigma>' \<Longrightarrow> extends P \<sigma>' \<sigma>'' \<Longrightarrow> extends P \<sigma> \<sigma>''"
  by (auto simp: extends_def)

lemma extends_step: "extends P \<sigma> \<sigma>' \<Longrightarrow> events \<sigma>'' = events \<sigma>' @ [e] \<Longrightarrow> P e \<Longrightarrow> extends P \<sigma> \<sigma>''"
  by (auto simp: extends_def)

lemma extends_emit: "P e \<Longrightarrow> extends P \<sigma> \<sigma>' \<Longrightarrow> extends P \<sigma> (emit e \<sigma>')"
  by (auto simp: extends_def)

lemma extends_keep: "extends P \<sigma> \<sigma>' \<Longrightarrow> events \<sigma>'' = events \<sigma>' \<Longrightarrow> extends P \<sigma> \<sigma>''"
  by (auto simp: extends_def)

lemma extends_mono: "extends P \<sigma> \<sigma>' \<Longrightarrow> (\<And>e. P e \<Longrightarrow> Q e) \<Longrightarrow> extends Q \<sigma> \<sigma>'"
  by (auto simp: extends_def list_all_iff)

lemma extends_andThen:
  assumes "extends P \<sigma>0 (snd r)" and "\<And>a \<sigma>. extends P \<sigma> (snd (f a \<sigma>))"
  shows "extends P \<sigma>0 (snd (andThen r f))"
proof (cases r)
  case (Pair x \<sigma>1)
  show ?thesis
  proof (cases x)
    case (Inl e)
    with Pair assms(1) show ?thesis by (simp add: andThen_def)
  next
    case (Inr a)
    with Pair assms(1) assms(2)[of \<sigma>1 a] show ?thesis
      by (auto simp: andThen_def intro: extends_trans)
  qed
qed

lemma readImageFile_extends: "extends (\<lambda>e. kind e = IO) \<sigma> (snd (readImageFile h f p \<sigma>))"
  by (auto simp: readImageFile_def Let_def extends_def split: decoded.splits)

lemma loadImage_extends: "extends (\<lambda>e. kind e = IO) \<sigma> (snd (loadImage h p \<sigma>))"
  by (simp add: loadImage_def Let_def readImageFile_extends extends_refl)

lemma superviseProcess_extends: "extends (\<lambda>e. kind e = IO) \<sigma> (snd (superviseProcess h c \<sigma>))"
  by (auto simp: superviseProcess_def Let_def extends_def split: waited.splits)

lemma dcr_exportView_extends: "extends (\<lambda>e. kind e = IO) \<sigma> (snd (dcr_exportView h s \<sigma>))"
  by (auto simp: dcr_exportView_def Let_def extends_def)

lemma dcr_runTool_extends: "extends (\<lambda>e. kind e = IO) \<sigma> (snd (dcr_runTool h s p \<sigma>))"
  unfolding dcr_runTool_def
  by (rule extends_andThen) (auto simp: superviseProcess_extends extends_refl)

lemma extends_from: "events \<sigma>1 = events \<sigma> \<Longrightarrow> extends P \<sigma>1 \<sigma>' \<Longrightarrow> extends P \<sigma> \<sigma>'"
  by (auto simp: extends_def)

lemma dcr_loadCleaned_extends: "extends (\<lambda>e. kind e = IO) \<sigma> (snd (dcr_loadCleaned h s p \<sigma>))"
  by (auto simp: dcr_loadCleaned_def Let_def intro: extends_same extends_from [OF _ loadImage_extends])

lemma dcr_obtain_extends: "extends (\<lambda>e. kind e = IO) \<sigma> (snd (dcr_obtain h s \<sigma>))"
  unfolding dcr_obtain_def
  by (intro extends_andThen dcr_exportView_extends dcr_runTool_extends dcr_loadCleaned_extends)
     (simp add: extends_refl)


lemma File_remove_fields [simp]:
  "events (snd (File_remove h p \<sigma>)) = events \<sigma> @ [Remove p]"
  "target (snd (File_remove h p \<sigma>)) = target \<sigma>"
  "windows (snd (File_remove h p \<sigma>)) = windows \<sigma>"
  "tempFile (snd (File_remove h p \<sigma>)) = tempFile \<sigma>"
  "outputPath (snd (File_remove h p \<sigma>)) = outputPath \<sigma>"
  "maskPath (snd (File_remove h p \<sigma>)) = maskPath \<sigma>"
  "files (snd (File_remove h p \<sigma>)) = (if removeOk h p then files \<sigma> - {p} else files \<sigma>)"
  by (simp_all add: File_remove_def Let_def)

lemma removeIfExists_fields [simp]:
  "target (snd (removeIfExists h po \<sigma>)) = target \<sigma>"
  "windows (snd (removeIfExists h po \<sigma>)) = windows \<sigma>"
  "tempFile (snd (removeIfExists h po \<sigma>)) = tempFile \<sigma>"
  "outputPath (snd (removeIfExists h po \<sigma>)) = outputPath \<sigma>"
  "maskPath (snd (removeIfExists h po \<sigma>)) = maskPath \<sigma>"
  by (simp_all add: removeIfExists_def split: option.splits)

lemma removeIfExists_extends:
  "extends (\<lambda>e. kind e = Removing) \<sigma> (snd (removeIfExists h po \<sigma>))"
  by (auto simp: removeIfExists_def extends_def split: option.splits)

lemma removeIfExists_files: "files (snd (removeIfExists h po \<sigma>)) \<subseteq> files \<sigma>"
  by (auto simp: removeIfExists_def split: option.splits)

lemma removeIfExists_gone:
  "removeOk h p \<Longrightarrow> p \<noteq> [] \<Longrightarrow> p \<notin> files (snd (removeIfExists h (Some p) \<sigma>))"
  by (simp add: removeIfExists_def File_exists_def)

lemma andThen_fields:
  assumes "\<And>a \<sigma>. g (snd (f a \<sigma>)) = g \<sigma>"
  shows "g (snd (andThen r f)) = g (snd r)"
  using assms by (cases r; cases "fst r") (auto simp: andThen_def)

lemma dcr_finally_fields [simp]:
  "target (snd (dcr_finally h \<sigma>)) = target \<sigma>"
  "windows (snd (dcr_finally h \<sigma>)) = windows \<sigma>"
  "tempFile (snd (dcr_finally h \<sigma>)) = tempFile \<sigma>"
  "outputPath (snd (dcr_finally h \<sigma>)) = outputPath \<sigma>"
  "maskPath (snd (dcr_finally h \<sigma>)) = maskPath \<sigma>"
  by (simp_all add: dcr_finally_def andThen_fields)

lemma extends_Cons:
  "extends P (emit e \<sigma>) \<sigma>' \<Longrightarrow> \<exists>R. events \<sigma>' = events \<sigma> @ e # R \<and> list_all P R"
  by (auto simp: extends_def)

lemma dcr_finally_events:
  "\<exists>R. events (snd (dcr_finally h \<sigma>)) =
         events \<sigma> @ Cleanup [tempFile \<sigma>, outputPath \<sigma>, maskPath \<sigma>] # R
       \<and> list_all (\<lambda>e. kind e = Removing) R"
  unfolding dcr_finally_def
  by (intro extends_Cons extends_andThen removeIfExists_extends)

lemma andThen_files:
  assumes "\<And>a \<sigma>. files (snd (f a \<sigma>)) \<subseteq> files \<sigma>"
  shows "files (snd (andThen r f)) \<subseteq> files (snd r)"
  using assms by (cases r; cases "fst r") (auto simp: andThen_def)

lemma dcr_finally_gone:
  assumes "\<forall>p. removeOk h p" and "p \<noteq> []"
    and "Some p = tempFile \<sigma> \<or> Some p = outputPath \<sigma> \<or> Some p = maskPath \<sigma>"
  shows "p \<notin> files (snd (dcr_finally h \<sigma>))"
proof -
  let ?\<sigma>0 = "emit (Cleanup [tempFile \<sigma>, outputPath \<sigma>, maskPath \<sigma>]) \<sigma>"
  obtain r1 \<sigma>1 where 1: "removeIfExists h (tempFile \<sigma>) ?\<sigma>0 = (r1, \<sigma>1)" by fastforce
  obtain r2 \<sigma>2 where 2: "removeIfExists h (outputPath \<sigma>) \<sigma>1 = (r2, \<sigma>2)" by fastforce
  obtain r3 \<sigma>3 where 3: "removeIfExists h (maskPath \<sigma>) \<sigma>2 = (r3, \<sigma>3)" by fastforce
  have ok: "r1 = Inr ()" "r2 = Inr ()"
    using 1 2 assms(1)
    by (auto simp: removeIfExists_def File_remove_def Let_def split: option.splits if_splits)
  have fin: "snd (dcr_finally h \<sigma>) = \<sigma>3"
    using 1 2 3 ok by (simp add: dcr_finally_def andThen_def)
  have s21: "files \<sigma>2 \<subseteq> files \<sigma>1" using removeIfExists_files [of h "outputPath \<sigma>" \<sigma>1] 2 by simp
  have s32: "files \<sigma>3 \<subseteq> files \<sigma>2" using removeIfExists_files [of h "maskPath \<sigma>" \<sigma>2] 3 by simp
  from assms(3) show ?thesis
  proof (elim disjE)
    assume "Some p = tempFile \<sigma>"
    then have "p \<notin> files \<sigma>1"
      using removeIfExists_gone [of h p ?\<sigma>0] assms 1 by (metis snd_conv)
    with s21 s32 fin show ?thesis by auto
  next
    assume "Some p = outputPath \<sigma>"
    then have "p \<notin> files \<sigma>2"
      using removeIfExists_gone [of h p \<sigma>1] assms 2 by (metis snd_conv)
    with s32 fin show ?thesis by auto
  next
    assume "Some p = maskPath \<sigma>"
    then have "p \<notin> files \<sigma>3"
      using removeIfExists_gone [of h p \<sigma>2] assms 3 by (metis snd_conv)
    with fin show ?thesis by auto
  qed
qed


lemma extends_newEvents:
  "extends P \<sigma> \<sigma>' \<Longrightarrow> events \<sigma>' = events \<sigma> @ newEvents \<sigma> \<sigma>' \<and> list_all P (newEvents \<sigma> \<sigma>')"
  by (auto simp: extends_def newEvents_def)

lemma newEvents_append:
  "events \<sigma>' = events \<sigma> @ evs \<Longrightarrow> newEvents \<sigma> \<sigma>' = evs"
  by (simp add: newEvents_def)

lemma newEvents_trans:
  "extends P \<sigma> \<sigma>' \<Longrightarrow> extends Q \<sigma>' \<sigma>'' \<Longrightarrow> newEvents \<sigma> \<sigma>'' = newEvents \<sigma> \<sigma>' @ newEvents \<sigma>' \<sigma>''"
  by (auto simp: extends_def newEvents_def)

lemma onView_none: "list_all (\<lambda>e. kind e \<noteq> OnView v) evs \<Longrightarrow> onView v evs = []"
  by (induction evs) (auto simp: onView_def)

lemma onView_append [simp]: "onView v (xs @ ys) = onView v xs @ onView v ys"
  by (simp add: onView_def)

lemma readImageFile_fields [simp]:
  "target (snd (readImageFile h f p \<sigma>)) = target \<sigma>"
  "windows (snd (readImageFile h f p \<sigma>)) = windows \<sigma>"
  by (simp_all add: readImageFile_def Let_def split: decoded.splits)

lemma loadImage_fields [simp]:
  "target (snd (loadImage h p \<sigma>)) = target \<sigma>"
  "windows (snd (loadImage h p \<sigma>)) = windows \<sigma>"
  by (simp_all add: loadImage_def Let_def)

lemma superviseProcess_fields [simp]:
  "target (snd (superviseProcess h c \<sigma>)) = target \<sigma>"
  "windows (snd (superviseProcess h c \<sigma>)) = windows \<sigma>"
  by (simp_all add: superviseProcess_def Let_def split: waited.splits)

lemma dcr_exportView_fields [simp]:
  "target (snd (dcr_exportView h s \<sigma>)) = target \<sigma>"
  "windows (snd (dcr_exportView h s \<sigma>)) = windows \<sigma>"
  by (simp_all add: dcr_exportView_def Let_def)

lemma dcr_runTool_fields [simp]:
  "target (snd (dcr_runTool h s p \<sigma>)) = target \<sigma>"
  "windows (snd (dcr_runTool h s p \<sigma>)) = windows \<sigma>"
  by (simp_all add: dcr_runTool_def andThen_fields)

lemma dcr_loadCleaned_fields [simp]:
  "target (snd (dcr_loadCleaned h s p \<sigma>)) = target \<sigma>"
  "windows (snd (dcr_loadCleaned h s p \<sigma>)) = windows \<sigma>"
  by (simp_all add: dcr_loadCleaned_def Let_def)

lemma dcr_obtain_fields [simp]:
  "target (snd (dcr_obtain h s \<sigma>)) = target \<sigma>"
  "windows (snd (dcr_obtain h s \<sigma>)) = windows \<sigma>"
  by (simp_all add: dcr_obtain_def andThen_fields)

lemma andThen_Inl:
  "fst (andThen r f) = Inl e \<Longrightarrow>
     fst r = Inl e \<or> (\<exists>a. fst r = Inr a \<and> fst (f a (snd r)) = Inl e)"
  by (cases r; cases "fst r") (auto simp: andThen_def)


lemma andThen_is_Inl: "fst r = Inl e \<Longrightarrow> andThen r f = (Inl e, snd r)"
  by (cases r) (auto simp: andThen_def)

lemma andThen_is_Inr: "fst r = Inr a \<Longrightarrow> andThen r f = f a (snd r)"
  by (cases r) (auto simp: andThen_def)

lemma dcr_exportView_Inl: "fst (dcr_exportView h s \<sigma>) = Inl e \<Longrightarrow> primaryFailure c e"
  by (auto simp: dcr_exportView_def Let_def split: if_splits)

lemma dcr_exportView_Inr:
  "fst (dcr_exportView h s \<sigma>) = Inr p \<Longrightarrow> p = dcr_generateSecureTempFilename h"
  by (auto simp: dcr_exportView_def Let_def split: if_splits)

lemma dcr_runTool_Inl: "fst (dcr_runTool h s p \<sigma>) = Inl e \<Longrightarrow> primaryFailure c e"
  by (auto simp: dcr_runTool_def superviseProcess_def andThen_def Let_def
      split: if_splits waited.splits)

lemma readImageFile_Inl:
  "fst (readImageFile h f p \<sigma>) = Inl e \<Longrightarrow> e = CannotOpen p \<or> e = CannotRead p"
  by (auto simp: readImageFile_def Let_def split: if_splits decoded.splits)

lemma loadImage_Inl:
  "fst (loadImage h p \<sigma>) = Inl e \<Longrightarrow> e = UnsupportedFormat p \<or> e = CannotOpen p \<or> e = CannotRead p"
  by (auto simp: loadImage_def Let_def split: if_splits dest: readImageFile_Inl)

lemma dcr_loadCleaned_Inl:
  "fst (dcr_loadCleaned h s p \<sigma>) = Inl e \<Longrightarrow> primaryFailure (dcr_cleanedPath h s p) e"
  by (auto simp: dcr_loadCleaned_def Let_def split: if_splits dest: loadImage_Inl)

lemma dcr_obtain_Inl:
  assumes "fst (dcr_obtain h s \<sigma>) = Inl e"
  shows "primaryFailure (dcr_cleanedPath h s (dcr_generateSecureTempFilename h)) e"
  using assms unfolding dcr_obtain_def
  by (auto dest!: andThen_Inl dest: dcr_exportView_Inl dcr_runTool_Inl dcr_loadCleaned_Inl
      dcr_exportView_Inr)


lemma storeImage_fields [simp]:
  "events (storeImage v img \<sigma>) = events \<sigma>"
  "files (storeImage v img \<sigma>) = files \<sigma>"
  "tempFile (storeImage v img \<sigma>) = tempFile \<sigma>"
  "outputPath (storeImage v img \<sigma>) = outputPath \<sigma>"
  "maskPath (storeImage v img \<sigma>) = maskPath \<sigma>"
  "target (storeImage (CreatedView n) img \<sigma>) = target \<sigma>"
  by (cases v; simp)+

lemma assignInProcess_events:
  "events (snd (assignInProcess h v img \<sigma>)) =
     events \<sigma> @ BeginProcess v # Assign v # (if assignOk h v then [EndProcess v] else [])"
  by (simp add: assignInProcess_def Let_def)


lemma assignInProcess_extends:
  "extends (\<lambda>e. kind e = OnView v) \<sigma> (snd (assignInProcess h v img \<sigma>))"
  by (simp add: extends_def assignInProcess_events)

lemma assignInProcess_created_target [simp]:
  "target (snd (assignInProcess h (CreatedView n) img \<sigma>)) = target \<sigma>"
  by (simp add: assignInProcess_def Let_def)

lemma showInNewWindow_extends: "extends offTarget \<sigma> (snd (showInNewWindow h n img \<sigma>))"
  unfolding showInNewWindow_def
proof (rule extends_andThen)
  have "extends offTarget (emit (NewWindow n) \<sigma>)
          (snd (assignInProcess h (CreatedView n) img (emit (NewWindow n) \<sigma>)))"
    by (rule extends_mono [OF assignInProcess_extends]) (auto simp: offTarget_def)
  moreover have "extends offTarget \<sigma> (emit (NewWindow n) \<sigma>)"
    by (rule extends_emit) (simp_all add: offTarget_def extends_refl)
  ultimately show "extends offTarget \<sigma>
      (snd (assignInProcess h (CreatedView n) img (emit (NewWindow n) \<sigma>)))"
    by (rule extends_trans [rotated])
next
  fix a \<sigma>1
  show "extends offTarget \<sigma>1 (snd (Inr (), emit (ShowWindow n) \<sigma>1))"
    by (simp add: extends_emit offTarget_def extends_refl)
qed

lemma showInNewWindow_target [simp]:
  "target (snd (showInNewWindow h n img \<sigma>)) = target \<sigma>"
  by (simp add: showInNewWindow_def andThen_fields)


lemma IO_offTarget: "kind e = IO \<Longrightarrow> offTarget e"
  by (simp add: offTarget_def)

lemma offTarget_working: "offTarget e \<Longrightarrow> working e"
  by (auto simp: offTarget_def working_def)

lemma dcr_loadMask_extends: "extends offTarget \<sigma> (snd (dcr_loadMask h s p \<sigma>))"
proof -
  let ?\<sigma>1 = "\<sigma>\<lparr>maskPath := Some (dcr_maskPath h s p)\<rparr>"
  have "extends offTarget ?\<sigma>1
     (snd (andThen (loadImage h (dcr_maskPath h s p) ?\<sigma>1)
        (\<lambda>img \<sigma>2. showInNewWindow h (mainViewId h @ ''_CR_Mask'') img \<sigma>2)))"
    by (intro extends_andThen showInNewWindow_extends
        extends_mono [OF loadImage_extends] IO_offTarget)
  then have "extends offTarget \<sigma>
     (snd (andThen (loadImage h (dcr_maskPath h s p) ?\<sigma>1)
        (\<lambda>img \<sigma>2. showInNewWindow h (mainViewId h @ ''_CR_Mask'') img \<sigma>2)))"
    by (rule extends_from [rotated]) simp
  then show ?thesis
    by (simp add: dcr_loadMask_def Let_def extends_refl extends_same)
qed

lemma dcr_loadMask_target [simp]: "target (snd (dcr_loadMask h s p \<sigma>)) = target \<sigma>"
  by (simp add: dcr_loadMask_def Let_def andThen_fields)

lemma dcr_cleaned_neq_mask: "dcr_maskPath h s p \<noteq> dcr_cleanedPath h s p"
  by (simp add: dcr_maskPath_def dcr_cleanedPath_def)




lemma dcr_applyResult_extends: "extends working \<sigma> (snd (dcr_applyResult h s img \<sigma>))"
  unfolding dcr_applyResult_def
  by (auto intro: extends_mono [OF assignInProcess_extends]
      extends_mono [OF showInNewWindow_extends] offTarget_working simp: working_def)

lemma dcr_present_extends: "extends working \<sigma> (snd (dcr_present h s p img \<sigma>))"
  unfolding dcr_present_def
  by (intro extends_andThen dcr_applyResult_extends
      extends_mono [OF dcr_loadMask_extends] offTarget_working)

lemma IO_working: "kind e = IO \<Longrightarrow> working e"
  by (simp add: working_def)

lemma dcr_try_extends: "extends working \<sigma> (snd (dcr_try h s \<sigma>))"
  unfolding dcr_try_def
  by (intro extends_andThen extends_mono [OF dcr_obtain_extends] IO_working)
     (auto simp: dcr_present_extends)


lemma working_kinds:
  "working e \<Longrightarrow> kind e \<noteq> Entering \<and> kind e \<noteq> Outcome \<and> kind e \<noteq> Removing"
  by (auto simp: working_def)

lemma filter_kind_none:
  "list_all (\<lambda>e. kind e \<noteq> k) evs \<Longrightarrow> filter (\<lambda>e. kind e = k) evs = []"
  by (induction evs) auto

lemma working_filter:
  assumes "list_all working W"
  shows "filter (\<lambda>e. kind e = Entering) W = []" "filter (\<lambda>e. kind e = Outcome) W = []"
  using assms by (induction W) (auto simp: working_def)

lemma removing_filter:
  assumes "list_all (\<lambda>e. kind e = Removing) R"
  shows "filter (\<lambda>e. kind e = Entering) R = []" "filter (\<lambda>e. kind e = Outcome) R = []"
    "filter (\<lambda>e. kind e = OnView v) R = []"
  using assms by (auto intro!: filter_kind_none simp: list_all_iff)

lemma outcome_filter:
  assumes "list_all (\<lambda>e. kind e = Outcome) A"
  shows "filter (\<lambda>e. kind e = Entering) A = []" "filter (\<lambda>e. kind e = Outcome) A = A"
    "filter (\<lambda>e. kind e = OnView v) A = []"
  using assms by (induction A) auto

lemma takeWhile_all:
  "list_all P xs \<Longrightarrow> takeWhile P (xs @ ys) = xs @ takeWhile P ys"
  by (induction xs) auto

lemma dropWhile_all:
  "list_all P xs \<Longrightarrow> dropWhile P (xs @ ys) = dropWhile P ys"
  by (induction xs) auto

lemma working_not_entering: "list_all working W \<Longrightarrow> list_all (\<lambda>e. kind e \<noteq> Entering) W"
  by (auto simp: list_all_iff working_def)

lemma outcome_not_entering:
  "list_all (\<lambda>e. kind e = Outcome) A \<Longrightarrow> list_all (\<lambda>e. kind e \<noteq> Entering) A"
  by (auto simp: list_all_iff)

lemma no_events: "list_all P []"
  by simp

lemma tells_kind [simp]:
  "list_all (\<lambda>e. kind e = Outcome) (dcr_tells r)"
  "list_all (\<lambda>e. kind e = Outcome) (lac_tellsFirst r)"
  "list_all (\<lambda>e. kind e = Outcome) (lac_tellsLast r)"
  "list_all (\<lambda>e. kind e = Outcome) (cc_tells r)"
  by (cases r; simp add: cc_tells_def)+


text \<open>The shape of a job's event list: the work, what is told before the cleanup, the
  cleanup, what is told after it.\<close>

lemma job_shape:
  assumes "list_all working W" and "list_all (\<lambda>e. kind e = Removing) R"
    and "list_all (\<lambda>e. kind e = Outcome) A" and "list_all (\<lambda>e. kind e = Outcome) B"
  shows "cleanups (W @ A @ Cleanup ps # R @ B) = 1"
    and "told (beforeCleanup (W @ A @ Cleanup ps # R @ B)) = A"
    and "told (fromCleanup (W @ A @ Cleanup ps # R @ B)) = B"
    and "told (W @ A @ Cleanup ps # R @ B) = A @ B"
    and "onView v (W @ A @ Cleanup ps # R @ B) = onView v W"
proof -
  note f = working_filter [OF assms(1)] removing_filter [OF assms(2)]
    outcome_filter [OF assms(3)] outcome_filter [OF assms(4)]
  have ne: "list_all (\<lambda>e. kind e \<noteq> Entering) (W @ A)"
    using working_not_entering [OF assms(1)] outcome_not_entering [OF assms(3)] by simp
  have split: "W @ A @ Cleanup ps # R @ B = (W @ A) @ Cleanup ps # R @ B" by simp
  show "cleanups (W @ A @ Cleanup ps # R @ B) = 1"
    by (simp add: cleanups_def f)
  show "told (beforeCleanup (W @ A @ Cleanup ps # R @ B)) = A"
    unfolding split beforeCleanup_def takeWhile_all [OF ne] by (simp add: told_def f)
  show "told (fromCleanup (W @ A @ Cleanup ps # R @ B)) = B"
    unfolding split fromCleanup_def dropWhile_all [OF ne] by (simp add: told_def f)
  show "told (W @ A @ Cleanup ps # R @ B) = A @ B"
    by (simp add: told_def f)
  show "onView v (W @ A @ Cleanup ps # R @ B) = onView v W"
    by (simp add: onView_def f)
qed


lemma tell_fields [simp]:
  "events (tell evs \<sigma>) = events \<sigma> @ evs"
  "target (tell evs \<sigma>) = target \<sigma>"
  "files (tell evs \<sigma>) = files \<sigma>"
  "windows (tell evs \<sigma>) = windows \<sigma>"
  "tempFile (tell evs \<sigma>) = tempFile \<sigma>"
  "outputPath (tell evs \<sigma>) = outputPath \<sigma>"
  "maskPath (tell evs \<sigma>) = maskPath \<sigma>"
  by (simp_all add: tell_def)

lemma andThen_snd: "snd (andThen r (\<lambda>a \<sigma>. (f a, \<sigma>))) = snd r"
  by (cases r; cases "fst r") (auto simp: andThen_def)

lemma executeDeepCR_snd:
  "snd (executeDeepCR h s \<sigma>) =
     snd (dcr_finally h (tell (dcr_tells (dcr_outcome h s \<sigma>)) (snd (dcr_try h s (jobStart \<sigma>)))))"
  by (simp add: executeDeepCR_def dcr_outcome_def Let_def andThen_snd tell_def emit_def
      split: prod.splits sum.splits)

lemma dcr_job_events:
  "\<exists>R. newEvents \<sigma> (snd (executeDeepCR h s \<sigma>)) =
          newEvents (jobStart \<sigma>) (snd (dcr_try h s (jobStart \<sigma>)))
          @ dcr_tells (dcr_outcome h s \<sigma>)
          @ Cleanup [tempFile (snd (executeDeepCR h s \<sigma>)), outputPath (snd (executeDeepCR h s \<sigma>)),
                     maskPath (snd (executeDeepCR h s \<sigma>))] # R
        \<and> list_all (\<lambda>e. kind e = Removing) R"
proof -
  let ?t = "snd (dcr_try h s (jobStart \<sigma>))"
  let ?u = "tell (dcr_tells (dcr_outcome h s \<sigma>)) ?t"
  let ?W = "newEvents (jobStart \<sigma>) ?t"
  obtain R where R: "events (snd (dcr_finally h ?u)) =
      events ?u @ Cleanup [tempFile ?u, outputPath ?u, maskPath ?u] # R"
    "list_all (\<lambda>e. kind e = Removing) R"
    using dcr_finally_events [of h ?u] by blast
  have W: "events ?t = events \<sigma> @ ?W"
    using extends_newEvents [OF dcr_try_extends [where \<sigma> = "jobStart \<sigma>"]]
    by (simp add: jobStart_def)
  have "events (snd (executeDeepCR h s \<sigma>)) =
      events \<sigma> @ (?W @ dcr_tells (dcr_outcome h s \<sigma>)
        @ Cleanup [tempFile ?t, outputPath ?t, maskPath ?t] # R)"
    unfolding executeDeepCR_snd R(1) by (simp add: W)
  then have "newEvents \<sigma> (snd (executeDeepCR h s \<sigma>)) =
      ?W @ dcr_tells (dcr_outcome h s \<sigma>) @ Cleanup [tempFile ?t, outputPath ?t, maskPath ?t] # R"
    by (rule newEvents_append)
  moreover have "tempFile (snd (executeDeepCR h s \<sigma>)) = tempFile ?t"
    "outputPath (snd (executeDeepCR h s \<sigma>)) = outputPath ?t"
    "maskPath (snd (executeDeepCR h s \<sigma>)) = maskPath ?t"
    unfolding executeDeepCR_snd by simp_all
  ultimately show ?thesis using R(2) by auto
qed

lemma dcr_try_working: "list_all working (newEvents (jobStart \<sigma>) (snd (dcr_try h s (jobStart \<sigma>))))"
  using extends_newEvents [OF dcr_try_extends] by blast

lemma dcr_cleanups:
  "cleanups (newEvents \<sigma> (snd (executeDeepCR h s \<sigma>))) = 1"
  "told (beforeCleanup (newEvents \<sigma> (snd (executeDeepCR h s \<sigma>)))) = dcr_tells (dcr_outcome h s \<sigma>)"
  "told (fromCleanup (newEvents \<sigma> (snd (executeDeepCR h s \<sigma>)))) = []"
proof -
  obtain R where R: "newEvents \<sigma> (snd (executeDeepCR h s \<sigma>)) =
      newEvents (jobStart \<sigma>) (snd (dcr_try h s (jobStart \<sigma>)))
      @ dcr_tells (dcr_outcome h s \<sigma>)
      @ Cleanup [tempFile (snd (executeDeepCR h s \<sigma>)), outputPath (snd (executeDeepCR h s \<sigma>)),
                 maskPath (snd (executeDeepCR h s \<sigma>))] # R @ []"
    "list_all (\<lambda>e. kind e = Removing) R"
    using dcr_job_events [of \<sigma> h s] by auto
  note shape = job_shape [OF dcr_try_working R(2) tells_kind(1), of "[]", simplified]
  show "cleanups (newEvents \<sigma> (snd (executeDeepCR h s \<sigma>))) = 1"
    "told (beforeCleanup (newEvents \<sigma> (snd (executeDeepCR h s \<sigma>)))) = dcr_tells (dcr_outcome h s \<sigma>)"
    "told (fromCleanup (newEvents \<sigma> (snd (executeDeepCR h s \<sigma>)))) = []"
    unfolding R(1) by (simp_all add: shape)
qed


lemma dcr_onView_try:
  "onView ActiveView (newEvents \<sigma> (snd (executeDeepCR h s \<sigma>))) =
     onView ActiveView (newEvents (jobStart \<sigma>) (snd (dcr_try h s (jobStart \<sigma>))))"
proof -
  obtain R where R: "newEvents \<sigma> (snd (executeDeepCR h s \<sigma>)) =
      newEvents (jobStart \<sigma>) (snd (dcr_try h s (jobStart \<sigma>)))
      @ dcr_tells (dcr_outcome h s \<sigma>)
      @ Cleanup [tempFile (snd (executeDeepCR h s \<sigma>)), outputPath (snd (executeDeepCR h s \<sigma>)),
                 maskPath (snd (executeDeepCR h s \<sigma>))] # R @ []"
    "list_all (\<lambda>e. kind e = Removing) R"
    using dcr_job_events [of \<sigma> h s] by auto
  show ?thesis
    unfolding R(1) by (rule job_shape(5) [OF dcr_try_working R(2) tells_kind(1)]) simp
qed


lemma dcr_gone:
  assumes "\<forall>p. removeOk h p" and "p \<noteq> []"
    and "Some p = tempFile (snd (executeDeepCR h s \<sigma>)) \<or> Some p = outputPath (snd (executeDeepCR h s \<sigma>))
         \<or> Some p = maskPath (snd (executeDeepCR h s \<sigma>))"
  shows "p \<notin> files (snd (executeDeepCR h s \<sigma>))"
  using assms(3) unfolding executeDeepCR_snd
  by (intro dcr_finally_gone assms(1,2)) simp



lemma IO_not_onView: "list_all (\<lambda>e. kind e = IO) W \<Longrightarrow> onView v W = []"
  by (induction W) (auto simp: onView_def)

lemma offTarget_not_onView: "list_all offTarget M \<Longrightarrow> onView ActiveView M = []"
  by (induction M) (auto simp: onView_def offTarget_def)


lemma dcr_present_events:
  "\<exists>M. events (snd (dcr_present h s p img \<sigma>)) =
          events \<sigma>
          @ (if replaceActive s
             then BeginProcess ActiveView # Assign ActiveView
                  # (if assignOk h ActiveView then [EndProcess ActiveView] else [])
             else [])
          @ M
       \<and> list_all offTarget M"
proof (cases "replaceActive s")
  case True
  let ?a = "assignInProcess h ActiveView img \<sigma>"
  show ?thesis
  proof (cases "assignOk h ActiveView")
    case ok: True
    then have "fst ?a = Inr ()" by (simp add: assignInProcess_def Let_def)
    then have "dcr_present h s p img \<sigma> = dcr_loadMask h s p (snd ?a)"
      using True by (simp add: dcr_present_def dcr_applyResult_def andThen_is_Inr)
    moreover obtain M where "events (snd (dcr_loadMask h s p (snd ?a))) = events (snd ?a) @ M"
      "list_all offTarget M"
      using dcr_loadMask_extends [of "snd ?a" h s p] unfolding extends_def by blast
    ultimately show ?thesis using True ok by (auto simp: assignInProcess_events)
  next
    case bad: False
    then have "fst ?a = Inl (AssignFailed ActiveView)" by (simp add: assignInProcess_def Let_def)
    then have "dcr_present h s p img \<sigma> = (Inl (AssignFailed ActiveView), snd ?a)"
      using True by (simp add: dcr_present_def dcr_applyResult_def andThen_is_Inl)
    then show ?thesis using True bad by (simp add: assignInProcess_events)
  qed
next
  case False
  have "extends offTarget \<sigma> (snd (dcr_present h s p img \<sigma>))"
    using False unfolding dcr_present_def dcr_applyResult_def
    by (auto intro!: extends_andThen showInNewWindow_extends dcr_loadMask_extends)
  then show ?thesis using False by (simp add: extends_def)
qed

lemma dcr_try_onView:
  "onView ActiveView (newEvents \<sigma> (snd (dcr_try h s \<sigma>))) = []
   \<or> onView ActiveView (newEvents \<sigma> (snd (dcr_try h s \<sigma>))) =
       BeginProcess ActiveView # Assign ActiveView
       # (if assignOk h ActiveView then [EndProcess ActiveView] else [])"
proof -
  let ?o = "dcr_obtain h s \<sigma>"
  obtain W where W: "events (snd ?o) = events \<sigma> @ W" "list_all (\<lambda>e. kind e = IO) W"
    using dcr_obtain_extends [of \<sigma> h s] unfolding extends_def by blast
  show ?thesis
  proof (cases "fst ?o")
    case (Inl e)
    then have "snd (dcr_try h s \<sigma>) = snd ?o" by (simp add: dcr_try_def andThen_is_Inl)
    then have "newEvents \<sigma> (snd (dcr_try h s \<sigma>)) = W"
      using W(1) by (simp add: newEvents_append)
    then show ?thesis using IO_not_onView [OF W(2)] by simp
  next
    case (Inr a)
    obtain p img where a: "a = (p, img)" by (cases a)
    have t: "dcr_try h s \<sigma> = dcr_present h s p img (snd ?o)"
      using Inr a by (simp add: dcr_try_def andThen_is_Inr)
    obtain M where M: "events (snd (dcr_present h s p img (snd ?o))) =
          events (snd ?o)
          @ (if replaceActive s
             then BeginProcess ActiveView # Assign ActiveView
                  # (if assignOk h ActiveView then [EndProcess ActiveView] else [])
             else [])
          @ M" "list_all offTarget M"
      using dcr_present_events by blast
    have "newEvents \<sigma> (snd (dcr_try h s \<sigma>)) =
        W @ (if replaceActive s
             then BeginProcess ActiveView # Assign ActiveView
                  # (if assignOk h ActiveView then [EndProcess ActiveView] else [])
             else []) @ M"
      by (rule newEvents_append) (simp add: t M(1) W(1))
    then show ?thesis
      using IO_not_onView [OF W(2), of ActiveView] offTarget_not_onView [OF M(2)]
      by (simp add: onView_def)
  qed
qed

lemma dcr_job_onView:
  "onView ActiveView (newEvents \<sigma> (snd (executeDeepCR h s \<sigma>))) = []
   \<or> onView ActiveView (newEvents \<sigma> (snd (executeDeepCR h s \<sigma>))) =
       BeginProcess ActiveView # Assign ActiveView
       # (if assignOk h ActiveView then [EndProcess ActiveView] else [])"
  unfolding dcr_onView_try by (rule dcr_try_onView)


lemma cleanupLoop_fields [simp]:
  "target (cleanupLoop h ps \<sigma>) = target \<sigma>"
  "windows (cleanupLoop h ps \<sigma>) = windows \<sigma>"
  "tempFile (cleanupLoop h ps \<sigma>) = tempFile \<sigma>"
  "outputPath (cleanupLoop h ps \<sigma>) = outputPath \<sigma>"
  "maskPath (cleanupLoop h ps \<sigma>) = maskPath \<sigma>"
  by (induction ps arbitrary: \<sigma>; simp add: File_remove_def Let_def split: option.splits)+

lemma cleanupLoop_extends: "extends (\<lambda>e. kind e = Removing) \<sigma> (cleanupLoop h ps \<sigma>)"
proof (induction ps arbitrary: \<sigma>)
  case Nil
  show ?case by (simp add: extends_refl)
next
  case (Cons po ps)
  have "extends (\<lambda>e. kind e = Removing) \<sigma>
     (case po of None \<Rightarrow> \<sigma>
      | Some p \<Rightarrow> if p \<noteq> [] \<and> File_exists \<sigma> p
                   then (case File_remove h p \<sigma> of (Inl e, \<sigma>1) \<Rightarrow> emit (Warning p) \<sigma>1
                         | (Inr _, \<sigma>1) \<Rightarrow> \<sigma>1)
                   else \<sigma>)"
    by (auto simp: extends_def File_remove_def Let_def split: option.splits)
  then show ?case using Cons.IH by (auto intro: extends_trans)
qed

lemma cleanupLoop_files: "files (cleanupLoop h ps \<sigma>) \<subseteq> files \<sigma>"
proof (induction ps arbitrary: \<sigma>)
  case Nil
  show ?case by simp
next
  case (Cons po ps)
  let ?\<sigma>1 = "case po of None \<Rightarrow> \<sigma>
      | Some p \<Rightarrow> if p \<noteq> [] \<and> File_exists \<sigma> p
                   then (case File_remove h p \<sigma> of (Inl e, \<sigma>1) \<Rightarrow> emit (Warning p) \<sigma>1
                         | (Inr _, \<sigma>1) \<Rightarrow> \<sigma>1)
                   else \<sigma>"
  have "files ?\<sigma>1 \<subseteq> files \<sigma>"
    by (auto simp: File_remove_def Let_def split: option.splits)
  moreover have "files (cleanupLoop h ps ?\<sigma>1) \<subseteq> files ?\<sigma>1" by (rule Cons.IH)
  ultimately show ?case by auto
qed

lemma cleanupLoop_gone:
  "Some p \<in> set ps \<Longrightarrow> removeOk h p \<Longrightarrow> p \<noteq> [] \<Longrightarrow> p \<notin> files (cleanupLoop h ps \<sigma>)"
proof (induction ps arbitrary: \<sigma>)
  case Nil
  then show ?case by simp
next
  case (Cons po ps)
  show ?case
  proof (cases "po = Some p")
    case True
    let ?\<sigma>1 = "if File_exists \<sigma> p
                then (case File_remove h p \<sigma> of (Inl e, \<sigma>1) \<Rightarrow> emit (Warning p) \<sigma>1
                      | (Inr _, \<sigma>1) \<Rightarrow> \<sigma>1)
                else \<sigma>"
    have "p \<notin> files ?\<sigma>1"
      using Cons.prems by (simp add: File_remove_def Let_def File_exists_def)
    moreover have "cleanupLoop h (po # ps) \<sigma> = cleanupLoop h ps ?\<sigma>1"
      using True Cons.prems by simp
    ultimately show ?thesis using cleanupLoop_files [of h ps ?\<sigma>1] by auto
  next
    case False
    with Cons.prems have "Some p \<in> set ps" by simp
    then show ?thesis using Cons.IH Cons.prems by simp
  qed
qed

lemma cleanupTempFiles_fields [simp]:
  "target (cleanupTempFiles h ps \<sigma>) = target \<sigma>"
  "windows (cleanupTempFiles h ps \<sigma>) = windows \<sigma>"
  "tempFile (cleanupTempFiles h ps \<sigma>) = tempFile \<sigma>"
  "outputPath (cleanupTempFiles h ps \<sigma>) = outputPath \<sigma>"
  "maskPath (cleanupTempFiles h ps \<sigma>) = maskPath \<sigma>"
  by (simp_all add: cleanupTempFiles_def)

lemma cleanupTempFiles_events:
  "\<exists>R. events (cleanupTempFiles h ps \<sigma>) = events \<sigma> @ Cleanup ps # R
       \<and> list_all (\<lambda>e. kind e = Removing) R"
  unfolding cleanupTempFiles_def by (intro extends_Cons cleanupLoop_extends)

lemma cleanupTempFiles_gone:
  "Some p \<in> set ps \<Longrightarrow> removeOk h p \<Longrightarrow> p \<noteq> [] \<Longrightarrow> p \<notin> files (cleanupTempFiles h ps \<sigma>)"
  unfolding cleanupTempFiles_def by (rule cleanupLoop_gone)

lemma loadFITSImage_extends: "extends (\<lambda>e. kind e = IO) \<sigma> (snd (loadFITSImage h p \<sigma>))"
  by (simp add: loadFITSImage_def readImageFile_extends)

lemma loadFITSImage_fields [simp]:
  "target (snd (loadFITSImage h p \<sigma>)) = target \<sigma>"
  "windows (snd (loadFITSImage h p \<sigma>)) = windows \<sigma>"
  by (simp_all add: loadFITSImage_def)

lemma loadFITSImage_Inl:
  "fst (loadFITSImage h p \<sigma>) = Inl e \<Longrightarrow> e = CannotOpen p \<or> e = CannotRead p"
  by (auto simp: loadFITSImage_def dest: readImageFile_Inl)

lemma lac_exportView_extends: "extends (\<lambda>e. kind e = IO) \<sigma> (snd (lac_exportView h s \<sigma>))"
  by (auto simp: lac_exportView_def Let_def extends_def)

lemma lac_runTool_extends: "extends (\<lambda>e. kind e = IO) \<sigma> (snd (lac_runTool h s p \<sigma>))"
  unfolding lac_runTool_def
  by (rule extends_andThen) (auto simp: superviseProcess_extends extends_refl)

lemma lac_loadCleaned_extends: "extends (\<lambda>e. kind e = IO) \<sigma> (snd (lac_loadCleaned h s p \<sigma>))"
  by (auto simp: lac_loadCleaned_def Let_def
      intro: extends_same extends_from [OF _ loadFITSImage_extends])

lemma lac_obtain_extends: "extends (\<lambda>e. kind e = IO) \<sigma> (snd (lac_obtain h s \<sigma>))"
  unfolding lac_obtain_def
  by (intro extends_andThen lac_exportView_extends lac_runTool_extends lac_loadCleaned_extends)
     (simp add: extends_refl)

lemma lac_exportView_fields [simp]:
  "target (snd (lac_exportView h s \<sigma>)) = target \<sigma>"
  "windows (snd (lac_exportView h s \<sigma>)) = windows \<sigma>"
  by (simp_all add: lac_exportView_def Let_def)

lemma lac_runTool_fields [simp]:
  "target (snd (lac_runTool h s p \<sigma>)) = target \<sigma>"
  "windows (snd (lac_runTool h s p \<sigma>)) = windows \<sigma>"
  by (simp_all add: lac_runTool_def andThen_fields)

lemma lac_loadCleaned_fields [simp]:
  "target (snd (lac_loadCleaned h s p \<sigma>)) = target \<sigma>"
  "windows (snd (lac_loadCleaned h s p \<sigma>)) = windows \<sigma>"
  by (simp_all add: lac_loadCleaned_def Let_def)

lemma lac_obtain_fields [simp]:
  "target (snd (lac_obtain h s \<sigma>)) = target \<sigma>"
  "windows (snd (lac_obtain h s \<sigma>)) = windows \<sigma>"
  by (simp_all add: lac_obtain_def andThen_fields)

lemma lac_exportView_Inl: "fst (lac_exportView h s \<sigma>) = Inl e \<Longrightarrow> primaryFailure c e"
  by (auto simp: lac_exportView_def Let_def split: if_splits)

lemma lac_exportView_Inr:
  "fst (lac_exportView h s \<sigma>) = Inr p \<Longrightarrow> p = lac_generateSecureTempFilename h"
  by (auto simp: lac_exportView_def Let_def split: if_splits)

lemma lac_runTool_Inl: "fst (lac_runTool h s p \<sigma>) = Inl e \<Longrightarrow> primaryFailure c e"
  by (auto simp: lac_runTool_def superviseProcess_def andThen_def Let_def
      split: if_splits waited.splits)

lemma lac_loadCleaned_Inl:
  "fst (lac_loadCleaned h s p \<sigma>) = Inl e \<Longrightarrow> primaryFailure (lac_outputPath s p) e"
  by (auto simp: lac_loadCleaned_def Let_def split: if_splits dest: loadFITSImage_Inl)

lemma lac_obtain_Inl:
  assumes "fst (lac_obtain h s \<sigma>) = Inl e"
  shows "primaryFailure (lac_outputPath s (lac_generateSecureTempFilename h)) e"
  using assms unfolding lac_obtain_def
  by (auto dest!: andThen_Inl dest: lac_exportView_Inl lac_runTool_Inl lac_loadCleaned_Inl
      lac_exportView_Inr)


lemma lac_loadMask_extends: "extends offTarget \<sigma> (snd (lac_loadMask h s p \<sigma>))"
  unfolding lac_loadMask_def
  by (auto intro!: extends_andThen showInNewWindow_extends extends_refl
      extends_mono [OF loadFITSImage_extends] IO_offTarget)

lemma lac_output_neq_mask: "lac_maskPath s p \<noteq> lac_outputPath s p"
  by (simp add: lac_maskPath_def lac_outputPath_def)




lemma lac_applyResult_extends: "extends working \<sigma> (snd (lac_applyResult h s img \<sigma>))"
  unfolding lac_applyResult_def
  by (auto intro: extends_mono [OF assignInProcess_extends]
      extends_mono [OF showInNewWindow_extends] offTarget_working simp: working_def)

lemma lac_present_extends: "extends working \<sigma> (snd (lac_present h s p img \<sigma>))"
  unfolding lac_present_def
  by (intro extends_andThen lac_applyResult_extends
      extends_mono [OF lac_loadMask_extends] offTarget_working)

lemma lac_try_extends: "extends working \<sigma> (snd (lac_try h s \<sigma>))"
  unfolding lac_try_def
  by (intro extends_andThen extends_mono [OF lac_obtain_extends] IO_working)
     (auto simp: lac_present_extends)



lemma executeCosmicRayRemoval_eq:
  "executeCosmicRayRemoval h s \<sigma> =
     (lac_outcome h s \<sigma>,
      tell (lac_tellsLast (lac_outcome h s \<sigma>))
        (cleanupTempFiles h
           [tempFile (snd (lac_try h s (jobStart \<sigma>))), outputPath (snd (lac_try h s (jobStart \<sigma>))),
            maskPath (snd (lac_try h s (jobStart \<sigma>)))]
           (tell (lac_tellsFirst (lac_outcome h s \<sigma>)) (snd (lac_try h s (jobStart \<sigma>))))))"
  by (simp add: executeCosmicRayRemoval_def lac_outcome_def tell_def emit_def
      split: prod.splits sum.splits)

lemma lac_job_fields:
  "tempFile (snd (executeCosmicRayRemoval h s \<sigma>)) = tempFile (snd (lac_try h s (jobStart \<sigma>)))"
  "outputPath (snd (executeCosmicRayRemoval h s \<sigma>)) = outputPath (snd (lac_try h s (jobStart \<sigma>)))"
  "maskPath (snd (executeCosmicRayRemoval h s \<sigma>)) = maskPath (snd (lac_try h s (jobStart \<sigma>)))"
  "target (snd (executeCosmicRayRemoval h s \<sigma>)) = target (snd (lac_try h s (jobStart \<sigma>)))"
  by (simp_all add: executeCosmicRayRemoval_eq)

lemma lac_try_working:
  "list_all working (newEvents (jobStart \<sigma>) (snd (lac_try h s (jobStart \<sigma>))))"
  using extends_newEvents [OF lac_try_extends] by blast

lemma lac_job_events:
  "\<exists>R. newEvents \<sigma> (snd (executeCosmicRayRemoval h s \<sigma>)) =
          newEvents (jobStart \<sigma>) (snd (lac_try h s (jobStart \<sigma>)))
          @ lac_tellsFirst (lac_outcome h s \<sigma>)
          @ Cleanup [tempFile (snd (executeCosmicRayRemoval h s \<sigma>)),
                     outputPath (snd (executeCosmicRayRemoval h s \<sigma>)),
                     maskPath (snd (executeCosmicRayRemoval h s \<sigma>))] # R
          @ lac_tellsLast (lac_outcome h s \<sigma>)
        \<and> list_all (\<lambda>e. kind e = Removing) R"
proof -
  let ?t = "snd (lac_try h s (jobStart \<sigma>))"
  let ?u = "tell (lac_tellsFirst (lac_outcome h s \<sigma>)) ?t"
  let ?W = "newEvents (jobStart \<sigma>) ?t"
  let ?ps = "[tempFile ?t, outputPath ?t, maskPath ?t]"
  obtain R where R: "events (cleanupTempFiles h ?ps ?u) = events ?u @ Cleanup ?ps # R"
    "list_all (\<lambda>e. kind e = Removing) R"
    using cleanupTempFiles_events by blast
  have W: "events ?t = events \<sigma> @ ?W"
    using extends_newEvents [OF lac_try_extends [where \<sigma> = "jobStart \<sigma>"]]
    by (simp add: jobStart_def)
  have "events (snd (executeCosmicRayRemoval h s \<sigma>)) =
      events \<sigma> @ (?W @ lac_tellsFirst (lac_outcome h s \<sigma>) @ Cleanup ?ps # R
        @ lac_tellsLast (lac_outcome h s \<sigma>))"
    unfolding executeCosmicRayRemoval_eq by (simp add: R(1) W)
  then have "newEvents \<sigma> (snd (executeCosmicRayRemoval h s \<sigma>)) =
      ?W @ lac_tellsFirst (lac_outcome h s \<sigma>) @ Cleanup ?ps # R
        @ lac_tellsLast (lac_outcome h s \<sigma>)"
    by (rule newEvents_append)
  then show ?thesis using R(2) by (auto simp: lac_job_fields)
qed

lemma lac_cleanups:
  "cleanups (newEvents \<sigma> (snd (executeCosmicRayRemoval h s \<sigma>))) = 1"
  "told (beforeCleanup (newEvents \<sigma> (snd (executeCosmicRayRemoval h s \<sigma>))))
     = lac_tellsFirst (lac_outcome h s \<sigma>)"
  "told (fromCleanup (newEvents \<sigma> (snd (executeCosmicRayRemoval h s \<sigma>))))
     = lac_tellsLast (lac_outcome h s \<sigma>)"
proof -
  obtain R where R: "newEvents \<sigma> (snd (executeCosmicRayRemoval h s \<sigma>)) =
      newEvents (jobStart \<sigma>) (snd (lac_try h s (jobStart \<sigma>)))
      @ lac_tellsFirst (lac_outcome h s \<sigma>)
      @ Cleanup [tempFile (snd (executeCosmicRayRemoval h s \<sigma>)),
                     outputPath (snd (executeCosmicRayRemoval h s \<sigma>)),
                     maskPath (snd (executeCosmicRayRemoval h s \<sigma>))] # R
          @ lac_tellsLast (lac_outcome h s \<sigma>)"
    "list_all (\<lambda>e. kind e = Removing) R"
    using lac_job_events by blast
  note shape = job_shape [OF lac_try_working R(2) tells_kind(2) tells_kind(3)]
  show "cleanups (newEvents \<sigma> (snd (executeCosmicRayRemoval h s \<sigma>))) = 1"
    "told (beforeCleanup (newEvents \<sigma> (snd (executeCosmicRayRemoval h s \<sigma>))))
       = lac_tellsFirst (lac_outcome h s \<sigma>)"
    "told (fromCleanup (newEvents \<sigma> (snd (executeCosmicRayRemoval h s \<sigma>))))
       = lac_tellsLast (lac_outcome h s \<sigma>)"
    unfolding R(1) by (simp_all only: shape)
qed


lemma lac_onView_try:
  "onView ActiveView (newEvents \<sigma> (snd (executeCosmicRayRemoval h s \<sigma>))) =
     onView ActiveView (newEvents (jobStart \<sigma>) (snd (lac_try h s (jobStart \<sigma>))))"
proof -
  obtain R where R: "newEvents \<sigma> (snd (executeCosmicRayRemoval h s \<sigma>)) =
      newEvents (jobStart \<sigma>) (snd (lac_try h s (jobStart \<sigma>)))
      @ lac_tellsFirst (lac_outcome h s \<sigma>)
      @ Cleanup [tempFile (snd (executeCosmicRayRemoval h s \<sigma>)),
                     outputPath (snd (executeCosmicRayRemoval h s \<sigma>)),
                     maskPath (snd (executeCosmicRayRemoval h s \<sigma>))] # R
          @ lac_tellsLast (lac_outcome h s \<sigma>)"
    "list_all (\<lambda>e. kind e = Removing) R"
    using lac_job_events by blast
  show ?thesis
    unfolding R(1) by (rule job_shape(5) [OF lac_try_working R(2) tells_kind(2) tells_kind(3)])
qed

lemma lac_gone:
  assumes "removeOk h p" and "p \<noteq> []"
    and "Some p = tempFile (snd (executeCosmicRayRemoval h s \<sigma>))
         \<or> Some p = outputPath (snd (executeCosmicRayRemoval h s \<sigma>))
         \<or> Some p = maskPath (snd (executeCosmicRayRemoval h s \<sigma>))"
  shows "p \<notin> files (snd (executeCosmicRayRemoval h s \<sigma>))"
proof -
  let ?t = "snd (lac_try h s (jobStart \<sigma>))"
  have "Some p \<in> set [tempFile ?t, outputPath ?t, maskPath ?t]"
    using assms(3) by (auto simp: lac_job_fields)
  then have "p \<notin> files (cleanupTempFiles h [tempFile ?t, outputPath ?t, maskPath ?t]
      (tell (lac_tellsFirst (lac_outcome h s \<sigma>)) ?t))"
    using assms(1,2) by (rule cleanupTempFiles_gone)
  then show ?thesis by (simp add: executeCosmicRayRemoval_eq)
qed


lemma lac_present_events:
  "\<exists>M. events (snd (lac_present h s p img \<sigma>)) =
          events \<sigma>
          @ (if lac_replaceActive s
             then BeginProcess ActiveView # Assign ActiveView
                  # (if assignOk h ActiveView then [EndProcess ActiveView] else [])
             else [])
          @ M
       \<and> list_all offTarget M"
proof (cases "lac_replaceActive s")
  case True
  let ?a = "assignInProcess h ActiveView img \<sigma>"
  show ?thesis
  proof (cases "assignOk h ActiveView")
    case ok: True
    then have "fst ?a = Inr ()" by (simp add: assignInProcess_def Let_def)
    then have "lac_present h s p img \<sigma> = lac_loadMask h s p (snd ?a)"
      using True by (simp add: lac_present_def lac_applyResult_def andThen_is_Inr)
    moreover obtain M where "events (snd (lac_loadMask h s p (snd ?a))) = events (snd ?a) @ M"
      "list_all offTarget M"
      using lac_loadMask_extends [of "snd ?a" h s p] unfolding extends_def by blast
    ultimately show ?thesis using True ok by (auto simp: assignInProcess_events)
  next
    case bad: False
    then have "fst ?a = Inl (AssignFailed ActiveView)" by (simp add: assignInProcess_def Let_def)
    then have "lac_present h s p img \<sigma> = (Inl (AssignFailed ActiveView), snd ?a)"
      using True by (simp add: lac_present_def lac_applyResult_def andThen_is_Inl)
    then show ?thesis using True bad by (simp add: assignInProcess_events)
  qed
next
  case False
  have "extends offTarget \<sigma> (snd (lac_present h s p img \<sigma>))"
    using False unfolding lac_present_def lac_applyResult_def
    by (auto intro!: extends_andThen showInNewWindow_extends lac_loadMask_extends)
  then show ?thesis using False by (simp add: extends_def)
qed

lemma lac_try_onView:
  "onView ActiveView (newEvents \<sigma> (snd (lac_try h s \<sigma>))) = []
   \<or> onView ActiveView (newEvents \<sigma> (snd (lac_try h s \<sigma>))) =
       BeginProcess ActiveView # Assign ActiveView
       # (if assignOk h ActiveView then [EndProcess ActiveView] else [])"
proof -
  let ?o = "lac_obtain h s \<sigma>"
  obtain W where W: "events (snd ?o) = events \<sigma> @ W" "list_all (\<lambda>e. kind e = IO) W"
    using lac_obtain_extends [of \<sigma> h s] unfolding extends_def by blast
  show ?thesis
  proof (cases "fst ?o")
    case (Inl e)
    then have "snd (lac_try h s \<sigma>) = snd ?o" by (simp add: lac_try_def andThen_is_Inl)
    then have "newEvents \<sigma> (snd (lac_try h s \<sigma>)) = W"
      using W(1) by (simp add: newEvents_append)
    then show ?thesis using IO_not_onView [OF W(2)] by simp
  next
    case (Inr a)
    obtain p img where a: "a = (p, img)" by (cases a)
    have t: "lac_try h s \<sigma> = lac_present h s p img (snd ?o)"
      using Inr a by (simp add: lac_try_def andThen_is_Inr)
    obtain M where M: "events (snd (lac_present h s p img (snd ?o))) =
          events (snd ?o)
          @ (if lac_replaceActive s
             then BeginProcess ActiveView # Assign ActiveView
                  # (if assignOk h ActiveView then [EndProcess ActiveView] else [])
             else [])
          @ M" "list_all offTarget M"
      using lac_present_events by blast
    have "newEvents \<sigma> (snd (lac_try h s \<sigma>)) =
        W @ (if lac_replaceActive s
             then BeginProcess ActiveView # Assign ActiveView
                  # (if assignOk h ActiveView then [EndProcess ActiveView] else [])
             else []) @ M"
      by (rule newEvents_append) (simp add: t M(1) W(1))
    then show ?thesis
      using IO_not_onView [OF W(2), of ActiveView] offTarget_not_onView [OF M(2)]
      by (simp add: onView_def)
  qed
qed

lemma lac_job_onView:
  "onView ActiveView (newEvents \<sigma> (snd (executeCosmicRayRemoval h s \<sigma>))) = []
   \<or> onView ActiveView (newEvents \<sigma> (snd (executeCosmicRayRemoval h s \<sigma>))) =
       BeginProcess ActiveView # Assign ActiveView
       # (if assignOk h ActiveView then [EndProcess ActiveView] else [])"
  unfolding lac_onView_try by (rule lac_try_onView)


lemma cc_try_events:
  "\<exists>W. events (snd (cc_try h d \<sigma>)) = events \<sigma> @ W \<and> list_all working W
       \<and> (onView ActiveView W = []
          \<or> onView ActiveView W = BeginProcess ActiveView # Assign ActiveView
               # (if assignOk h ActiveView then [EndProcess ActiveView] else []))"
  by (auto simp: cc_try_def Let_def andThen_def assignInProcess_def working_def onView_def
      File_exists_def emit_def split: list.splits)

lemma cc_finally_fields [simp]:
  "target (cc_finally h \<sigma>) = target \<sigma>"
  "windows (cc_finally h \<sigma>) = windows \<sigma>"
  by (simp_all add: cc_finally_def Let_def File_remove_def split: prod.splits sum.splits)

lemma cc_finally_events:
  "\<exists>R. events (cc_finally h \<sigma>) =
          events \<sigma> @ Cleanup [Some (cc_tempInputFile h), Some (cc_tempOutputFile h)] # R
       \<and> list_all (\<lambda>e. kind e = Removing) R"
  by (auto simp: cc_finally_def Let_def File_remove_def emit_def)

lemma cc_finally_gone:
  assumes "\<forall>p. removeOk h p"
  shows "cc_tempInputFile h \<notin> files (cc_finally h \<sigma>)"
    and "cc_tempOutputFile h \<notin> files (cc_finally h \<sigma>)"
  using assms by (auto simp: cc_finally_def Let_def File_remove_def emit_def File_exists_def)

lemma applyCosmeticCorrection_snd:
  "snd (applyCosmeticCorrection h d \<sigma>) =
     cc_finally h (tell (cc_tells (cc_outcome h d \<sigma>)) (snd (cc_try h d \<sigma>)))"
  by (simp add: applyCosmeticCorrection_def cc_outcome_def Let_def tell_def emit_def cc_tells_def
      split: prod.splits)

lemma cc_job_events:
  "\<exists>W R. newEvents \<sigma> (snd (applyCosmeticCorrection h d \<sigma>)) =
          W @ cc_tells (cc_outcome h d \<sigma>)
          @ Cleanup [Some (cc_tempInputFile h), Some (cc_tempOutputFile h)] # R
        \<and> list_all working W \<and> list_all (\<lambda>e. kind e = Removing) R
        \<and> (onView ActiveView W = []
          \<or> onView ActiveView W = BeginProcess ActiveView # Assign ActiveView
               # (if assignOk h ActiveView then [EndProcess ActiveView] else []))"
proof -
  let ?t = "snd (cc_try h d \<sigma>)"
  let ?u = "tell (cc_tells (cc_outcome h d \<sigma>)) ?t"
  obtain W where W: "events ?t = events \<sigma> @ W" "list_all working W"
    "onView ActiveView W = []
          \<or> onView ActiveView W = BeginProcess ActiveView # Assign ActiveView
               # (if assignOk h ActiveView then [EndProcess ActiveView] else [])"
    using cc_try_events by blast
  obtain R where R: "events (cc_finally h ?u) =
      events ?u @ Cleanup [Some (cc_tempInputFile h), Some (cc_tempOutputFile h)] # R"
    "list_all (\<lambda>e. kind e = Removing) R"
    using cc_finally_events by blast
  have "events (snd (applyCosmeticCorrection h d \<sigma>)) =
      events \<sigma> @ (W @ cc_tells (cc_outcome h d \<sigma>)
        @ Cleanup [Some (cc_tempInputFile h), Some (cc_tempOutputFile h)] # R)"
    unfolding applyCosmeticCorrection_snd R(1) by (simp add: W(1))
  then have "newEvents \<sigma> (snd (applyCosmeticCorrection h d \<sigma>)) =
      W @ cc_tells (cc_outcome h d \<sigma>)
        @ Cleanup [Some (cc_tempInputFile h), Some (cc_tempOutputFile h)] # R"
    by (rule newEvents_append)
  then show ?thesis using W(2,3) R(2) by blast
qed

lemma cc_cleanups:
  "cleanups (newEvents \<sigma> (snd (applyCosmeticCorrection h d \<sigma>))) = 1"
  "told (beforeCleanup (newEvents \<sigma> (snd (applyCosmeticCorrection h d \<sigma>))))
     = cc_tells (cc_outcome h d \<sigma>)"
  "told (fromCleanup (newEvents \<sigma> (snd (applyCosmeticCorrection h d \<sigma>)))) = []"
proof -
  obtain W R where R: "newEvents \<sigma> (snd (applyCosmeticCorrection h d \<sigma>)) =
          W @ cc_tells (cc_outcome h d \<sigma>)
          @ Cleanup [Some (cc_tempInputFile h), Some (cc_tempOutputFile h)] # R @ []"
     "list_all working W" "list_all (\<lambda>e. kind e = Removing) R"
    using cc_job_events [of \<sigma> h d] by auto
  note shape = job_shape [OF R(2,3) tells_kind(4), of "[]", simplified]
  show "cleanups (newEvents \<sigma> (snd (applyCosmeticCorrection h d \<sigma>))) = 1"
    "told (beforeCleanup (newEvents \<sigma> (snd (applyCosmeticCorrection h d \<sigma>))))
       = cc_tells (cc_outcome h d \<sigma>)"
    "told (fromCleanup (newEvents \<sigma> (snd (applyCosmeticCorrection h d \<sigma>)))) = []"
    unfolding R(1) by (simp_all add: shape)
qed

lemma cc_gone:
  assumes "\<forall>p. removeOk h p"
  shows "cc_tempInputFile h \<notin> files (snd (applyCosmeticCorrection h d \<sigma>))"
    and "cc_tempOutputFile h \<notin> files (snd (applyCosmeticCorrection h d \<sigma>))"
  unfolding applyCosmeticCorrection_snd using assms by (rule cc_finally_gone)+

lemma cc_job_onView:
  "onView ActiveView (newEvents \<sigma> (snd (applyCosmeticCorrection h d \<sigma>))) = []
   \<or> onView ActiveView (newEvents \<sigma> (snd (applyCosmeticCorrection h d \<sigma>))) =
       BeginProcess ActiveView # Assign ActiveView
       # (if assignOk h ActiveView then [EndProcess ActiveView] else [])"
proof -
  obtain W R where R: "newEvents \<sigma> (snd (applyCosmeticCorrection h d \<sigma>)) =
          W @ cc_tells (cc_outcome h d \<sigma>)
          @ Cleanup [Some (cc_tempInputFile h), Some (cc_tempOutputFile h)] # R @ []"
     "list_all working W" "list_all (\<lambda>e. kind e = Removing) R"
     "onView ActiveView W = []
          \<or> onView ActiveView W = BeginProcess ActiveView # Assign ActiveView
               # (if assignOk h ActiveView then [EndProcess ActiveView] else [])"
    using cc_job_events [of \<sigma> h d] by auto
  show ?thesis
    unfolding R(1) job_shape(5) [OF R(2,3) tells_kind(4) no_events] by (rule R(4))
qed

subsection \<open>Runs with a given course\<close>

lemma dcr_tmp_nonempty [simp]: "dcr_generateSecureTempFilename h \<noteq> []"
  by (simp add: dcr_generateSecureTempFilename_def)

lemma lac_tmp_nonempty [simp]: "lac_generateSecureTempFilename h \<noteq> []"
  by (simp add: lac_generateSecureTempFilename_def)

lemma dcr_obtain_exit_code:
  assumes "wrapperScript s \<in> files \<sigma>" "activeWindow h"
    "saveAsOk h (dcr_generateSecureTempFilename h)"
    "waitLoop (duration (dcr_child h s)) (processEventsMillis h) 0 0 = Finished t"
    "exitStatus (dcr_child h s) \<noteq> 0"
  shows "dcr_obtain h s \<sigma> =
     (Inl (ProcessFailed (exitStatus (dcr_child h s))),
      \<sigma>\<lparr>tempFile := Some (dcr_generateSecureTempFilename h),
        events := events \<sigma> @ [SaveAs (dcr_generateSecureTempFilename h), Spawn (dcr_command h s)],
        files := files \<sigma> \<union> {dcr_generateSecureTempFilename h} \<union> set (written (dcr_child h s))\<rparr>)"
  using assms
  by (simp add: dcr_obtain_def dcr_exportView_def dcr_runTool_def superviseProcess_def
      andThen_def Let_def File_exists_def emit_def dcr_child_def dcr_command_def)

lemma dcr_exit_code_gating:
  assumes "wrapperScript s \<in> files \<sigma>" "activeWindow h"
    "saveAsOk h (dcr_generateSecureTempFilename h)"
    "waitLoop (duration (dcr_child h s)) (processEventsMillis h) 0 0 = Finished t"
    "exitStatus (dcr_child h s) \<noteq> 0"
  shows "newEvents \<sigma> (snd (executeDeepCR h s \<sigma>)) =
     [SaveAs (dcr_generateSecureTempFilename h), Spawn (dcr_command h s),
      Report (Failed (ProcessFailed (exitStatus (dcr_child h s)))),
      MessageBox (Failed (ProcessFailed (exitStatus (dcr_child h s)))),
      Cleanup [Some (dcr_generateSecureTempFilename h), None, None],
      Remove (dcr_generateSecureTempFilename h)]"
    and "target (snd (executeDeepCR h s \<sigma>)) = target \<sigma>"
    and "windows (snd (executeDeepCR h s \<sigma>)) = windows \<sigma>"
proof -
  have o: "dcr_obtain h s (jobStart \<sigma>) =
     (Inl (ProcessFailed (exitStatus (dcr_child h s))),
      (jobStart \<sigma>)\<lparr>tempFile := Some (dcr_generateSecureTempFilename h),
        events := events (jobStart \<sigma>) @ [SaveAs (dcr_generateSecureTempFilename h), Spawn (dcr_command h s)],
        files := files (jobStart \<sigma>) \<union> {dcr_generateSecureTempFilename h} \<union> set (written (dcr_child h s))\<rparr>)"
    using assms by (intro dcr_obtain_exit_code) (simp_all add: jobStart_def)
  have t: "dcr_try h s (jobStart \<sigma>) =
     (Inl (ProcessFailed (exitStatus (dcr_child h s))), snd (dcr_obtain h s (jobStart \<sigma>)))"
    unfolding dcr_try_def o by (simp add: andThen_def)
  have "events (snd (executeDeepCR h s \<sigma>)) = events \<sigma> @
     [SaveAs (dcr_generateSecureTempFilename h), Spawn (dcr_command h s),
      Report (Failed (ProcessFailed (exitStatus (dcr_child h s)))),
      MessageBox (Failed (ProcessFailed (exitStatus (dcr_child h s)))),
      Cleanup [Some (dcr_generateSecureTempFilename h), None, None],
      Remove (dcr_generateSecureTempFilename h)]"
    unfolding executeDeepCR_snd dcr_outcome_def t unfolding o
    by (simp add: dcr_finally_def removeIfExists_def andThen_def File_exists_def File_remove_def
        Let_def emit_def tell_def jobStart_def)
  then show "newEvents \<sigma> (snd (executeDeepCR h s \<sigma>)) =
     [SaveAs (dcr_generateSecureTempFilename h), Spawn (dcr_command h s),
      Report (Failed (ProcessFailed (exitStatus (dcr_child h s)))),
      MessageBox (Failed (ProcessFailed (exitStatus (dcr_child h s)))),
      Cleanup [Some (dcr_generateSecureTempFilename h), None, None],
      Remove (dcr_generateSecureTempFilename h)]"
    by (rule newEvents_append)
  show "target (snd (executeDeepCR h s \<sigma>)) = target \<sigma>"
    unfolding executeDeepCR_snd t unfolding o by (simp add: jobStart_def)
  show "windows (snd (executeDeepCR h s \<sigma>)) = windows \<sigma>"
    unfolding executeDeepCR_snd t unfolding o by (simp add: jobStart_def)
qed

lemma lac_obtain_exit_code:
  assumes "lac_wrapperScript s \<in> files \<sigma>" "activeWindow h"
    "saveAsOk h (lac_generateSecureTempFilename h)"
    "waitLoop (duration (lac_child h s)) (processEventsMillis h) 0 0 = Finished t"
    "exitStatus (lac_child h s) \<noteq> 0"
  shows "lac_obtain h s \<sigma> =
     (Inl (ProcessFailed (exitStatus (lac_child h s))),
      \<sigma>\<lparr>tempFile := Some (lac_generateSecureTempFilename h),
        events := events \<sigma> @ [SaveAs (lac_generateSecureTempFilename h), Spawn (lac_command h s)],
        files := files \<sigma> \<union> {lac_generateSecureTempFilename h} \<union> set (written (lac_child h s))\<rparr>)"
  using assms
  by (simp add: lac_obtain_def lac_exportView_def lac_runTool_def superviseProcess_def
      andThen_def Let_def File_exists_def emit_def lac_child_def lac_command_def)

lemma lac_exit_code_gating:
  assumes "lac_wrapperScript s \<in> files \<sigma>" "activeWindow h"
    "saveAsOk h (lac_generateSecureTempFilename h)"
    "waitLoop (duration (lac_child h s)) (processEventsMillis h) 0 0 = Finished t"
    "exitStatus (lac_child h s) \<noteq> 0"
  shows "newEvents \<sigma> (snd (executeCosmicRayRemoval h s \<sigma>)) =
     [SaveAs (lac_generateSecureTempFilename h), Spawn (lac_command h s),
      Report (Failed (ProcessFailed (exitStatus (lac_child h s)))),
      Cleanup [Some (lac_generateSecureTempFilename h), None, None],
      Remove (lac_generateSecureTempFilename h)]
     @ (if removeOk h (lac_generateSecureTempFilename h) then []
        else [Warning (lac_generateSecureTempFilename h)])
     @ [MessageBox (Failed (ProcessFailed (exitStatus (lac_child h s))))]"
    and "target (snd (executeCosmicRayRemoval h s \<sigma>)) = target \<sigma>"
    and "windows (snd (executeCosmicRayRemoval h s \<sigma>)) = windows \<sigma>"
proof -
  have o: "lac_obtain h s (jobStart \<sigma>) =
     (Inl (ProcessFailed (exitStatus (lac_child h s))),
      (jobStart \<sigma>)\<lparr>tempFile := Some (lac_generateSecureTempFilename h),
        events := events (jobStart \<sigma>) @ [SaveAs (lac_generateSecureTempFilename h), Spawn (lac_command h s)],
        files := files (jobStart \<sigma>) \<union> {lac_generateSecureTempFilename h} \<union> set (written (lac_child h s))\<rparr>)"
    using assms by (intro lac_obtain_exit_code) (simp_all add: jobStart_def)
  have t: "lac_try h s (jobStart \<sigma>) =
     (Inl (ProcessFailed (exitStatus (lac_child h s))), snd (lac_obtain h s (jobStart \<sigma>)))"
    unfolding lac_try_def o by (simp add: andThen_def)
  have "events (snd (executeCosmicRayRemoval h s \<sigma>)) = events \<sigma> @
     ([SaveAs (lac_generateSecureTempFilename h), Spawn (lac_command h s),
      Report (Failed (ProcessFailed (exitStatus (lac_child h s)))),
      Cleanup [Some (lac_generateSecureTempFilename h), None, None],
      Remove (lac_generateSecureTempFilename h)]
     @ (if removeOk h (lac_generateSecureTempFilename h) then []
        else [Warning (lac_generateSecureTempFilename h)])
     @ [MessageBox (Failed (ProcessFailed (exitStatus (lac_child h s))))])"
    unfolding executeCosmicRayRemoval_eq lac_outcome_def t unfolding o
    by (simp add: cleanupTempFiles_def File_exists_def File_remove_def
        Let_def emit_def tell_def jobStart_def)
  then show "newEvents \<sigma> (snd (executeCosmicRayRemoval h s \<sigma>)) =
     [SaveAs (lac_generateSecureTempFilename h), Spawn (lac_command h s),
      Report (Failed (ProcessFailed (exitStatus (lac_child h s)))),
      Cleanup [Some (lac_generateSecureTempFilename h), None, None],
      Remove (lac_generateSecureTempFilename h)]
     @ (if removeOk h (lac_generateSecureTempFilename h) then []
        else [Warning (lac_generateSecureTempFilename h)])
     @ [MessageBox (Failed (ProcessFailed (exitStatus (lac_child h s))))]"
    by (rule newEvents_append)
  show "target (snd (executeCosmicRayRemoval h s \<sigma>)) = target \<sigma>"
    unfolding executeCosmicRayRemoval_eq t unfolding o by (simp add: jobStart_def)
  show "windows (snd (executeCosmicRayRemoval h s \<sigma>)) = windows \<sigma>"
    unfolding executeCosmicRayRemoval_eq t unfolding o by (simp add: jobStart_def)
qed


lemma endsWith_append: "endsWith b suf \<Longrightarrow> endsWith (a @ b) suf"
  by (auto simp: endsWith_def)

lemma loadImage_xisf:
  "endsWith (toLowerCase b) ''.xisf'' \<Longrightarrow>
     loadImage h (a @ b) \<sigma> = readImageFile h ''.xisf'' (a @ b) \<sigma>"
  by (simp add: loadImage_def Let_def toLowerCase_def endsWith_append)

lemma dcr_loadImage_cleaned:
  "loadImage h (dcr_cleanedPath h s p) \<sigma> = readImageFile h ''.xisf'' (dcr_cleanedPath h s p) \<sigma>"
proof -
  have "dcr_cleanedPath h s p =
      (outputDir s @ ''/'' @ dcr_baseName p @ ''_deepcr_th'' @ numberToString h (threshold s))
      @ ''_cleaned.xisf''"
    by (simp add: dcr_cleanedPath_def)
  moreover have "endsWith (toLowerCase ''_cleaned.xisf'') ''.xisf''"
    by (simp add: endsWith_def toLowerCase_def toLowerChar_def)
  ultimately show ?thesis by (simp only: loadImage_xisf)
qed

lemma dcr_try_mask_missing:
  assumes "wrapperScript s \<in> files \<sigma>" "activeWindow h"
    "saveAsOk h (dcr_generateSecureTempFilename h)"
    "waitLoop (duration (dcr_child h s)) (processEventsMillis h) 0 0 = Finished t"
    "exitStatus (dcr_child h s) = 0"
    "dcr_cleanedPath h s (dcr_generateSecureTempFilename h)
       \<in> files \<sigma> \<union> {dcr_generateSecureTempFilename h} \<union> set (written (dcr_child h s))"
    "decode h ''.xisf'' (dcr_cleanedPath h s (dcr_generateSecureTempFilename h)) = Decoded img"
    "\<forall>v. assignOk h v"
    "saveMask s"
    "dcr_maskPath h s (dcr_generateSecureTempFilename h)
       \<notin> files \<sigma> \<union> {dcr_generateSecureTempFilename h} \<union> set (written (dcr_child h s))"
  shows "fst (dcr_try h s \<sigma>) = Inr ()"
    and "events (snd (dcr_try h s \<sigma>)) = events \<sigma> @
      [SaveAs (dcr_generateSecureTempFilename h), Spawn (dcr_command h s),
       OpenFile ''.xisf'' (dcr_cleanedPath h s (dcr_generateSecureTempFilename h)),
       ReadImage (dcr_cleanedPath h s (dcr_generateSecureTempFilename h)),
       CloseFile (dcr_cleanedPath h s (dcr_generateSecureTempFilename h))]
      @ (if replaceActive s
         then [BeginProcess ActiveView, Assign ActiveView, EndProcess ActiveView]
         else [NewWindow (mainViewId h @ ''_DeepCR''),
               BeginProcess (CreatedView (mainViewId h @ ''_DeepCR'')),
               Assign (CreatedView (mainViewId h @ ''_DeepCR'')),
               EndProcess (CreatedView (mainViewId h @ ''_DeepCR'')),
               ShowWindow (mainViewId h @ ''_DeepCR'')])"
  using assms
  by (simp_all add: dcr_try_def dcr_obtain_def dcr_present_def dcr_exportView_def dcr_runTool_def
      superviseProcess_def dcr_loadCleaned_def dcr_loadImage_cleaned readImageFile_def
      dcr_applyResult_def assignInProcess_def showInNewWindow_def dcr_loadMask_def
      andThen_def Let_def File_exists_def emit_def dcr_child_def dcr_command_def)


lemma removing_only: "list_all (\<lambda>e. kind e = Removing) R \<Longrightarrow> kind e \<noteq> Removing \<Longrightarrow> e \<notin> set R"
  by (auto simp: list_all_iff)

lemma dcr_mask_missing:
  assumes "wrapperScript s \<in> files \<sigma>" "activeWindow h"
    "saveAsOk h (dcr_generateSecureTempFilename h)"
    "waitLoop (duration (dcr_child h s)) (processEventsMillis h) 0 0 = Finished t"
    "exitStatus (dcr_child h s) = 0"
    "dcr_cleanedPath h s (dcr_generateSecureTempFilename h)
       \<in> files \<sigma> \<union> {dcr_generateSecureTempFilename h} \<union> set (written (dcr_child h s))"
    "decode h ''.xisf'' (dcr_cleanedPath h s (dcr_generateSecureTempFilename h)) = Decoded img"
    "\<forall>v. assignOk h v"
    "saveMask s"
    "dcr_maskPath h s (dcr_generateSecureTempFilename h)
       \<notin> files \<sigma> \<union> {dcr_generateSecureTempFilename h} \<union> set (written (dcr_child h s))"
  shows "filter (\<lambda>e. kind e = Outcome) (newEvents \<sigma> (snd (executeDeepCR h s \<sigma>))) = [Report Success]"
    and "NewWindow (mainViewId h @ ''_CR_Mask'') \<notin> set (newEvents \<sigma> (snd (executeDeepCR h s \<sigma>)))"
    and "OpenFile f (dcr_maskPath h s (dcr_generateSecureTempFilename h))
           \<notin> set (newEvents \<sigma> (snd (executeDeepCR h s \<sigma>)))"
proof -
  let ?W = "[SaveAs (dcr_generateSecureTempFilename h), Spawn (dcr_command h s),
       OpenFile ''.xisf'' (dcr_cleanedPath h s (dcr_generateSecureTempFilename h)),
       ReadImage (dcr_cleanedPath h s (dcr_generateSecureTempFilename h)),
       CloseFile (dcr_cleanedPath h s (dcr_generateSecureTempFilename h))]
      @ (if replaceActive s
         then [BeginProcess ActiveView, Assign ActiveView, EndProcess ActiveView]
         else [NewWindow (mainViewId h @ ''_DeepCR''),
               BeginProcess (CreatedView (mainViewId h @ ''_DeepCR'')),
               Assign (CreatedView (mainViewId h @ ''_DeepCR'')),
               EndProcess (CreatedView (mainViewId h @ ''_DeepCR'')),
               ShowWindow (mainViewId h @ ''_DeepCR'')])"
  have pre: "wrapperScript s \<in> files (jobStart \<sigma>)"
    "dcr_cleanedPath h s (dcr_generateSecureTempFilename h)
       \<in> files (jobStart \<sigma>) \<union> {dcr_generateSecureTempFilename h} \<union> set (written (dcr_child h s))"
    "dcr_maskPath h s (dcr_generateSecureTempFilename h)
       \<notin> files (jobStart \<sigma>) \<union> {dcr_generateSecureTempFilename h} \<union> set (written (dcr_child h s))"
    using assms(1,6,10) by (simp_all add: jobStart_def)
  have ok: "fst (dcr_try h s (jobStart \<sigma>)) = Inr ()"
    by (rule dcr_try_mask_missing(1) [OF pre(1) assms(2-5) pre(2) assms(7-9) pre(3)])
  have "events (snd (dcr_try h s (jobStart \<sigma>))) = events (jobStart \<sigma>) @ ?W"
    by (rule dcr_try_mask_missing(2) [OF pre(1) assms(2-5) pre(2) assms(7-9) pre(3)])
  then have W: "newEvents (jobStart \<sigma>) (snd (dcr_try h s (jobStart \<sigma>))) = ?W"
    by (rule newEvents_append)
  have out: "dcr_outcome h s \<sigma> = Success" by (simp add: dcr_outcome_def ok)
  obtain R where R: "newEvents \<sigma> (snd (executeDeepCR h s \<sigma>)) =
      ?W @ Report Success
      # Cleanup [tempFile (snd (executeDeepCR h s \<sigma>)), outputPath (snd (executeDeepCR h s \<sigma>)),
                 maskPath (snd (executeDeepCR h s \<sigma>))] # R"
    "list_all (\<lambda>e. kind e = Removing) R"
    using dcr_job_events [of \<sigma> h s] unfolding W out by auto
  show "filter (\<lambda>e. kind e = Outcome) (newEvents \<sigma> (snd (executeDeepCR h s \<sigma>))) = [Report Success]"
    unfolding R(1) by (simp add: removing_filter [OF R(2)])
  show "NewWindow (mainViewId h @ ''_CR_Mask'') \<notin> set (newEvents \<sigma> (snd (executeDeepCR h s \<sigma>)))"
    unfolding R(1) using removing_only [OF R(2), of "NewWindow (mainViewId h @ ''_CR_Mask'')"]
    by simp
  show "OpenFile f (dcr_maskPath h s (dcr_generateSecureTempFilename h))
           \<notin> set (newEvents \<sigma> (snd (executeDeepCR h s \<sigma>)))"
    unfolding R(1)
    using removing_only [OF R(2), of "OpenFile f (dcr_maskPath h s (dcr_generateSecureTempFilename h))"]
      dcr_cleaned_neq_mask [of h s "dcr_generateSecureTempFilename h"]
    by simp
qed

lemma lac_try_mask_missing:
  assumes "lac_wrapperScript s \<in> files \<sigma>" "activeWindow h"
    "saveAsOk h (lac_generateSecureTempFilename h)"
    "waitLoop (duration (lac_child h s)) (processEventsMillis h) 0 0 = Finished t"
    "exitStatus (lac_child h s) = 0"
    "lac_outputPath s (lac_generateSecureTempFilename h)
       \<in> files \<sigma> \<union> {lac_generateSecureTempFilename h} \<union> set (written (lac_child h s))"
    "decode h ''.fits'' (lac_outputPath s (lac_generateSecureTempFilename h)) = Decoded img"
    "\<forall>v. assignOk h v"
    "lac_maskPath s (lac_generateSecureTempFilename h)
       \<notin> files \<sigma> \<union> {lac_generateSecureTempFilename h} \<union> set (written (lac_child h s))"
  shows "fst (lac_try h s \<sigma>) = Inr ()"
    and "events (snd (lac_try h s \<sigma>)) = events \<sigma> @
      [SaveAs (lac_generateSecureTempFilename h), Spawn (lac_command h s),
       OpenFile ''.fits'' (lac_outputPath s (lac_generateSecureTempFilename h)),
       ReadImage (lac_outputPath s (lac_generateSecureTempFilename h)),
       CloseFile (lac_outputPath s (lac_generateSecureTempFilename h))]
      @ (if lac_replaceActive s
         then [BeginProcess ActiveView, Assign ActiveView, EndProcess ActiveView]
         else [NewWindow (mainViewId h @ ''_LACosmic''),
               BeginProcess (CreatedView (mainViewId h @ ''_LACosmic'')),
               Assign (CreatedView (mainViewId h @ ''_LACosmic'')),
               EndProcess (CreatedView (mainViewId h @ ''_LACosmic'')),
               ShowWindow (mainViewId h @ ''_LACosmic'')])"
  using assms
  by (simp_all add: lac_try_def lac_obtain_def lac_present_def lac_exportView_def lac_runTool_def
      superviseProcess_def lac_loadCleaned_def loadFITSImage_def readImageFile_def
      lac_applyResult_def assignInProcess_def showInNewWindow_def lac_loadMask_def
      andThen_def Let_def File_exists_def emit_def lac_child_def lac_command_def)

lemma lac_mask_missing:
  assumes "lac_wrapperScript s \<in> files \<sigma>" "activeWindow h"
    "saveAsOk h (lac_generateSecureTempFilename h)"
    "waitLoop (duration (lac_child h s)) (processEventsMillis h) 0 0 = Finished t"
    "exitStatus (lac_child h s) = 0"
    "lac_outputPath s (lac_generateSecureTempFilename h)
       \<in> files \<sigma> \<union> {lac_generateSecureTempFilename h} \<union> set (written (lac_child h s))"
    "decode h ''.fits'' (lac_outputPath s (lac_generateSecureTempFilename h)) = Decoded img"
    "\<forall>v. assignOk h v"
    "lac_maskPath s (lac_generateSecureTempFilename h)
       \<notin> files \<sigma> \<union> {lac_generateSecureTempFilename h} \<union> set (written (lac_child h s))"
  shows "filter (\<lambda>e. kind e = Outcome) (newEvents \<sigma> (snd (executeCosmicRayRemoval h s \<sigma>)))
           = [Report Success]"
    and "NewWindow (mainViewId h @ ''_LACosmic_mask'')
           \<notin> set (newEvents \<sigma> (snd (executeCosmicRayRemoval h s \<sigma>)))"
    and "OpenFile f (lac_maskPath s (lac_generateSecureTempFilename h))
           \<notin> set (newEvents \<sigma> (snd (executeCosmicRayRemoval h s \<sigma>)))"
proof -
  let ?W = "[SaveAs (lac_generateSecureTempFilename h), Spawn (lac_command h s),
       OpenFile ''.fits'' (lac_outputPath s (lac_generateSecureTempFilename h)),
       ReadImage (lac_outputPath s (lac_generateSecureTempFilename h)),
       CloseFile (lac_outputPath s (lac_generateSecureTempFilename h))]
      @ (if lac_replaceActive s
         then [BeginProcess ActiveView, Assign ActiveView, EndProcess ActiveView]
         else [NewWindow (mainViewId h @ ''_LACosmic''),
               BeginProcess (CreatedView (mainViewId h @ ''_LACosmic'')),
               Assign (CreatedView (mainViewId h @ ''_LACosmic'')),
               EndProcess (CreatedView (mainViewId h @ ''_LACosmic'')),
               ShowWindow (mainViewId h @ ''_LACosmic'')])"
  have pre: "lac_wrapperScript s \<in> files (jobStart \<sigma>)"
    "lac_outputPath s (lac_generateSecureTempFilename h)
       \<in> files (jobStart \<sigma>) \<union> {lac_generateSecureTempFilename h} \<union> set (written (lac_child h s))"
    "lac_maskPath s (lac_generateSecureTempFilename h)
       \<notin> files (jobStart \<sigma>) \<union> {lac_generateSecureTempFilename h} \<union> set (written (lac_child h s))"
    using assms(1,6,9) by (simp_all add: jobStart_def)
  have ok: "fst (lac_try h s (jobStart \<sigma>)) = Inr ()"
    by (rule lac_try_mask_missing(1) [OF pre(1) assms(2-5) pre(2) assms(7-8) pre(3)])
  have "events (snd (lac_try h s (jobStart \<sigma>))) = events (jobStart \<sigma>) @ ?W"
    by (rule lac_try_mask_missing(2) [OF pre(1) assms(2-5) pre(2) assms(7-8) pre(3)])
  then have W: "newEvents (jobStart \<sigma>) (snd (lac_try h s (jobStart \<sigma>))) = ?W"
    by (rule newEvents_append)
  have out: "lac_outcome h s \<sigma> = Success" by (simp add: lac_outcome_def ok)
  obtain R where R: "newEvents \<sigma> (snd (executeCosmicRayRemoval h s \<sigma>)) =
      ?W @ Cleanup [tempFile (snd (executeCosmicRayRemoval h s \<sigma>)),
                     outputPath (snd (executeCosmicRayRemoval h s \<sigma>)),
                     maskPath (snd (executeCosmicRayRemoval h s \<sigma>))] # R
          @ [Report Success]"
    "list_all (\<lambda>e. kind e = Removing) R"
    using lac_job_events [of \<sigma> h s] unfolding W out by auto
  show "filter (\<lambda>e. kind e = Outcome) (newEvents \<sigma> (snd (executeCosmicRayRemoval h s \<sigma>)))
           = [Report Success]"
    unfolding R(1) by (simp add: removing_filter [OF R(2)])
  show "NewWindow (mainViewId h @ ''_LACosmic_mask'')
           \<notin> set (newEvents \<sigma> (snd (executeCosmicRayRemoval h s \<sigma>)))"
    unfolding R(1) using removing_only [OF R(2), of "NewWindow (mainViewId h @ ''_LACosmic_mask'')"]
    by simp
  show "OpenFile f (lac_maskPath s (lac_generateSecureTempFilename h))
           \<notin> set (newEvents \<sigma> (snd (executeCosmicRayRemoval h s \<sigma>)))"
    unfolding R(1)
    using removing_only [OF R(2), of "OpenFile f (lac_maskPath s (lac_generateSecureTempFilename h))"]
      lac_output_neq_mask [of s "lac_generateSecureTempFilename h"]
    by simp
qed

subsection \<open>The waiting loop\<close>

lemma waitLoop_Expired:
  "waitLoop dur pe k t = Expired e \<Longrightarrow> t \<le> TIMEOUT_MS \<Longrightarrow> \<forall>j. pe j \<le> B \<Longrightarrow>
     TIMEOUT_MS < e \<and> e \<le> TIMEOUT_MS + 100 + B"
proof (induction dur pe k t rule: waitLoop.induct)
  case (1 dur pe k t)
  show ?case
  proof (cases "finishedBy dur (t + 100)")
    case True
    with "1.prems"(1) show ?thesis by (simp add: waitLoop.simps)
  next
    case nf: False
    show ?thesis
    proof (cases "t + 100 + pe k > TIMEOUT_MS")
      case True
      with nf "1.prems"(1) have "e = t + 100 + pe k" by (simp add: waitLoop.simps)
      with True "1.prems"(2,3) show ?thesis
        using add_mono [of t TIMEOUT_MS "pe k" B] by auto
    next
      case False
      with nf "1.prems"(1) have "waitLoop dur pe (Suc k) (t + 100 + pe k) = Expired e"
        by (simp add: waitLoop.simps)
      with "1.IH" nf False "1.prems"(3) show ?thesis by simp
    qed
  qed
qed

lemma waitLoop_Finished:
  "waitLoop dur pe k t = Finished e \<Longrightarrow> t \<le> TIMEOUT_MS \<Longrightarrow>
     finishedBy dur (TIMEOUT_MS + 100) \<and> finishedBy dur e \<and> e \<le> TIMEOUT_MS + 100"
proof (induction dur pe k t rule: waitLoop.induct)
  case (1 dur pe k t)
  show ?case
  proof (cases "finishedBy dur (t + 100)")
    case True
    with "1.prems" show ?thesis
      by (auto simp: waitLoop.simps finishedBy_def split: option.splits)
  next
    case nf: False
    show ?thesis
    proof (cases "t + 100 + pe k > TIMEOUT_MS")
      case True
      with nf "1.prems"(1) show ?thesis by (simp add: waitLoop.simps)
    next
      case False
      with nf "1.prems"(1) have "waitLoop dur pe (Suc k) (t + 100 + pe k) = Finished e"
        by (simp add: waitLoop.simps)
      with "1.IH" nf False show ?thesis by simp
    qed
  qed
qed

lemma waitLoop_overdue:
  assumes "\<not> finishedBy dur (TIMEOUT_MS + 100)" and "t \<le> TIMEOUT_MS"
  shows "\<exists>e. waitLoop dur pe k t = Expired e"
proof (cases "waitLoop dur pe k t")
  case (Finished e)
  with assms waitLoop_Finished [of dur pe k t e] show ?thesis by simp
next
  case (Expired e)
  then show ?thesis by simp
qed

lemma supervise_timeout:
  assumes "\<not> finishedBy (duration (launch h c)) (TIMEOUT_MS + 100)"
    and "\<forall>k. processEventsMillis h k \<le> B"
  shows "\<exists>e. waitLoop (duration (launch h c)) (processEventsMillis h) 0 0 = Expired e
            \<and> TIMEOUT_MS < e \<and> e \<le> TIMEOUT_MS + 100 + B"
    and "superviseProcess h c \<sigma> = (Inl TimedOut, emit Kill (emit (Spawn c) \<sigma>))"
proof -
  obtain e where e: "waitLoop (duration (launch h c)) (processEventsMillis h) 0 0 = Expired e"
    using waitLoop_overdue [OF assms(1), of 0] by auto
  with waitLoop_Expired [OF e _ assms(2)]
  show "\<exists>e. waitLoop (duration (launch h c)) (processEventsMillis h) 0 0 = Expired e
            \<and> TIMEOUT_MS < e \<and> e \<le> TIMEOUT_MS + 100 + B"
    by simp
  show "superviseProcess h c \<sigma> = (Inl TimedOut, emit Kill (emit (Spawn c) \<sigma>))"
    by (simp add: superviseProcess_def Let_def e)
qed

subsection \<open>Temporary file names\<close>

lemma digit10_inj: "n < 10 \<Longrightarrow> m < 10 \<Longrightarrow> digit10 n = digit10 m \<Longrightarrow> n = m"
proof -
  assume "n < 10" "m < 10" and eq: "digit10 n = digit10 m"
  then have "n \<in> {0, 1, 2, 3, 4, 5, 6, 7, 8, 9}" "m \<in> {0, 1, 2, 3, 4, 5, 6, 7, 8, 9}"
    by auto
  with eq show "n = m" by (auto simp: digit10_def)
qed

lemma decimal_nonempty [simp]: "decimal n \<noteq> []" "[] \<noteq> decimal n"
  by (subst decimal.simps, simp)+

lemma decimal_inj: "decimal n = decimal m \<Longrightarrow> n = m"
proof (induction n arbitrary: m rule: decimal.induct)
  case (1 n)
  show ?case
  proof (cases "n < 10")
    case n: True
    show ?thesis
    proof (cases "m < 10")
      case True
      with n "1.prems" show ?thesis
        by (simp add: decimal.simps [of n] decimal.simps [of m] digit10_inj)
    next
      case False
      with n "1.prems" show ?thesis
        by (simp add: decimal.simps [of n] decimal.simps [of m])
    qed
  next
    case n: False
    show ?thesis
    proof (cases "m < 10")
      case True
      with n "1.prems" show ?thesis
        by (simp add: decimal.simps [of n] decimal.simps [of m])
    next
      case False
      with n "1.prems" have eq: "decimal (n div 10) = decimal (m div 10)"
        "digit10 (n mod 10) = digit10 (m mod 10)"
        by (simp_all add: decimal.simps [of n] decimal.simps [of m])
      from eq(1) have "n div 10 = m div 10" using "1.IH" n by simp
      moreover from eq(2) have "n mod 10 = m mod 10" by (rule digit10_inj [rotated 2]) simp_all
      ultimately show ?thesis by (metis div_mult_mod_eq)
    qed
  qed
qed

lemma withRandom_fields [simp]:
  "systemTempDirectory (withRandom h a b) = systemTempDirectory h"
  "now (withRandom h a b) = now h"
  "random1 (withRandom h a b) = ''0.'' @ a"
  "random2 (withRandom h a b) = ''0.'' @ b"
  by (simp_all add: withRandom_def)

lemma randomSuffix_withRandom: "randomSuffix (withRandom h a b) = take 13 a @ take 13 b"
  by (simp add: randomSuffix_def substring_def)

lemma names_same_millisecond:
  assumes "length a' = length a"
  shows "dcr_generateSecureTempFilename (withRandom h a' b')
           = dcr_generateSecureTempFilename (withRandom h a b)
         \<longleftrightarrow> take 13 a' = take 13 a \<and> take 13 b' = take 13 b"
    and "lac_generateSecureTempFilename (withRandom h a' b')
           = lac_generateSecureTempFilename (withRandom h a b)
         \<longleftrightarrow> take 13 a' = take 13 a \<and> take 13 b' = take 13 b"
  using assms
  by (simp_all add: dcr_generateSecureTempFilename_def lac_generateSecureTempFilename_def
      randomSuffix_withRandom)

lemma base36_distinct: "distinct ''0123456789abcdefghijklmnopqrstuvwxyz''"
  by simp

lemma base36_card: "card base36 = 36" "finite base36"
  unfolding base36_def using distinct_card [OF base36_distinct] by simp_all


lemma digitStrings_card: "card (digitStrings n) = 36 ^ n" "finite (digitStrings n)"
proof -
  have "digitStrings n = {xs. set xs \<subseteq> base36 \<and> length xs = n}"
    by (simp add: digitStrings_def)
  then show "card (digitStrings n) = 36 ^ n" "finite (digitStrings n)"
    using card_lists_length_eq [OF base36_card(2), of n]
      finite_lists_length_eq [OF base36_card(2), of n]
    by (simp_all only: base36_card(1))
qed

lemma pairs_card: "card (digitStrings n \<times> digitStrings m) = 36 ^ (n + m)"
proof -
  have "card (digitStrings n \<times> digitStrings m) = 36 ^ n * 36 ^ m"
    by (simp only: card_cartesian_product digitStrings_card(1))
  also have "\<dots> = (36::nat) ^ (n + m)" by (simp only: power_add)
  finally show ?thesis .
qed


lemma collisions_bound:
  fixes f :: "string \<Rightarrow> string \<Rightarrow> path"
  assumes inj: "\<And>a b a' b'. length a = n \<Longrightarrow> length a' = n \<Longrightarrow> length b = m
                  \<Longrightarrow> length b' = m \<Longrightarrow> f a' b' = f a b \<Longrightarrow> a' = a \<and> b' = b"
    and fin: "finite S"
  shows "card {(a, b). a \<in> digitStrings n \<and> b \<in> digitStrings m \<and> f a b \<in> S} \<le> card S"
proof -
  let ?X = "{(a, b). a \<in> digitStrings n \<and> b \<in> digitStrings m \<and> f a b \<in> S}"
  have "inj_on (\<lambda>(a, b). f a b) ?X"
  proof (rule inj_onI)
    fix x y
    assume x: "x \<in> ?X" and y: "y \<in> ?X" and eq: "(\<lambda>(a, b). f a b) x = (\<lambda>(a, b). f a b) y"
    obtain a b where xa: "x = (a, b)" by (cases x)
    obtain a' b' where ya: "y = (a', b')" by (cases y)
    have "length a = n" "length b = m" "length a' = n" "length b' = m"
      using x y xa ya by (simp_all add: digitStrings_def)
    moreover have "f a b = f a' b'" using eq xa ya by simp
    ultimately have "a = a' \<and> b = b'" using inj [of a' a b' b] by simp
    then show "x = y" using xa ya by simp
  qed
  then have c: "card ((\<lambda>(a, b). f a b) ` ?X) = card ?X" by (rule card_image)
  have "(\<lambda>(a, b). f a b) ` ?X \<subseteq> S" by auto
  then have "card ((\<lambda>(a, b). f a b) ` ?X) \<le> card S" by (rule card_mono [OF fin])
  then show ?thesis unfolding c .
qed

lemma same_millisecond_collisions:
  assumes "n \<le> 13" and "m \<le> 13" and "finite S"
  shows "card {(a, b). a \<in> digitStrings n \<and> b \<in> digitStrings m
            \<and> dcr_generateSecureTempFilename (withRandom h a b) \<in> S} \<le> card S"
    and "card {(a, b). a \<in> digitStrings n \<and> b \<in> digitStrings m
            \<and> lac_generateSecureTempFilename (withRandom h a b) \<in> S} \<le> card S"
proof -
  show "card {(a, b). a \<in> digitStrings n \<and> b \<in> digitStrings m
            \<and> dcr_generateSecureTempFilename (withRandom h a b) \<in> S} \<le> card S"
  proof (rule collisions_bound [OF _ assms(3)])
    fix a b a' b' :: string
    assume len: "length a = n" "length a' = n" "length b = m" "length b' = m"
      and eq: "dcr_generateSecureTempFilename (withRandom h a' b')
         = dcr_generateSecureTempFilename (withRandom h a b)"
    have "take 13 a' = take 13 a \<and> take 13 b' = take 13 b"
      using eq names_same_millisecond(1) [of a' a h b' b] len by simp
    then show "a' = a \<and> b' = b" using len assms(1,2) by simp
  qed
  show "card {(a, b). a \<in> digitStrings n \<and> b \<in> digitStrings m
            \<and> lac_generateSecureTempFilename (withRandom h a b) \<in> S} \<le> card S"
  proof (rule collisions_bound [OF _ assms(3)])
    fix a b a' b' :: string
    assume len: "length a = n" "length a' = n" "length b = m" "length b' = m"
      and eq: "lac_generateSecureTempFilename (withRandom h a' b')
         = lac_generateSecureTempFilename (withRandom h a b)"
    have "take 13 a' = take 13 a \<and> take 13 b' = take 13 b"
      using eq names_same_millisecond(2) [of a' a h b' b] len by simp
    then show "a' = a \<and> b' = b" using len assms(1,2) by simp
  qed
qed

lemma temp_names:
  assumes "systemTempDirectory h' = systemTempDirectory h"
  shows "cc_tempInputFile h' = cc_tempInputFile h \<longleftrightarrow> now h' = now h"
    and "cc_tempOutputFile h' = cc_tempOutputFile h \<longleftrightarrow> now h' = now h"
  using assms
  by (auto simp: cc_tempInputFile_def cc_tempOutputFile_def dest: decimal_inj)

lemma in_temp_dir:
  "take (length (systemTempDirectory h)) (dcr_generateSecureTempFilename h) = systemTempDirectory h"
  "take (length (systemTempDirectory h)) (lac_generateSecureTempFilename h) = systemTempDirectory h"
  "take (length (systemTempDirectory h)) (cc_tempInputFile h) = systemTempDirectory h"
  "take (length (systemTempDirectory h)) (cc_tempOutputFile h) = systemTempDirectory h"
  by (simp_all add: dcr_generateSecureTempFilename_def lac_generateSecureTempFilename_def
      cc_tempInputFile_def cc_tempOutputFile_def)

subsection \<open>Runs that fail late\<close>

text \<open>Scenario: the cleaned image cannot be opened although the tool wrote a mask.\<close>

lemma dcr_mask_left_behind:
  assumes "wrapperScript s \<in> files \<sigma>" "activeWindow h"
    "saveAsOk h (dcr_generateSecureTempFilename h)"
    "waitLoop (duration (dcr_child h s)) (processEventsMillis h) 0 0 = Finished t"
    "exitStatus (dcr_child h s) = 0"
    "dcr_cleanedPath h s (dcr_generateSecureTempFilename h) \<in> set (written (dcr_child h s))"
    "decode h ''.xisf'' (dcr_cleanedPath h s (dcr_generateSecureTempFilename h)) = Unopenable"
    "dcr_maskPath h s (dcr_generateSecureTempFilename h) \<in> set (written (dcr_child h s))"
    "dcr_maskPath h s (dcr_generateSecureTempFilename h) \<noteq> dcr_generateSecureTempFilename h"
    "dcr_cleanedPath h s (dcr_generateSecureTempFilename h) \<noteq> dcr_generateSecureTempFilename h"
  shows "newEvents \<sigma> (snd (executeDeepCR h s \<sigma>)) =
      [SaveAs (dcr_generateSecureTempFilename h), Spawn (dcr_command h s),
       OpenFile ''.xisf'' (dcr_cleanedPath h s (dcr_generateSecureTempFilename h)),
       Report (Failed (CannotOpen (dcr_cleanedPath h s (dcr_generateSecureTempFilename h)))),
       MessageBox (Failed (CannotOpen (dcr_cleanedPath h s (dcr_generateSecureTempFilename h)))),
       Cleanup [Some (dcr_generateSecureTempFilename h),
                Some (dcr_cleanedPath h s (dcr_generateSecureTempFilename h)), None],
       Remove (dcr_generateSecureTempFilename h)]
      @ (if removeOk h (dcr_generateSecureTempFilename h)
         then [Remove (dcr_cleanedPath h s (dcr_generateSecureTempFilename h))] else [])"
    and "dcr_maskPath h s (dcr_generateSecureTempFilename h) \<in> files (snd (executeDeepCR h s \<sigma>))"
proof -
  let ?tmp = "dcr_generateSecureTempFilename h"
  let ?c = "dcr_cleanedPath h s ?tmp"
  let ?\<sigma>1 = "(jobStart \<sigma>)\<lparr>tempFile := Some ?tmp, outputPath := Some ?c,
        events := events \<sigma> @ [SaveAs ?tmp, Spawn (dcr_command h s), OpenFile ''.xisf'' ?c],
        files := files \<sigma> \<union> {?tmp} \<union> set (written (dcr_child h s))\<rparr>"
  have o: "dcr_obtain h s (jobStart \<sigma>) = (Inl (CannotOpen ?c), ?\<sigma>1)"
    using assms(1-7)
    by (simp add: dcr_obtain_def dcr_exportView_def dcr_runTool_def superviseProcess_def
      dcr_loadCleaned_def dcr_loadImage_cleaned readImageFile_def
      andThen_def Let_def File_exists_def emit_def dcr_child_def dcr_command_def jobStart_def)
  have t: "dcr_try h s (jobStart \<sigma>) = (Inl (CannotOpen ?c), ?\<sigma>1)"
    unfolding dcr_try_def o by (simp add: andThen_def)
  have nec: "?c \<noteq> []" by (simp add: dcr_cleanedPath_def)
  have "events (snd (executeDeepCR h s \<sigma>)) = events \<sigma> @
      ([SaveAs ?tmp, Spawn (dcr_command h s), OpenFile ''.xisf'' ?c,
       Report (Failed (CannotOpen ?c)), MessageBox (Failed (CannotOpen ?c)),
       Cleanup [Some ?tmp, Some ?c, None], Remove ?tmp]
      @ (if removeOk h ?tmp then [Remove ?c] else []))"
    unfolding executeDeepCR_snd dcr_outcome_def t using assms(6,10) nec
    by (simp add: dcr_finally_def removeIfExists_def andThen_def File_exists_def File_remove_def
        Let_def emit_def tell_def jobStart_def)
  then show "newEvents \<sigma> (snd (executeDeepCR h s \<sigma>)) =
      [SaveAs ?tmp, Spawn (dcr_command h s), OpenFile ''.xisf'' ?c,
       Report (Failed (CannotOpen ?c)), MessageBox (Failed (CannotOpen ?c)),
       Cleanup [Some ?tmp, Some ?c, None], Remove ?tmp]
      @ (if removeOk h ?tmp then [Remove ?c] else [])"
    by (rule newEvents_append)
  show "dcr_maskPath h s ?tmp \<in> files (snd (executeDeepCR h s \<sigma>))"
    unfolding executeDeepCR_snd dcr_outcome_def t
    using assms(6,8,9,10) nec dcr_cleaned_neq_mask [of h s ?tmp]
    by (simp add: dcr_finally_def removeIfExists_def andThen_def File_exists_def File_remove_def
        Let_def emit_def tell_def jobStart_def)
qed

lemma dcr_loadImage_mask:
  "loadImage h (dcr_maskPath h s p) \<sigma> = readImageFile h ''.xisf'' (dcr_maskPath h s p) \<sigma>"
proof -
  have "dcr_maskPath h s p =
      (outputDir s @ ''/'' @ dcr_baseName p @ ''_deepcr_th'' @ numberToString h (threshold s))
      @ ''_mask.xisf''"
    by (simp add: dcr_maskPath_def)
  moreover have "endsWith (toLowerCase ''_mask.xisf'') ''.xisf''"
    by (simp add: endsWith_def toLowerCase_def toLowerChar_def)
  ultimately show ?thesis by (simp only: loadImage_xisf)
qed

text \<open>Scenario: replace mode, the mask is there but cannot be opened.\<close>

lemma dcr_replaced_then_failed:
  assumes "wrapperScript s \<in> files \<sigma>" "activeWindow h"
    "saveAsOk h (dcr_generateSecureTempFilename h)"
    "waitLoop (duration (dcr_child h s)) (processEventsMillis h) 0 0 = Finished t"
    "exitStatus (dcr_child h s) = 0"
    "dcr_cleanedPath h s (dcr_generateSecureTempFilename h) \<in> set (written (dcr_child h s))"
    "decode h ''.xisf'' (dcr_cleanedPath h s (dcr_generateSecureTempFilename h)) = Decoded img"
    "replaceActive s" "assignOk h ActiveView" "saveMask s"
    "dcr_maskPath h s (dcr_generateSecureTempFilename h) \<in> set (written (dcr_child h s))"
    "decode h ''.xisf'' (dcr_maskPath h s (dcr_generateSecureTempFilename h)) = Unopenable"
  shows "Report (Failed (CannotOpen (dcr_maskPath h s (dcr_generateSecureTempFilename h))))
           \<in> set (newEvents \<sigma> (snd (executeDeepCR h s \<sigma>)))"
    and "target (snd (executeDeepCR h s \<sigma>)) = img"
    and "Assign ActiveView \<in> set (newEvents \<sigma> (snd (executeDeepCR h s \<sigma>)))"
proof -
  let ?tmp = "dcr_generateSecureTempFilename h"
  let ?c = "dcr_cleanedPath h s ?tmp"
  let ?m = "dcr_maskPath h s ?tmp"
  let ?W = "[SaveAs ?tmp, Spawn (dcr_command h s), OpenFile ''.xisf'' ?c, ReadImage ?c,
      CloseFile ?c, BeginProcess ActiveView, Assign ActiveView, EndProcess ActiveView,
      OpenFile ''.xisf'' ?m]"
  have t: "fst (dcr_try h s (jobStart \<sigma>)) = Inl (CannotOpen ?m)"
    "events (snd (dcr_try h s (jobStart \<sigma>))) = events (jobStart \<sigma>) @ ?W"
    "target (snd (dcr_try h s (jobStart \<sigma>))) = img"
    using assms
    by (simp_all add: dcr_try_def dcr_obtain_def dcr_present_def dcr_exportView_def dcr_runTool_def
      superviseProcess_def dcr_loadCleaned_def dcr_loadImage_cleaned dcr_loadImage_mask
      readImageFile_def dcr_applyResult_def assignInProcess_def dcr_loadMask_def
      andThen_def Let_def File_exists_def emit_def dcr_child_def dcr_command_def jobStart_def)
  have W: "newEvents (jobStart \<sigma>) (snd (dcr_try h s (jobStart \<sigma>))) = ?W"
    using t(2) by (rule newEvents_append)
  have out: "dcr_outcome h s \<sigma> = Failed (CannotOpen ?m)" by (simp add: dcr_outcome_def t(1))
  obtain R where R: "newEvents \<sigma> (snd (executeDeepCR h s \<sigma>)) =
      ?W @ Report (Failed (CannotOpen ?m)) # MessageBox (Failed (CannotOpen ?m))
      # Cleanup [tempFile (snd (executeDeepCR h s \<sigma>)), outputPath (snd (executeDeepCR h s \<sigma>)),
                 maskPath (snd (executeDeepCR h s \<sigma>))] # R"
    using dcr_job_events [of \<sigma> h s] unfolding W out by auto
  show "Report (Failed (CannotOpen ?m)) \<in> set (newEvents \<sigma> (snd (executeDeepCR h s \<sigma>)))"
    unfolding R by simp
  show "Assign ActiveView \<in> set (newEvents \<sigma> (snd (executeDeepCR h s \<sigma>)))"
    unfolding R by simp
  show "target (snd (executeDeepCR h s \<sigma>)) = img"
    by (simp add: executeDeepCR_snd t(3))
qed


text \<open>Scenario: replace mode, \<open>assign\<close> throws.\<close>

lemma dcr_assign_throws:
  assumes "wrapperScript s \<in> files \<sigma>" "activeWindow h"
    "saveAsOk h (dcr_generateSecureTempFilename h)"
    "waitLoop (duration (dcr_child h s)) (processEventsMillis h) 0 0 = Finished t"
    "exitStatus (dcr_child h s) = 0"
    "dcr_cleanedPath h s (dcr_generateSecureTempFilename h) \<in> set (written (dcr_child h s))"
    "decode h ''.xisf'' (dcr_cleanedPath h s (dcr_generateSecureTempFilename h)) = Decoded img"
    "replaceActive s" "\<not> assignOk h ActiveView"
  shows "onView ActiveView (newEvents \<sigma> (snd (executeDeepCR h s \<sigma>)))
           = [BeginProcess ActiveView, Assign ActiveView]"
    and "Report (Failed (AssignFailed ActiveView)) \<in> set (newEvents \<sigma> (snd (executeDeepCR h s \<sigma>)))"
proof -
  let ?tmp = "dcr_generateSecureTempFilename h"
  let ?c = "dcr_cleanedPath h s ?tmp"
  let ?W = "[SaveAs ?tmp, Spawn (dcr_command h s), OpenFile ''.xisf'' ?c, ReadImage ?c,
      CloseFile ?c, BeginProcess ActiveView, Assign ActiveView]"
  have t: "fst (dcr_try h s (jobStart \<sigma>)) = Inl (AssignFailed ActiveView)"
    "events (snd (dcr_try h s (jobStart \<sigma>))) = events (jobStart \<sigma>) @ ?W"
    using assms
    by (simp_all add: dcr_try_def dcr_obtain_def dcr_present_def dcr_exportView_def dcr_runTool_def
      superviseProcess_def dcr_loadCleaned_def dcr_loadImage_cleaned
      readImageFile_def dcr_applyResult_def assignInProcess_def
      andThen_def Let_def File_exists_def emit_def dcr_child_def dcr_command_def jobStart_def)
  have W: "newEvents (jobStart \<sigma>) (snd (dcr_try h s (jobStart \<sigma>))) = ?W"
    using t(2) by (rule newEvents_append)
  have out: "dcr_outcome h s \<sigma> = Failed (AssignFailed ActiveView)"
    by (simp add: dcr_outcome_def t(1))
  obtain R where R: "newEvents \<sigma> (snd (executeDeepCR h s \<sigma>)) =
      ?W @ Report (Failed (AssignFailed ActiveView)) # MessageBox (Failed (AssignFailed ActiveView))
      # Cleanup [tempFile (snd (executeDeepCR h s \<sigma>)), outputPath (snd (executeDeepCR h s \<sigma>)),
                 maskPath (snd (executeDeepCR h s \<sigma>))] # R"
    "list_all (\<lambda>e. kind e = Removing) R"
    using dcr_job_events [of \<sigma> h s] unfolding W out by auto
  show "onView ActiveView (newEvents \<sigma> (snd (executeDeepCR h s \<sigma>)))
           = [BeginProcess ActiveView, Assign ActiveView]"
    unfolding R(1) using removing_filter(3) [OF R(2), of ActiveView]
    by (simp add: onView_def)
  show "Report (Failed (AssignFailed ActiveView)) \<in> set (newEvents \<sigma> (snd (executeDeepCR h s \<sigma>)))"
    unfolding R(1) by simp
qed

subsection \<open>What the cleanup removes, and when the target is left alone\<close>

text \<open>The path of every file a job exports or opens is held by one of its path variables
  when the \<open>try\<close> block is left.\<close>

lemma dcr_obtain_recorded:
  "\<exists>evs. events (snd (dcr_obtain h s \<sigma>)) = events \<sigma> @ evs
     \<and> (\<forall>p. SaveAs p \<in> set evs \<longrightarrow> tempFile (snd (dcr_obtain h s \<sigma>)) = Some p \<and> p \<noteq> [])
     \<and> (\<forall>f p. OpenFile f p \<in> set evs
           \<longrightarrow> outputPath (snd (dcr_obtain h s \<sigma>)) = Some p \<and> p \<noteq> [])"
  by (auto simp: dcr_obtain_def dcr_exportView_def dcr_runTool_def superviseProcess_def
      dcr_loadCleaned_def loadImage_def readImageFile_def andThen_def Let_def
      dcr_cleanedPath_def split: waited.splits decoded.splits)

lemma dcr_applyResult_recorded:
  "\<exists>evs. events (snd (dcr_applyResult h s img \<sigma>)) = events \<sigma> @ evs
     \<and> tempFile (snd (dcr_applyResult h s img \<sigma>)) = tempFile \<sigma>
     \<and> outputPath (snd (dcr_applyResult h s img \<sigma>)) = outputPath \<sigma>
     \<and> maskPath (snd (dcr_applyResult h s img \<sigma>)) = maskPath \<sigma>
     \<and> (\<forall>q. SaveAs q \<notin> set evs) \<and> (\<forall>f q. OpenFile f q \<notin> set evs)"
  by (auto simp: dcr_applyResult_def showInNewWindow_def assignInProcess_def andThen_def Let_def)

lemma dcr_loadMask_recorded:
  "\<exists>evs. events (snd (dcr_loadMask h s p \<sigma>)) = events \<sigma> @ evs
     \<and> tempFile (snd (dcr_loadMask h s p \<sigma>)) = tempFile \<sigma>
     \<and> outputPath (snd (dcr_loadMask h s p \<sigma>)) = outputPath \<sigma>
     \<and> (\<forall>q. SaveAs q \<notin> set evs)
     \<and> (\<forall>f q. OpenFile f q \<in> set evs
           \<longrightarrow> maskPath (snd (dcr_loadMask h s p \<sigma>)) = Some q \<and> q \<noteq> [])"
  by (auto simp: dcr_loadMask_def showInNewWindow_def assignInProcess_def loadImage_def
      readImageFile_def andThen_def Let_def dcr_maskPath_def split: decoded.splits)

lemma dcr_present_recorded:
  "\<exists>evs. events (snd (dcr_present h s p img \<sigma>)) = events \<sigma> @ evs
     \<and> tempFile (snd (dcr_present h s p img \<sigma>)) = tempFile \<sigma>
     \<and> outputPath (snd (dcr_present h s p img \<sigma>)) = outputPath \<sigma>
     \<and> (\<forall>q. SaveAs q \<notin> set evs)
     \<and> (\<forall>f q. OpenFile f q \<in> set evs
           \<longrightarrow> maskPath (snd (dcr_present h s p img \<sigma>)) = Some q \<and> q \<noteq> [])"
proof -
  let ?a = "dcr_applyResult h s img \<sigma>"
  obtain A where A: "events (snd ?a) = events \<sigma> @ A" "tempFile (snd ?a) = tempFile \<sigma>"
    "outputPath (snd ?a) = outputPath \<sigma>" "\<forall>q. SaveAs q \<notin> set A" "\<forall>f q. OpenFile f q \<notin> set A"
    using dcr_applyResult_recorded [of h s img \<sigma>] by blast
  show ?thesis
  proof (cases "fst ?a")
    case (Inl e)
    then have "dcr_present h s p img \<sigma> = (Inl e, snd ?a)"
      by (simp add: dcr_present_def andThen_is_Inl)
    then show ?thesis using A by simp
  next
    case (Inr u)
    then have eq: "dcr_present h s p img \<sigma> = dcr_loadMask h s p (snd ?a)"
      by (simp add: dcr_present_def andThen_is_Inr)
    obtain M where M: "events (snd (dcr_loadMask h s p (snd ?a))) = events (snd ?a) @ M"
      "tempFile (snd (dcr_loadMask h s p (snd ?a))) = tempFile (snd ?a)"
      "outputPath (snd (dcr_loadMask h s p (snd ?a))) = outputPath (snd ?a)"
      "\<forall>q. SaveAs q \<notin> set M"
      "\<forall>f q. OpenFile f q \<in> set M
           \<longrightarrow> maskPath (snd (dcr_loadMask h s p (snd ?a))) = Some q \<and> q \<noteq> []"
      using dcr_loadMask_recorded [of h s p "snd ?a"] by blast
    have "events (snd (dcr_present h s p img \<sigma>)) = events \<sigma> @ (A @ M)"
      unfolding eq by (simp add: M(1) A(1))
    moreover have "\<forall>q. SaveAs q \<notin> set (A @ M)" using A(4) M(4) by simp
    moreover have "\<forall>f q. OpenFile f q \<in> set (A @ M)
           \<longrightarrow> maskPath (snd (dcr_present h s p img \<sigma>)) = Some q \<and> q \<noteq> []"
      unfolding eq using A(5) M(5) by simp
    ultimately show ?thesis unfolding eq using M(2,3) A(2,3) by metis
  qed
qed

lemma dcr_try_recorded:
  "\<exists>evs. events (snd (dcr_try h s \<sigma>)) = events \<sigma> @ evs
     \<and> (\<forall>p. SaveAs p \<in> set evs \<longrightarrow> tempFile (snd (dcr_try h s \<sigma>)) = Some p \<and> p \<noteq> [])
     \<and> (\<forall>f p. OpenFile f p \<in> set evs
           \<longrightarrow> (outputPath (snd (dcr_try h s \<sigma>)) = Some p
                \<or> maskPath (snd (dcr_try h s \<sigma>)) = Some p) \<and> p \<noteq> [])"
proof -
  let ?o = "dcr_obtain h s \<sigma>"
  obtain W where W: "events (snd ?o) = events \<sigma> @ W"
    "\<forall>p. SaveAs p \<in> set W \<longrightarrow> tempFile (snd ?o) = Some p \<and> p \<noteq> []"
    "\<forall>f p. OpenFile f p \<in> set W \<longrightarrow> outputPath (snd ?o) = Some p \<and> p \<noteq> []"
    using dcr_obtain_recorded [of h s \<sigma>] by blast
  show ?thesis
  proof (cases "fst ?o")
    case (Inl e)
    then have "dcr_try h s \<sigma> = (Inl e, snd ?o)" by (simp add: dcr_try_def andThen_is_Inl)
    then show ?thesis using W by auto
  next
    case (Inr a)
    obtain p img where a: "a = (p, img)" by (cases a)
    have eq: "dcr_try h s \<sigma> = dcr_present h s p img (snd ?o)"
      using Inr a by (simp add: dcr_try_def andThen_is_Inr)
    obtain M where M: "events (snd (dcr_present h s p img (snd ?o))) = events (snd ?o) @ M"
      "tempFile (snd (dcr_present h s p img (snd ?o))) = tempFile (snd ?o)"
      "outputPath (snd (dcr_present h s p img (snd ?o))) = outputPath (snd ?o)"
      "\<forall>q. SaveAs q \<notin> set M"
      "\<forall>f q. OpenFile f q \<in> set M
           \<longrightarrow> maskPath (snd (dcr_present h s p img (snd ?o))) = Some q \<and> q \<noteq> []"
      using dcr_present_recorded [of h s p img "snd ?o"] by blast
    have "events (snd (dcr_try h s \<sigma>)) = events \<sigma> @ (W @ M)"
      unfolding eq by (simp add: M(1) W(1))
    moreover have "\<forall>q. SaveAs q \<in> set (W @ M)
        \<longrightarrow> tempFile (snd (dcr_try h s \<sigma>)) = Some q \<and> q \<noteq> []"
      unfolding eq using W(2) M(2,4) by simp
    moreover have "\<forall>f q. OpenFile f q \<in> set (W @ M)
           \<longrightarrow> (outputPath (snd (dcr_try h s \<sigma>)) = Some q
                \<or> maskPath (snd (dcr_try h s \<sigma>)) = Some q) \<and> q \<noteq> []"
      unfolding eq using W(3) M(3,5) by auto
    ultimately show ?thesis by blast
  qed
qed


lemma io_in_work:
  assumes "list_all (\<lambda>e. kind e = Removing) R"
    and "list_all (\<lambda>e. kind e = Outcome) A" and "list_all (\<lambda>e. kind e = Outcome) B"
    and "e \<in> set (W @ A @ Cleanup ps # R @ B)" and "kind e = IO"
  shows "e \<in> set W"
  using assms by (auto simp: list_all_iff)

lemma dcr_job_paths [simp]:
  "tempFile (snd (executeDeepCR h s \<sigma>)) = tempFile (snd (dcr_try h s (jobStart \<sigma>)))"
  "outputPath (snd (executeDeepCR h s \<sigma>)) = outputPath (snd (dcr_try h s (jobStart \<sigma>)))"
  "maskPath (snd (executeDeepCR h s \<sigma>)) = maskPath (snd (dcr_try h s (jobStart \<sigma>)))"
  by (simp_all add: executeDeepCR_snd)

lemma dcr_removed:
  assumes "\<forall>p. removeOk h p"
    and "SaveAs p \<in> set (newEvents \<sigma> (snd (executeDeepCR h s \<sigma>)))
         \<or> OpenFile f p \<in> set (newEvents \<sigma> (snd (executeDeepCR h s \<sigma>)))"
  shows "p \<notin> files (snd (executeDeepCR h s \<sigma>))"
proof -
  let ?t = "snd (dcr_try h s (jobStart \<sigma>))"
  obtain R where R: "newEvents \<sigma> (snd (executeDeepCR h s \<sigma>)) =
      newEvents (jobStart \<sigma>) ?t
      @ dcr_tells (dcr_outcome h s \<sigma>)
      @ Cleanup [tempFile (snd (executeDeepCR h s \<sigma>)), outputPath (snd (executeDeepCR h s \<sigma>)),
                 maskPath (snd (executeDeepCR h s \<sigma>))] # R @ []"
    "list_all (\<lambda>e. kind e = Removing) R"
    using dcr_job_events [of \<sigma> h s] by auto
  obtain W where W: "events ?t = events (jobStart \<sigma>) @ W"
    "\<forall>p. SaveAs p \<in> set W \<longrightarrow> tempFile ?t = Some p \<and> p \<noteq> []"
    "\<forall>f p. OpenFile f p \<in> set W
       \<longrightarrow> (outputPath ?t = Some p \<or> maskPath ?t = Some p) \<and> p \<noteq> []"
    using dcr_try_recorded [of h s "jobStart \<sigma>"] by blast
  have new: "newEvents (jobStart \<sigma>) ?t = W" using W(1) by (rule newEvents_append)
  have "SaveAs p \<in> set W \<or> OpenFile f p \<in> set W"
    using assms(2) io_in_work [OF R(2) tells_kind(1) no_events, of _ W]
    unfolding R(1) new by (metis kind.simps(1) kind.simps(5))
  then have "p \<noteq> [] \<and> (Some p = tempFile ?t \<or> Some p = outputPath ?t \<or> Some p = maskPath ?t)"
    using W(2,3) by metis
  then show ?thesis
    using dcr_gone [OF assms(1), of p s \<sigma>] by simp
qed








lemma lac_obtain_recorded:
  "\<exists>evs. events (snd (lac_obtain h s \<sigma>)) = events \<sigma> @ evs
     \<and> (\<forall>p. SaveAs p \<in> set evs \<longrightarrow> tempFile (snd (lac_obtain h s \<sigma>)) = Some p \<and> p \<noteq> [])
     \<and> (\<forall>f p. OpenFile f p \<in> set evs
           \<longrightarrow> outputPath (snd (lac_obtain h s \<sigma>)) = Some p \<and> p \<noteq> [])
     \<and> (\<forall>p img. fst (lac_obtain h s \<sigma>) = Inr (p, img)
           \<longrightarrow> maskPath (snd (lac_obtain h s \<sigma>)) = Some (lac_maskPath s p))"
  by (auto simp: lac_obtain_def lac_exportView_def lac_runTool_def superviseProcess_def
      lac_loadCleaned_def loadFITSImage_def readImageFile_def andThen_def Let_def
      lac_outputPath_def split: waited.splits decoded.splits)

lemma lac_applyResult_recorded:
  "\<exists>evs. events (snd (lac_applyResult h s img \<sigma>)) = events \<sigma> @ evs
     \<and> tempFile (snd (lac_applyResult h s img \<sigma>)) = tempFile \<sigma>
     \<and> outputPath (snd (lac_applyResult h s img \<sigma>)) = outputPath \<sigma>
     \<and> maskPath (snd (lac_applyResult h s img \<sigma>)) = maskPath \<sigma>
     \<and> (\<forall>q. SaveAs q \<notin> set evs) \<and> (\<forall>f q. OpenFile f q \<notin> set evs)"
  by (auto simp: lac_applyResult_def showInNewWindow_def assignInProcess_def andThen_def Let_def)

lemma lac_loadMask_recorded:
  "\<exists>evs. events (snd (lac_loadMask h s p \<sigma>)) = events \<sigma> @ evs
     \<and> tempFile (snd (lac_loadMask h s p \<sigma>)) = tempFile \<sigma>
     \<and> outputPath (snd (lac_loadMask h s p \<sigma>)) = outputPath \<sigma>
     \<and> maskPath (snd (lac_loadMask h s p \<sigma>)) = maskPath \<sigma>
     \<and> (\<forall>q. SaveAs q \<notin> set evs)
     \<and> (\<forall>f q. OpenFile f q \<in> set evs \<longrightarrow> q = lac_maskPath s p \<and> q \<noteq> [])"
  by (auto simp: lac_loadMask_def showInNewWindow_def assignInProcess_def loadFITSImage_def
      readImageFile_def andThen_def Let_def lac_maskPath_def split: decoded.splits)

lemma lac_present_recorded:
  "\<exists>evs. events (snd (lac_present h s p img \<sigma>)) = events \<sigma> @ evs
     \<and> tempFile (snd (lac_present h s p img \<sigma>)) = tempFile \<sigma>
     \<and> outputPath (snd (lac_present h s p img \<sigma>)) = outputPath \<sigma>
     \<and> maskPath (snd (lac_present h s p img \<sigma>)) = maskPath \<sigma>
     \<and> (\<forall>q. SaveAs q \<notin> set evs)
     \<and> (\<forall>f q. OpenFile f q \<in> set evs \<longrightarrow> q = lac_maskPath s p \<and> q \<noteq> [])"
proof -
  let ?a = "lac_applyResult h s img \<sigma>"
  obtain A where A: "events (snd ?a) = events \<sigma> @ A" "tempFile (snd ?a) = tempFile \<sigma>"
    "outputPath (snd ?a) = outputPath \<sigma>" "maskPath (snd ?a) = maskPath \<sigma>"
    "\<forall>q. SaveAs q \<notin> set A" "\<forall>f q. OpenFile f q \<notin> set A"
    using lac_applyResult_recorded [of h s img \<sigma>] by blast
  show ?thesis
  proof (cases "fst ?a")
    case (Inl e)
    then have "lac_present h s p img \<sigma> = (Inl e, snd ?a)"
      by (simp add: lac_present_def andThen_is_Inl)
    then show ?thesis using A by simp
  next
    case (Inr u)
    then have eq: "lac_present h s p img \<sigma> = lac_loadMask h s p (snd ?a)"
      by (simp add: lac_present_def andThen_is_Inr)
    obtain M where M: "events (snd (lac_loadMask h s p (snd ?a))) = events (snd ?a) @ M"
      "tempFile (snd (lac_loadMask h s p (snd ?a))) = tempFile (snd ?a)"
      "outputPath (snd (lac_loadMask h s p (snd ?a))) = outputPath (snd ?a)"
      "maskPath (snd (lac_loadMask h s p (snd ?a))) = maskPath (snd ?a)"
      "\<forall>q. SaveAs q \<notin> set M"
      "\<forall>f q. OpenFile f q \<in> set M \<longrightarrow> q = lac_maskPath s p \<and> q \<noteq> []"
      using lac_loadMask_recorded [of h s p "snd ?a"] by blast
    have "events (snd (lac_present h s p img \<sigma>)) = events \<sigma> @ (A @ M)"
      unfolding eq by (simp add: M(1) A(1))
    moreover have "\<forall>q. SaveAs q \<notin> set (A @ M)" using A(5) M(5) by simp
    moreover have "\<forall>f q. OpenFile f q \<in> set (A @ M) \<longrightarrow> q = lac_maskPath s p \<and> q \<noteq> []"
      using A(6) M(6) by simp
    ultimately show ?thesis unfolding eq using M(2,3,4) A(2,3,4) by metis
  qed
qed

lemma lac_try_recorded:
  "\<exists>evs. events (snd (lac_try h s \<sigma>)) = events \<sigma> @ evs
     \<and> (\<forall>p. SaveAs p \<in> set evs \<longrightarrow> tempFile (snd (lac_try h s \<sigma>)) = Some p \<and> p \<noteq> [])
     \<and> (\<forall>f p. OpenFile f p \<in> set evs
           \<longrightarrow> (outputPath (snd (lac_try h s \<sigma>)) = Some p
                \<or> maskPath (snd (lac_try h s \<sigma>)) = Some p) \<and> p \<noteq> [])"
proof -
  let ?o = "lac_obtain h s \<sigma>"
  obtain W where W: "events (snd ?o) = events \<sigma> @ W"
    "\<forall>p. SaveAs p \<in> set W \<longrightarrow> tempFile (snd ?o) = Some p \<and> p \<noteq> []"
    "\<forall>f p. OpenFile f p \<in> set W \<longrightarrow> outputPath (snd ?o) = Some p \<and> p \<noteq> []"
    "\<forall>p img. fst ?o = Inr (p, img) \<longrightarrow> maskPath (snd ?o) = Some (lac_maskPath s p)"
    using lac_obtain_recorded [of h s \<sigma>] by blast
  show ?thesis
  proof (cases "fst ?o")
    case (Inl e)
    then have "lac_try h s \<sigma> = (Inl e, snd ?o)" by (simp add: lac_try_def andThen_is_Inl)
    then show ?thesis using W by auto
  next
    case (Inr a)
    obtain p img where a: "a = (p, img)" by (cases a)
    have eq: "lac_try h s \<sigma> = lac_present h s p img (snd ?o)"
      using Inr a by (simp add: lac_try_def andThen_is_Inr)
    have mp: "maskPath (snd ?o) = Some (lac_maskPath s p)" using W(4) Inr a by simp
    obtain M where M: "events (snd (lac_present h s p img (snd ?o))) = events (snd ?o) @ M"
      "tempFile (snd (lac_present h s p img (snd ?o))) = tempFile (snd ?o)"
      "outputPath (snd (lac_present h s p img (snd ?o))) = outputPath (snd ?o)"
      "maskPath (snd (lac_present h s p img (snd ?o))) = maskPath (snd ?o)"
      "\<forall>q. SaveAs q \<notin> set M"
      "\<forall>f q. OpenFile f q \<in> set M \<longrightarrow> q = lac_maskPath s p \<and> q \<noteq> []"
      using lac_present_recorded [of h s p img "snd ?o"] by blast
    have "events (snd (lac_try h s \<sigma>)) = events \<sigma> @ (W @ M)"
      unfolding eq by (simp add: M(1) W(1))
    moreover have "\<forall>q. SaveAs q \<in> set (W @ M)
        \<longrightarrow> tempFile (snd (lac_try h s \<sigma>)) = Some q \<and> q \<noteq> []"
      unfolding eq using W(2) M(2,5) by simp
    moreover have "\<forall>f q. OpenFile f q \<in> set (W @ M)
           \<longrightarrow> (outputPath (snd (lac_try h s \<sigma>)) = Some q
                \<or> maskPath (snd (lac_try h s \<sigma>)) = Some q) \<and> q \<noteq> []"
      unfolding eq using W(3) M(3,4,6) mp by auto
    ultimately show ?thesis by blast
  qed
qed

lemma lac_removed:
  assumes "removeOk h p"
    and "SaveAs p \<in> set (newEvents \<sigma> (snd (executeCosmicRayRemoval h s \<sigma>)))
         \<or> OpenFile f p \<in> set (newEvents \<sigma> (snd (executeCosmicRayRemoval h s \<sigma>)))"
  shows "p \<notin> files (snd (executeCosmicRayRemoval h s \<sigma>))"
proof -
  let ?t = "snd (lac_try h s (jobStart \<sigma>))"
  obtain R where R: "newEvents \<sigma> (snd (executeCosmicRayRemoval h s \<sigma>)) =
      newEvents (jobStart \<sigma>) ?t
      @ lac_tellsFirst (lac_outcome h s \<sigma>)
      @ Cleanup [tempFile (snd (executeCosmicRayRemoval h s \<sigma>)),
                     outputPath (snd (executeCosmicRayRemoval h s \<sigma>)),
                     maskPath (snd (executeCosmicRayRemoval h s \<sigma>))] # R
          @ lac_tellsLast (lac_outcome h s \<sigma>)"
    "list_all (\<lambda>e. kind e = Removing) R"
    using lac_job_events by blast
  obtain W where W: "events ?t = events (jobStart \<sigma>) @ W"
    "\<forall>p. SaveAs p \<in> set W \<longrightarrow> tempFile ?t = Some p \<and> p \<noteq> []"
    "\<forall>f p. OpenFile f p \<in> set W
       \<longrightarrow> (outputPath ?t = Some p \<or> maskPath ?t = Some p) \<and> p \<noteq> []"
    using lac_try_recorded [of h s "jobStart \<sigma>"] by blast
  have new: "newEvents (jobStart \<sigma>) ?t = W" using W(1) by (rule newEvents_append)
  have "SaveAs p \<in> set W \<or> OpenFile f p \<in> set W"
    using assms(2) io_in_work [OF R(2) tells_kind(2) tells_kind(3), of _ W]
    unfolding R(1) new by (metis kind.simps(1) kind.simps(5))
  then have "p \<noteq> [] \<and> (Some p = tempFile ?t \<or> Some p = outputPath ?t \<or> Some p = maskPath ?t)"
    using W(2,3) by metis
  then show ?thesis
    using lac_gone [OF assms(1), where s = s and \<sigma> = \<sigma>] by (simp add: lac_job_fields)
qed



lemma lac_loadMask_target [simp]: "target (snd (lac_loadMask h s p \<sigma>)) = target \<sigma>"
  by (simp add: lac_loadMask_def andThen_fields)





text \<open>Once the tool has exited with code 0, the paths of its results are known to the
  job.\<close>

lemma dcr_obtain_output_known:
  assumes "wrapperScript s \<in> files \<sigma>" "activeWindow h"
    "saveAsOk h (dcr_generateSecureTempFilename h)"
    "waitLoop (duration (dcr_child h s)) (processEventsMillis h) 0 0 = Finished t"
    "exitStatus (dcr_child h s) = 0"
  shows "outputPath (snd (dcr_obtain h s \<sigma>))
      = Some (dcr_cleanedPath h s (dcr_generateSecureTempFilename h))"
  using assms
  by (simp add: dcr_obtain_def dcr_exportView_def dcr_runTool_def superviseProcess_def
      dcr_loadCleaned_def loadImage_def readImageFile_def andThen_def Let_def File_exists_def
      emit_def dcr_child_def dcr_command_def split: decoded.splits)

lemma dcr_try_output_kept:
  "outputPath (snd (dcr_try h s \<sigma>)) = outputPath (snd (dcr_obtain h s \<sigma>))"
proof (cases "fst (dcr_obtain h s \<sigma>)")
  case (Inl e)
  then show ?thesis by (simp add: dcr_try_def andThen_is_Inl)
next
  case (Inr a)
  obtain p img where a: "a = (p, img)" by (cases a)
  have "dcr_try h s \<sigma> = dcr_present h s p img (snd (dcr_obtain h s \<sigma>))"
    using Inr a by (simp add: dcr_try_def andThen_is_Inr)
  then show ?thesis using dcr_present_recorded [of h s p img "snd (dcr_obtain h s \<sigma>)"] by auto
qed

lemma dcr_output_removed:
  assumes "wrapperScript s \<in> files \<sigma>" "activeWindow h"
    "saveAsOk h (dcr_generateSecureTempFilename h)"
    "waitLoop (duration (dcr_child h s)) (processEventsMillis h) 0 0 = Finished t"
    "exitStatus (dcr_child h s) = 0"
    and "\<forall>p. removeOk h p"
  shows "dcr_cleanedPath h s (dcr_generateSecureTempFilename h) \<notin> files (snd (executeDeepCR h s \<sigma>))"
proof -
  have "wrapperScript s \<in> files (jobStart \<sigma>)" using assms(1) by (simp add: jobStart_def)
  then have "outputPath (snd (dcr_obtain h s (jobStart \<sigma>)))
      = Some (dcr_cleanedPath h s (dcr_generateSecureTempFilename h))"
    using assms(2-5) by (rule dcr_obtain_output_known)
  then have "Some (dcr_cleanedPath h s (dcr_generateSecureTempFilename h))
      = outputPath (snd (executeDeepCR h s \<sigma>))"
    by (simp add: dcr_try_output_kept)
  moreover have "dcr_cleanedPath h s (dcr_generateSecureTempFilename h) \<noteq> []"
    by (simp add: dcr_cleanedPath_def)
  ultimately show ?thesis using dcr_gone [OF assms(6)] by blast
qed

lemma lac_obtain_paths_known:
  assumes "lac_wrapperScript s \<in> files \<sigma>" "activeWindow h"
    "saveAsOk h (lac_generateSecureTempFilename h)"
    "waitLoop (duration (lac_child h s)) (processEventsMillis h) 0 0 = Finished t"
    "exitStatus (lac_child h s) = 0"
  shows "outputPath (snd (lac_obtain h s \<sigma>))
      = Some (lac_outputPath s (lac_generateSecureTempFilename h))"
    and "maskPath (snd (lac_obtain h s \<sigma>))
      = Some (lac_maskPath s (lac_generateSecureTempFilename h))"
  using assms
  by (simp_all add: lac_obtain_def lac_exportView_def lac_runTool_def superviseProcess_def
      lac_loadCleaned_def loadFITSImage_def readImageFile_def andThen_def Let_def File_exists_def
      emit_def lac_child_def lac_command_def split: decoded.splits)

lemma lac_try_paths_kept:
  "outputPath (snd (lac_try h s \<sigma>)) = outputPath (snd (lac_obtain h s \<sigma>))"
  "maskPath (snd (lac_try h s \<sigma>)) = maskPath (snd (lac_obtain h s \<sigma>))"
proof -
  have "outputPath (snd (lac_try h s \<sigma>)) = outputPath (snd (lac_obtain h s \<sigma>))
      \<and> maskPath (snd (lac_try h s \<sigma>)) = maskPath (snd (lac_obtain h s \<sigma>))"
  proof (cases "fst (lac_obtain h s \<sigma>)")
    case (Inl e)
    then show ?thesis by (simp add: lac_try_def andThen_is_Inl)
  next
    case (Inr a)
    obtain p img where a: "a = (p, img)" by (cases a)
    have "lac_try h s \<sigma> = lac_present h s p img (snd (lac_obtain h s \<sigma>))"
      using Inr a by (simp add: lac_try_def andThen_is_Inr)
    then show ?thesis using lac_present_recorded [of h s p img "snd (lac_obtain h s \<sigma>)"] by auto
  qed
  then show "outputPath (snd (lac_try h s \<sigma>)) = outputPath (snd (lac_obtain h s \<sigma>))"
    "maskPath (snd (lac_try h s \<sigma>)) = maskPath (snd (lac_obtain h s \<sigma>))" by simp_all
qed

lemma lac_results_removed:
  assumes "lac_wrapperScript s \<in> files \<sigma>" "activeWindow h"
    "saveAsOk h (lac_generateSecureTempFilename h)"
    "waitLoop (duration (lac_child h s)) (processEventsMillis h) 0 0 = Finished t"
    "exitStatus (lac_child h s) = 0"
  shows "removeOk h (lac_outputPath s (lac_generateSecureTempFilename h)) \<Longrightarrow>
     lac_outputPath s (lac_generateSecureTempFilename h)
       \<notin> files (snd (executeCosmicRayRemoval h s \<sigma>))"
    and "removeOk h (lac_maskPath s (lac_generateSecureTempFilename h)) \<Longrightarrow>
     lac_maskPath s (lac_generateSecureTempFilename h)
       \<notin> files (snd (executeCosmicRayRemoval h s \<sigma>))"
proof -
  have w: "lac_wrapperScript s \<in> files (jobStart \<sigma>)" using assms(1) by (simp add: jobStart_def)
  have o: "Some (lac_outputPath s (lac_generateSecureTempFilename h))
      = outputPath (snd (executeCosmicRayRemoval h s \<sigma>))"
    using lac_obtain_paths_known(1) [OF w assms(2-5)]
    by (simp add: lac_job_fields lac_try_paths_kept)
  have m: "Some (lac_maskPath s (lac_generateSecureTempFilename h))
      = maskPath (snd (executeCosmicRayRemoval h s \<sigma>))"
    using lac_obtain_paths_known(2) [OF w assms(2-5)]
    by (simp add: lac_job_fields lac_try_paths_kept)
  have ne: "lac_outputPath s (lac_generateSecureTempFilename h) \<noteq> []"
    "lac_maskPath s (lac_generateSecureTempFilename h) \<noteq> []"
    by (simp_all add: lac_outputPath_def lac_maskPath_def)
  show "removeOk h (lac_outputPath s (lac_generateSecureTempFilename h)) \<Longrightarrow>
     lac_outputPath s (lac_generateSecureTempFilename h)
       \<notin> files (snd (executeCosmicRayRemoval h s \<sigma>))"
    using o ne(1) by (intro lac_gone) simp_all
  show "removeOk h (lac_maskPath s (lac_generateSecureTempFilename h)) \<Longrightarrow>
     lac_maskPath s (lac_generateSecureTempFilename h)
       \<notin> files (snd (executeCosmicRayRemoval h s \<sigma>))"
    using m ne(2) by (intro lac_gone) simp_all
qed

subsection \<open>The concrete environment\<close>

lemma demo_env_fields [simp]:
  "systemTempDirectory (demo_env c d a) = ''/t''"
  "now (demo_env c d a) = 1703"
  "activeWindow (demo_env c d a)"
  "mainViewId (demo_env c d a) = ''M31''"
  "saveAsOk (demo_env c d a) p"
  "launch (demo_env c d a) cmd = c"
  "processEventsMillis (demo_env c d a) = (\<lambda>k. 0)"
  "decode (demo_env c d a) = d"
  "assignOk (demo_env c d a) = a"
  "removeOk (demo_env c d a) p"
  "numberToString (demo_env c d a) r = (if r = 5 then ''5'' else ''0.1'')"
  by (simp_all add: demo_env_def)

lemma demo_child_fields [simp]:
  "duration (demo_child n ws) = Some 250"
  "exitStatus (demo_child n ws) = n"
  "written (demo_child n ws) = ws"
  by (simp_all add: demo_child_def)

lemma demo_state_fields [simp]:
  "files demo_state = {''/opt/run.sh''}"
  "events demo_state = []"
  "target demo_state = \<lparr>width = 1, height = 1, samples = [0]\<rparr>"
  by (simp_all add: demo_state_def)

lemma demo_settings_fields [simp]:
  "wrapperScript demo_settings = ''/opt/run.sh''"
  "outputDir demo_settings = ''/t''"
  "saveMask demo_settings"
  "replaceActive demo_settings"
  "threshold demo_settings = 1 / 10"
  "preset demo_settings = ''optimal''"
  by (simp_all add: demo_settings_def)

lemma demo_lac_fields [simp]:
  "lac_wrapperScript demo_lac = ''/opt/run.sh''"
  "lac_outputDir demo_lac = ''/t''"
  "lac_saveMask demo_lac"
  "lac_replaceActive demo_lac"
  by (simp_all add: demo_lac_def)

lemma demo_wait [simp]: "waitLoop (Some 250) (\<lambda>k. 0) 0 0 = Finished 250"
  by (simp add: waitLoop.simps finishedBy_def TIMEOUT_MS_def)

lemma demo_tmp [simp]:
  "dcr_generateSecureTempFilename (demo_env c d a) = ''/t/bbdcr_1703_k3j9p7w1.xisf''"
  "lac_generateSecureTempFilename (demo_env c d a) = ''/t/bblac_1703_k3j9p7w1.fits''"
  by (simp_all add: dcr_generateSecureTempFilename_def lac_generateSecureTempFilename_def
      demo_env_def decimal.simps digit10_def randomSuffix_def substring_def)

lemma demo_paths [simp]:
  "dcr_cleanedPath (demo_env c d a) demo_settings ''/t/bbdcr_1703_k3j9p7w1.xisf''
     = ''/t/bbdcr_1703_k3j9p7w1_deepcr_th0.1_cleaned.xisf''"
  "dcr_maskPath (demo_env c d a) demo_settings ''/t/bbdcr_1703_k3j9p7w1.xisf''
     = ''/t/bbdcr_1703_k3j9p7w1_deepcr_th0.1_mask.xisf''"
  "lac_outputPath demo_lac ''/t/bblac_1703_k3j9p7w1.fits'' = ''/t/bblac_1703_k3j9p7w1_crr.fits''"
  "lac_maskPath demo_lac ''/t/bblac_1703_k3j9p7w1.fits'' = ''/t/bblac_1703_k3j9p7w1_crm.fits''"
  by (simp_all add: dcr_cleanedPath_def dcr_maskPath_def dcr_baseName_def lac_outputPath_def
      lac_maskPath_def lac_baseName_def extractName_def beforeLastDot_def endsWith_def Let_def)

lemma demo_child_of [simp]:
  "dcr_child (demo_env c d a) s = c" "lac_child (demo_env c d a) l = c"
  by (simp_all add: dcr_child_def lac_child_def)

lemma demo_paths_new_window [simp]:
  "dcr_cleanedPath (demo_env c d a) (demo_settings\<lparr>replaceActive := False\<rparr>)
     ''/t/bbdcr_1703_k3j9p7w1.xisf'' = ''/t/bbdcr_1703_k3j9p7w1_deepcr_th0.1_cleaned.xisf''"
  "dcr_maskPath (demo_env c d a) (demo_settings\<lparr>replaceActive := False\<rparr>)
     ''/t/bbdcr_1703_k3j9p7w1.xisf'' = ''/t/bbdcr_1703_k3j9p7w1_deepcr_th0.1_mask.xisf''"
  using demo_paths(1,2) [of c d a] by (simp_all add: dcr_cleanedPath_def dcr_maskPath_def)

lemma demo_withRandom [simp]:
  "withRandom (demo_env c d a) ''k3j9'' ''p7w1'' = demo_env c d a"
  by (simp add: withRandom_def demo_env_def)

section \<open>Properties\<close>

subsection \<open>Round trip of the parameters\<close>

text \<open>
  C5. For every parameter set \<open>P\<close> of each of the three scripts, exporting \<open>P\<close> (into any
  store) and importing the result (over any current settings \<open>D\<close>) succeeds and yields
  settings that agree with \<open>P\<close> on every key that \<open>exportParameters\<close> writes, each read
  back with the type it was written with; the fields that are never exported keep the
  value they have in \<open>D\<close>.
\<close>

theorem parameters_round_trip:
  "dcr_importParameters (dcr_exportParameters P ps) D =
     Inr (D\<lparr>model := model P, threshold := threshold P, preset := preset P,
            saveMask := saveMask P, replaceActive := replaceActive P\<rparr>)
   \<and> lac_importParameters (lac_exportParameters L ps) E =
     Inr (E\<lparr>sigclip := sigclip L, objlim := objlim L, readnoise := readnoise L,
            gain := gain L, niter := niter L, cleantype := cleantype L,
            lac_saveMask := lac_saveMask L, lac_replaceActive := lac_replaceActive L\<rparr>)
   \<and> cc_importParameters (cc_exportParameters C ps) F = Inr C"
  by (simp add: dcr_importParameters_def dcr_exportParameters_def
      lac_importParameters_def lac_exportParameters_def
      cc_importParameters_def cc_exportParameters_def
      importing_def Parameters_set_def Parameters_has_def
      getBoolean_def getInteger_def getReal_def getString_def)

subsection \<open>Cleanup of the temporary files\<close>

text \<open>
  C1 (amended). On every exit path of each of the three jobs the cleanup code is entered
  exactly once. In \<open>executeDeepCR\<close> and \<open>applyCosmeticCorrection\<close> it is the \<open>finally\<close>
  block, which follows \<open>try\<close> and \<open>catch\<close>: the outcome has been told before it is entered
  (the success line, or the error line and the error message box; CosmeticCorrection
  shows a message box for a success too) and nothing is told afterwards. In
  \<open>executeCosmicRayRemoval\<close> a success is told after the cleanup; of a failure the error
  line comes before the cleanup and the message box after it. The cleanup removes the
  input file the job has exported and every result file the job has opened: when no
  \<open>File.remove\<close> fails, none of them exists afterwards (in L.A.Cosmic, where a failing
  removal is only a warning: each of them whose own removal succeeds). Once the tool has
  exited with code 0, the same holds for its primary output, opened or not, and in
  L.A.Cosmic also for the mask. CosmeticCorrection's input and output file are both
  removed whatever the job has done.
\<close>

theorem cleanup_entered_once:
  "cleanups (newEvents \<sigma> (snd (executeDeepCR h s \<sigma>))) = 1
   \<and> told (beforeCleanup (newEvents \<sigma> (snd (executeDeepCR h s \<sigma>))))
       = dcr_tells (dcr_outcome h s \<sigma>)
   \<and> told (fromCleanup (newEvents \<sigma> (snd (executeDeepCR h s \<sigma>)))) = []
   \<and> ((\<forall>p. removeOk h p) \<longrightarrow>
        (\<forall>f p. SaveAs p \<in> set (newEvents \<sigma> (snd (executeDeepCR h s \<sigma>)))
               \<or> OpenFile f p \<in> set (newEvents \<sigma> (snd (executeDeepCR h s \<sigma>)))
             \<longrightarrow> p \<notin> files (snd (executeDeepCR h s \<sigma>))))
   \<and> cleanups (newEvents \<sigma> (snd (executeCosmicRayRemoval h l \<sigma>))) = 1
   \<and> told (beforeCleanup (newEvents \<sigma> (snd (executeCosmicRayRemoval h l \<sigma>))))
       = lac_tellsFirst (lac_outcome h l \<sigma>)
   \<and> told (fromCleanup (newEvents \<sigma> (snd (executeCosmicRayRemoval h l \<sigma>))))
       = lac_tellsLast (lac_outcome h l \<sigma>)
   \<and> (\<forall>f p. removeOk h p
            \<and> (SaveAs p \<in> set (newEvents \<sigma> (snd (executeCosmicRayRemoval h l \<sigma>)))
                \<or> OpenFile f p \<in> set (newEvents \<sigma> (snd (executeCosmicRayRemoval h l \<sigma>))))
          \<longrightarrow> p \<notin> files (snd (executeCosmicRayRemoval h l \<sigma>)))
   \<and> cleanups (newEvents \<sigma> (snd (applyCosmeticCorrection h d \<sigma>))) = 1
   \<and> told (beforeCleanup (newEvents \<sigma> (snd (applyCosmeticCorrection h d \<sigma>))))
       = cc_tells (cc_outcome h d \<sigma>)
   \<and> told (fromCleanup (newEvents \<sigma> (snd (applyCosmeticCorrection h d \<sigma>)))) = []
   \<and> ((\<forall>p. removeOk h p) \<longrightarrow>
        cc_tempInputFile h \<notin> files (snd (applyCosmeticCorrection h d \<sigma>))
        \<and> cc_tempOutputFile h \<notin> files (snd (applyCosmeticCorrection h d \<sigma>)))
   \<and> (wrapperScript s \<in> files \<sigma> \<and> activeWindow h
        \<and> saveAsOk h (dcr_generateSecureTempFilename h)
        \<and> waitLoop (duration (dcr_child h s)) (processEventsMillis h) 0 0 = Finished t
        \<and> exitStatus (dcr_child h s) = 0 \<and> (\<forall>p. removeOk h p)
      \<longrightarrow> dcr_cleanedPath h s (dcr_generateSecureTempFilename h)
            \<notin> files (snd (executeDeepCR h s \<sigma>)))
   \<and> (lac_wrapperScript l \<in> files \<sigma> \<and> activeWindow h
        \<and> saveAsOk h (lac_generateSecureTempFilename h)
        \<and> waitLoop (duration (lac_child h l)) (processEventsMillis h) 0 0 = Finished t'
        \<and> exitStatus (lac_child h l) = 0
      \<longrightarrow> (removeOk h (lac_outputPath l (lac_generateSecureTempFilename h))
            \<longrightarrow> lac_outputPath l (lac_generateSecureTempFilename h)
                  \<notin> files (snd (executeCosmicRayRemoval h l \<sigma>)))
          \<and> (removeOk h (lac_maskPath l (lac_generateSecureTempFilename h))
            \<longrightarrow> lac_maskPath l (lac_generateSecureTempFilename h)
                  \<notin> files (snd (executeCosmicRayRemoval h l \<sigma>))))"
proof (intro conjI impI allI)
  show "cleanups (newEvents \<sigma> (snd (executeDeepCR h s \<sigma>))) = 1"
    by (rule dcr_cleanups)
  show "told (beforeCleanup (newEvents \<sigma> (snd (executeDeepCR h s \<sigma>))))
       = dcr_tells (dcr_outcome h s \<sigma>)"
    by (rule dcr_cleanups)
  show "told (fromCleanup (newEvents \<sigma> (snd (executeDeepCR h s \<sigma>)))) = []"
    by (rule dcr_cleanups)
  show "cleanups (newEvents \<sigma> (snd (executeCosmicRayRemoval h l \<sigma>))) = 1"
    by (rule lac_cleanups)
  show "told (beforeCleanup (newEvents \<sigma> (snd (executeCosmicRayRemoval h l \<sigma>))))
       = lac_tellsFirst (lac_outcome h l \<sigma>)"
    by (rule lac_cleanups)
  show "told (fromCleanup (newEvents \<sigma> (snd (executeCosmicRayRemoval h l \<sigma>))))
       = lac_tellsLast (lac_outcome h l \<sigma>)"
    by (rule lac_cleanups)
  show "cleanups (newEvents \<sigma> (snd (applyCosmeticCorrection h d \<sigma>))) = 1"
    by (rule cc_cleanups)
  show "told (beforeCleanup (newEvents \<sigma> (snd (applyCosmeticCorrection h d \<sigma>))))
       = cc_tells (cc_outcome h d \<sigma>)"
    by (rule cc_cleanups)
  show "told (fromCleanup (newEvents \<sigma> (snd (applyCosmeticCorrection h d \<sigma>)))) = []"
    by (rule cc_cleanups)
next
  fix f p
  assume "\<forall>p. removeOk h p"
    and "SaveAs p \<in> set (newEvents \<sigma> (snd (executeDeepCR h s \<sigma>)))
               \<or> OpenFile f p \<in> set (newEvents \<sigma> (snd (executeDeepCR h s \<sigma>)))"
  then show "p \<notin> files (snd (executeDeepCR h s \<sigma>))"
    by (rule dcr_removed)
next
  fix f p
  assume "removeOk h p
            \<and> (SaveAs p \<in> set (newEvents \<sigma> (snd (executeCosmicRayRemoval h l \<sigma>)))
                \<or> OpenFile f p \<in> set (newEvents \<sigma> (snd (executeCosmicRayRemoval h l \<sigma>))))"
  then show "p \<notin> files (snd (executeCosmicRayRemoval h l \<sigma>))"
    using lac_removed [of h p \<sigma> l f] by blast
next
  assume "\<forall>p. removeOk h p"
  then show "cc_tempInputFile h \<notin> files (snd (applyCosmeticCorrection h d \<sigma>))"
    by (rule cc_gone)
next
  assume "\<forall>p. removeOk h p"
  then show "cc_tempOutputFile h \<notin> files (snd (applyCosmeticCorrection h d \<sigma>))"
    by (rule cc_gone)
next
  assume "wrapperScript s \<in> files \<sigma> \<and> activeWindow h
        \<and> saveAsOk h (dcr_generateSecureTempFilename h)
        \<and> waitLoop (duration (dcr_child h s)) (processEventsMillis h) 0 0 = Finished t
        \<and> exitStatus (dcr_child h s) = 0 \<and> (\<forall>p. removeOk h p)"
  then show "dcr_cleanedPath h s (dcr_generateSecureTempFilename h)
            \<notin> files (snd (executeDeepCR h s \<sigma>))"
    using dcr_output_removed [of s \<sigma> h t] by blast
next
  assume a: "lac_wrapperScript l \<in> files \<sigma> \<and> activeWindow h
        \<and> saveAsOk h (lac_generateSecureTempFilename h)
        \<and> waitLoop (duration (lac_child h l)) (processEventsMillis h) 0 0 = Finished t'
        \<and> exitStatus (lac_child h l) = 0"
  assume "removeOk h (lac_outputPath l (lac_generateSecureTempFilename h))"
  with a show "lac_outputPath l (lac_generateSecureTempFilename h)
                  \<notin> files (snd (executeCosmicRayRemoval h l \<sigma>))"
    using lac_results_removed(1) [of l \<sigma> h t'] by blast
next
  assume a: "lac_wrapperScript l \<in> files \<sigma> \<and> activeWindow h
        \<and> saveAsOk h (lac_generateSecureTempFilename h)
        \<and> waitLoop (duration (lac_child h l)) (processEventsMillis h) 0 0 = Finished t'
        \<and> exitStatus (lac_child h l) = 0"
  assume "removeOk h (lac_maskPath l (lac_generateSecureTempFilename h))"
  with a show "lac_maskPath l (lac_generateSecureTempFilename h)
                  \<notin> files (snd (executeCosmicRayRemoval h l \<sigma>))"
    using lac_results_removed(2) [of l \<sigma> h t'] by blast
qed

theorem cleanup_entered_once_witness:
  "(\<forall>p. removeOk
          (demo_env (demo_child 3 []) (\<lambda>f p. Unopenable) (\<lambda>v. True))
          p)
   \<and> SaveAs ''/t/bbdcr_1703_k3j9p7w1.xisf''
        \<in> set (newEvents demo_state (snd (executeDeepCR
                (demo_env (demo_child 3 []) (\<lambda>f p. Unopenable) (\<lambda>v. True))
                demo_settings demo_state)))
   \<and> ''/t/bbdcr_1703_k3j9p7w1.xisf''
        \<notin> files (snd (executeDeepCR
                (demo_env (demo_child 3 []) (\<lambda>f p. Unopenable) (\<lambda>v. True))
                demo_settings demo_state))
   \<and> cleanups (newEvents demo_state (snd (executeDeepCR
           (demo_env (demo_child 3 []) (\<lambda>f p. Unopenable) (\<lambda>v. True))
           demo_settings demo_state))) = 1
   \<and> dcr_tells (dcr_outcome
           (demo_env (demo_child 3 []) (\<lambda>f p. Unopenable) (\<lambda>v. True))
           demo_settings demo_state)
        = [Report (Failed (ProcessFailed 3)), MessageBox (Failed (ProcessFailed 3))]
   \<and> SaveAs ''/t/bblac_1703_k3j9p7w1.fits''
        \<in> set (newEvents demo_state (snd (executeCosmicRayRemoval
                (demo_env (demo_child 3 []) (\<lambda>f p. Unopenable) (\<lambda>v. True))
                demo_lac demo_state)))
   \<and> ''/t/bblac_1703_k3j9p7w1.fits''
        \<notin> files (snd (executeCosmicRayRemoval
                (demo_env (demo_child 3 []) (\<lambda>f p. Unopenable) (\<lambda>v. True))
                demo_lac demo_state))
   \<and> lac_tellsFirst (lac_outcome
           (demo_env (demo_child 3 []) (\<lambda>f p. Unopenable) (\<lambda>v. True))
           demo_lac demo_state) = [Report (Failed (ProcessFailed 3))]
   \<and> lac_tellsLast (lac_outcome
           (demo_env (demo_child 3 []) (\<lambda>f p. Unopenable) (\<lambda>v. True))
           demo_lac demo_state) = [MessageBox (Failed (ProcessFailed 3))]
   \<and> cc_tempInputFile
           (demo_env (demo_child 3 []) (\<lambda>f p. Unopenable) (\<lambda>v. True))
           \<notin> files (snd (applyCosmeticCorrection
           (demo_env (demo_child 3 []) (\<lambda>f p. Unopenable) (\<lambda>v. True))
           demo_cc demo_state))
   \<and> ''/t/bbdcr_1703_k3j9p7w1_deepcr_th0.1_cleaned.xisf''
        \<notin> files (snd (executeDeepCR
            (demo_env (demo_child 0 [''/t/bbdcr_1703_k3j9p7w1_deepcr_th0.1_cleaned.xisf'',
                            ''/t/bblac_1703_k3j9p7w1_crm.fits''])
      (\<lambda>f p. Unopenable) (\<lambda>v. True))
            demo_settings demo_state))
   \<and> ''/t/bblac_1703_k3j9p7w1_crm.fits''
        \<notin> files (snd (executeCosmicRayRemoval
            (demo_env (demo_child 0 [''/t/bbdcr_1703_k3j9p7w1_deepcr_th0.1_cleaned.xisf'',
                            ''/t/bblac_1703_k3j9p7w1_crm.fits''])
      (\<lambda>f p. Unopenable) (\<lambda>v. True))
            demo_lac demo_state))"
proof -
  let ?E = "demo_env (demo_child 3 []) (\<lambda>f p. Unopenable) (\<lambda>v. True)"
  note inst = cleanup_entered_once [of demo_state ?E demo_settings demo_lac demo_cc]
  have all: "\<forall>p. removeOk ?E p" by simp
  have d: "newEvents demo_state (snd (executeDeepCR ?E demo_settings demo_state)) =
     [SaveAs ''/t/bbdcr_1703_k3j9p7w1.xisf'', Spawn (dcr_command ?E demo_settings),
      Report (Failed (ProcessFailed 3)), MessageBox (Failed (ProcessFailed 3)),
      Cleanup [Some ''/t/bbdcr_1703_k3j9p7w1.xisf'', None, None],
      Remove ''/t/bbdcr_1703_k3j9p7w1.xisf'']"
    using dcr_exit_code_gating(1) [of demo_settings demo_state ?E 250] by simp
  have l: "newEvents demo_state (snd (executeCosmicRayRemoval ?E demo_lac demo_state)) =
     [SaveAs ''/t/bblac_1703_k3j9p7w1.fits'', Spawn (lac_command ?E demo_lac),
      Report (Failed (ProcessFailed 3)),
      Cleanup [Some ''/t/bblac_1703_k3j9p7w1.fits'', None, None],
      Remove ''/t/bblac_1703_k3j9p7w1.fits'',
      MessageBox (Failed (ProcessFailed 3))]"
    using lac_exit_code_gating(1) [of demo_lac demo_state ?E 250] by simp
  have d1: "SaveAs ''/t/bbdcr_1703_k3j9p7w1.xisf''
        \<in> set (newEvents demo_state (snd (executeDeepCR ?E demo_settings demo_state)))"
    by (simp add: d)
  have l1: "SaveAs ''/t/bblac_1703_k3j9p7w1.fits''
        \<in> set (newEvents demo_state (snd (executeCosmicRayRemoval ?E demo_lac demo_state)))"
    by (simp add: l)
  from inst all d1 have "''/t/bbdcr_1703_k3j9p7w1.xisf''
        \<notin> files (snd (executeDeepCR ?E demo_settings demo_state))"
    by blast
  moreover from inst l1 have "''/t/bblac_1703_k3j9p7w1.fits''
        \<notin> files (snd (executeCosmicRayRemoval ?E demo_lac demo_state))"
    using all by blast
  moreover from inst all have "cc_tempInputFile ?E
        \<notin> files (snd (applyCosmeticCorrection ?E demo_cc demo_state))"
    by blast
  moreover from inst have "cleanups (newEvents demo_state
        (snd (executeDeepCR ?E demo_settings demo_state))) = 1"
    by blast
  moreover from inst have "dcr_tells (dcr_outcome ?E demo_settings demo_state)
        = told (beforeCleanup (newEvents demo_state (snd (executeDeepCR ?E demo_settings demo_state))))"
    by simp
  then have "dcr_tells (dcr_outcome ?E demo_settings demo_state)
        = [Report (Failed (ProcessFailed 3)), MessageBox (Failed (ProcessFailed 3))]"
    unfolding d by (simp add: told_def beforeCleanup_def)
  moreover from inst have "lac_tellsFirst (lac_outcome ?E demo_lac demo_state)
        = told (beforeCleanup (newEvents demo_state (snd (executeCosmicRayRemoval ?E demo_lac demo_state))))"
    by simp
  then have "lac_tellsFirst (lac_outcome ?E demo_lac demo_state) = [Report (Failed (ProcessFailed 3))]"
    unfolding l by (simp add: told_def beforeCleanup_def)
  moreover from inst have "lac_tellsLast (lac_outcome ?E demo_lac demo_state)
        = told (fromCleanup (newEvents demo_state (snd (executeCosmicRayRemoval ?E demo_lac demo_state))))"
    by simp
  then have "lac_tellsLast (lac_outcome ?E demo_lac demo_state) = [MessageBox (Failed (ProcessFailed 3))]"
    unfolding l by (simp add: told_def fromCleanup_def)
  moreover have "''/t/bbdcr_1703_k3j9p7w1_deepcr_th0.1_cleaned.xisf''
        \<notin> files (snd (executeDeepCR
            (demo_env (demo_child 0 [''/t/bbdcr_1703_k3j9p7w1_deepcr_th0.1_cleaned.xisf'',
                            ''/t/bblac_1703_k3j9p7w1_crm.fits''])
      (\<lambda>f p. Unopenable) (\<lambda>v. True))
            demo_settings demo_state))"
    using cleanup_entered_once [of demo_state
            "demo_env (demo_child 0 [''/t/bbdcr_1703_k3j9p7w1_deepcr_th0.1_cleaned.xisf'',
                            ''/t/bblac_1703_k3j9p7w1_crm.fits''])
      (\<lambda>f p. Unopenable) (\<lambda>v. True)"
            demo_settings demo_lac demo_cc 250 250]
    by simp
  moreover have "''/t/bblac_1703_k3j9p7w1_crm.fits''
        \<notin> files (snd (executeCosmicRayRemoval
            (demo_env (demo_child 0 [''/t/bbdcr_1703_k3j9p7w1_deepcr_th0.1_cleaned.xisf'',
                            ''/t/bblac_1703_k3j9p7w1_crm.fits''])
      (\<lambda>f p. Unopenable) (\<lambda>v. True))
            demo_lac demo_state))"
    using cleanup_entered_once [of demo_state
            "demo_env (demo_child 0 [''/t/bbdcr_1703_k3j9p7w1_deepcr_th0.1_cleaned.xisf'',
                            ''/t/bblac_1703_k3j9p7w1_crm.fits''])
      (\<lambda>f p. Unopenable) (\<lambda>v. True)"
            demo_settings demo_lac demo_cc 250 250]
    by simp
  ultimately show ?thesis using all d1 l1 by blast
qed

theorem report_before_cleanup_counterexample:
  "beforeCleanup (newEvents demo_state (snd (executeDeepCR
          (demo_env (demo_child 3 []) (\<lambda>f p. Unopenable) (\<lambda>v. True))
          demo_settings demo_state)))
     = [SaveAs ''/t/bbdcr_1703_k3j9p7w1.xisf'', Spawn (dcr_command
             (demo_env (demo_child 3 []) (\<lambda>f p. Unopenable) (\<lambda>v. True))
             demo_settings),
        Report (Failed (ProcessFailed 3)), MessageBox (Failed (ProcessFailed 3))]
   \<and> fromCleanup (newEvents demo_state (snd (executeDeepCR
           (demo_env (demo_child 3 []) (\<lambda>f p. Unopenable) (\<lambda>v. True))
           demo_settings demo_state)))
     = [Cleanup [Some ''/t/bbdcr_1703_k3j9p7w1.xisf'', None, None],
        Remove ''/t/bbdcr_1703_k3j9p7w1.xisf'']"
proof -
  have "newEvents demo_state (snd (executeDeepCR
          (demo_env (demo_child 3 []) (\<lambda>f p. Unopenable) (\<lambda>v. True))
          demo_settings demo_state)) =
     [SaveAs ''/t/bbdcr_1703_k3j9p7w1.xisf'', Spawn (dcr_command
             (demo_env (demo_child 3 []) (\<lambda>f p. Unopenable) (\<lambda>v. True))
             demo_settings),
      Report (Failed (ProcessFailed 3)), MessageBox (Failed (ProcessFailed 3)),
      Cleanup [Some ''/t/bbdcr_1703_k3j9p7w1.xisf'', None, None],
      Remove ''/t/bbdcr_1703_k3j9p7w1.xisf'']"
    using dcr_exit_code_gating(1) [of demo_settings demo_state "demo_env (demo_child 3 []) (\<lambda>f p. Unopenable) (\<lambda>v. True)" 250] by simp
  then show ?thesis by (simp add: beforeCleanup_def fromCleanup_def)
qed

subsection \<open>No partial application\<close>




subsection \<open>Exit-code gating\<close>

text \<open>
  C3. Whenever a DeepCR or L.A.Cosmic job gets as far as running the tool (wrapper script
  and active window present, export succeeded), the child terminates within the time
  budget and its exit code is not zero, the job reports the failure \<open>ProcessFailed\<close> with
  that code (on the console and in the message box), and apart from exporting, starting
  the process, reporting and cleaning up it does nothing: no file is opened or read, no
  image is assigned, no window is created, and the target image is unchanged.
\<close>

theorem exit_code_gating:
  "(wrapperScript s \<in> files \<sigma> \<and> activeWindow h \<and> saveAsOk h (dcr_generateSecureTempFilename h)
      \<and> waitLoop (duration (dcr_child h s)) (processEventsMillis h) 0 0 = Finished t
      \<and> exitStatus (dcr_child h s) \<noteq> 0
    \<longrightarrow> newEvents \<sigma> (snd (executeDeepCR h s \<sigma>)) =
          [SaveAs (dcr_generateSecureTempFilename h), Spawn (dcr_command h s),
           Report (Failed (ProcessFailed (exitStatus (dcr_child h s)))),
           MessageBox (Failed (ProcessFailed (exitStatus (dcr_child h s)))),
           Cleanup [Some (dcr_generateSecureTempFilename h), None, None],
           Remove (dcr_generateSecureTempFilename h)]
        \<and> target (snd (executeDeepCR h s \<sigma>)) = target \<sigma>
        \<and> windows (snd (executeDeepCR h s \<sigma>)) = windows \<sigma>)
   \<and> (lac_wrapperScript l \<in> files \<sigma> \<and> activeWindow h
      \<and> saveAsOk h (lac_generateSecureTempFilename h)
      \<and> waitLoop (duration (lac_child h l)) (processEventsMillis h) 0 0 = Finished t'
      \<and> exitStatus (lac_child h l) \<noteq> 0
    \<longrightarrow> newEvents \<sigma> (snd (executeCosmicRayRemoval h l \<sigma>)) =
          [SaveAs (lac_generateSecureTempFilename h), Spawn (lac_command h l),
           Report (Failed (ProcessFailed (exitStatus (lac_child h l)))),
           Cleanup [Some (lac_generateSecureTempFilename h), None, None],
           Remove (lac_generateSecureTempFilename h)]
          @ (if removeOk h (lac_generateSecureTempFilename h) then []
             else [Warning (lac_generateSecureTempFilename h)])
          @ [MessageBox (Failed (ProcessFailed (exitStatus (lac_child h l))))]
        \<and> fst (executeCosmicRayRemoval h l \<sigma>) = Failed (ProcessFailed (exitStatus (lac_child h l)))
        \<and> target (snd (executeCosmicRayRemoval h l \<sigma>)) = target \<sigma>
        \<and> windows (snd (executeCosmicRayRemoval h l \<sigma>)) = windows \<sigma>)"
proof (intro conjI impI)
  assume a: "wrapperScript s \<in> files \<sigma> \<and> activeWindow h
      \<and> saveAsOk h (dcr_generateSecureTempFilename h)
      \<and> waitLoop (duration (dcr_child h s)) (processEventsMillis h) 0 0 = Finished t
      \<and> exitStatus (dcr_child h s) \<noteq> 0"
  then show "newEvents \<sigma> (snd (executeDeepCR h s \<sigma>)) =
          [SaveAs (dcr_generateSecureTempFilename h), Spawn (dcr_command h s),
           Report (Failed (ProcessFailed (exitStatus (dcr_child h s)))),
           MessageBox (Failed (ProcessFailed (exitStatus (dcr_child h s)))),
           Cleanup [Some (dcr_generateSecureTempFilename h), None, None],
           Remove (dcr_generateSecureTempFilename h)]"
    using dcr_exit_code_gating(1) [of s \<sigma> h t] by blast
  from a show "target (snd (executeDeepCR h s \<sigma>)) = target \<sigma>"
    using dcr_exit_code_gating(2) [of s \<sigma> h t] by blast
  from a show "windows (snd (executeDeepCR h s \<sigma>)) = windows \<sigma>"
    using dcr_exit_code_gating(3) [of s \<sigma> h t] by blast
next
  assume a: "lac_wrapperScript l \<in> files \<sigma> \<and> activeWindow h
      \<and> saveAsOk h (lac_generateSecureTempFilename h)
      \<and> waitLoop (duration (lac_child h l)) (processEventsMillis h) 0 0 = Finished t'
      \<and> exitStatus (lac_child h l) \<noteq> 0"
  then show ev: "newEvents \<sigma> (snd (executeCosmicRayRemoval h l \<sigma>)) =
          [SaveAs (lac_generateSecureTempFilename h), Spawn (lac_command h l),
           Report (Failed (ProcessFailed (exitStatus (lac_child h l)))),
           Cleanup [Some (lac_generateSecureTempFilename h), None, None],
           Remove (lac_generateSecureTempFilename h)]
          @ (if removeOk h (lac_generateSecureTempFilename h) then []
             else [Warning (lac_generateSecureTempFilename h)])
          @ [MessageBox (Failed (ProcessFailed (exitStatus (lac_child h l))))]"
    using lac_exit_code_gating(1) [of l \<sigma> h t'] by blast
  from a show "target (snd (executeCosmicRayRemoval h l \<sigma>)) = target \<sigma>"
    using lac_exit_code_gating(2) [of l \<sigma> h t'] by blast
  from a show "windows (snd (executeCosmicRayRemoval h l \<sigma>)) = windows \<sigma>"
    using lac_exit_code_gating(3) [of l \<sigma> h t'] by blast
  from a have "lac_obtain h l (jobStart \<sigma>) =
     (Inl (ProcessFailed (exitStatus (lac_child h l))),
      (jobStart \<sigma>)\<lparr>tempFile := Some (lac_generateSecureTempFilename h),
        events := events (jobStart \<sigma>) @ [SaveAs (lac_generateSecureTempFilename h), Spawn (lac_command h l)],
        files := files (jobStart \<sigma>) \<union> {lac_generateSecureTempFilename h} \<union> set (written (lac_child h l))\<rparr>)"
    by (intro lac_obtain_exit_code [of l _ h t']) (simp_all add: jobStart_def)
  then show "fst (executeCosmicRayRemoval h l \<sigma>) = Failed (ProcessFailed (exitStatus (lac_child h l)))"
    by (simp add: executeCosmicRayRemoval_eq lac_outcome_def lac_try_def andThen_def)
qed

theorem exit_code_gating_witness:
  "newEvents demo_state
     (snd (executeDeepCR (demo_env (demo_child 3 []) (\<lambda>f p. Unopenable) (\<lambda>v. True))
        demo_settings demo_state)) =
     [SaveAs ''/t/bbdcr_1703_k3j9p7w1.xisf'',
      Spawn (dcr_command
              (demo_env (demo_child 3 []) (\<lambda>f p. Unopenable) (\<lambda>v. True))
              demo_settings),
      Report (Failed (ProcessFailed 3)),
      MessageBox (Failed (ProcessFailed 3)),
      Cleanup [Some ''/t/bbdcr_1703_k3j9p7w1.xisf'', None, None],
      Remove ''/t/bbdcr_1703_k3j9p7w1.xisf'']
   \<and> newEvents demo_state
     (snd (executeCosmicRayRemoval (demo_env (demo_child 3 []) (\<lambda>f p. Unopenable) (\<lambda>v. True))
        demo_lac demo_state)) =
     [SaveAs ''/t/bblac_1703_k3j9p7w1.fits'',
      Spawn (lac_command (demo_env (demo_child 3 []) (\<lambda>f p. Unopenable) (\<lambda>v. True)) demo_lac),
      Report (Failed (ProcessFailed 3)),
      Cleanup [Some ''/t/bblac_1703_k3j9p7w1.fits'', None, None],
      Remove ''/t/bblac_1703_k3j9p7w1.fits'',
      MessageBox (Failed (ProcessFailed 3))]
   \<and> fst (executeCosmicRayRemoval (demo_env (demo_child 3 []) (\<lambda>f p. Unopenable) (\<lambda>v. True))
        demo_lac demo_state) = Failed (ProcessFailed 3)"
  using exit_code_gating [of demo_settings demo_state
      "demo_env (demo_child 3 []) (\<lambda>f p. Unopenable) (\<lambda>v. True)" 250 demo_lac 250]
  by simp

subsection \<open>Timeout of the supervised process\<close>

text \<open>
  C4 (amended). The supervisor polls with \<open>waitForFinished(100)\<close> and compares the time
  elapsed since the launch with the budget of 600000 ms after each unsuccessful poll and
  the \<open>processEvents()\<close> call that follows it. For a child that has not terminated 100 ms
  after the budget, the loop ends with the timeout: the child is killed, the timeout
  error is thrown and no process result is returned. If no \<open>processEvents()\<close> call takes
  longer than \<open>B\<close> ms, this happens at an elapsed time above the budget by at most one
  poll interval plus \<open>B\<close>; it is within one poll interval when event handling takes no
  time.
\<close>

theorem supervisor_timeout:
  assumes "\<not> finishedBy (duration (launch h c)) (TIMEOUT_MS + 100)"
    and "\<forall>k. processEventsMillis h k \<le> B"
  shows "(\<exists>e. waitLoop (duration (launch h c)) (processEventsMillis h) 0 0 = Expired e
            \<and> TIMEOUT_MS < e \<and> e \<le> TIMEOUT_MS + 100 + B)
         \<and> superviseProcess h c \<sigma> = (Inl TimedOut, emit Kill (emit (Spawn c) \<sigma>))"
  using supervise_timeout(1) [OF assms] supervise_timeout(2) [OF assms] by blast

theorem supervisor_timeout_witness:
  "\<not> finishedBy (duration (launch (demo_env ((demo_child 0 [])\<lparr>duration := None\<rparr>)
        (\<lambda>f p. Unopenable) (\<lambda>v. True)) ''run'')) (TIMEOUT_MS + 100)
   \<and> (\<forall>k. processEventsMillis (demo_env ((demo_child 0 [])\<lparr>duration := None\<rparr>)
        (\<lambda>f p. Unopenable) (\<lambda>v. True)) k \<le> 0)
   \<and> (\<exists>e. waitLoop None (\<lambda>k. 0) 0 0 = Expired e \<and> TIMEOUT_MS < e \<and> e \<le> TIMEOUT_MS + 100)
   \<and> superviseProcess (demo_env ((demo_child 0 [])\<lparr>duration := None\<rparr>)
        (\<lambda>f p. Unopenable) (\<lambda>v. True)) ''run'' demo_state
     = (Inl TimedOut, emit Kill (emit (Spawn ''run'') demo_state))"
  using supervisor_timeout [of "demo_env ((demo_child 0 [])\<lparr>duration := None\<rparr>)
        (\<lambda>f p. Unopenable) (\<lambda>v. True)" "''run''" 0 demo_state]
  by (simp add: finishedBy_def)

theorem slow_event_handling_counterexample:
  "waitLoop None (\<lambda>k. 500) 0 0 = Expired 600600 \<and> TIMEOUT_MS + 100 < 600600"
  by (simp add: waitLoop.simps finishedBy_def TIMEOUT_MS_def)

subsection \<open>Temporary file names\<close>

text \<open>
  C6 (amended). Every path the three scripts allocate lies in the system temp directory.
  The paths of DeepCR and L.A.Cosmic (\<open>generateSecureTempFilename\<close>) combine the
  timestamp with a random suffix, which consists of the first 13 base-36 digits of each
  of two random numbers: two allocations in the same directory and the same millisecond
  give the same path only if both random numbers agree in these digits (the two digit
  strings are joined without a separator, so this is for first numbers with equally many
  digits). Counted over the \<open>36 ^ (n + m)\<close> pairs of random numbers with \<open>n \<le> 13\<close> and
  \<open>m \<le> 13\<close> digits, an allocation therefore meets one of \<open>N\<close> paths that are taken
  already in at most \<open>N\<close> cases. CosmeticCorrection's input and output paths combine the directory with the
  timestamp only: two allocations in the same directory give the same path exactly
  when their timestamps are the same, whatever the random numbers.
\<close>

theorem temp_path_allocation:
  "take (length (systemTempDirectory h)) (dcr_generateSecureTempFilename h) = systemTempDirectory h
   \<and> take (length (systemTempDirectory h)) (lac_generateSecureTempFilename h) = systemTempDirectory h
   \<and> take (length (systemTempDirectory h)) (cc_tempInputFile h) = systemTempDirectory h
   \<and> take (length (systemTempDirectory h)) (cc_tempOutputFile h) = systemTempDirectory h
   \<and> (length a' = length a \<longrightarrow>
        (dcr_generateSecureTempFilename (withRandom h a' b')
           = dcr_generateSecureTempFilename (withRandom h a b)
         \<longleftrightarrow> take 13 a' = take 13 a \<and> take 13 b' = take 13 b)
        \<and> (lac_generateSecureTempFilename (withRandom h a' b')
           = lac_generateSecureTempFilename (withRandom h a b)
         \<longleftrightarrow> take 13 a' = take 13 a \<and> take 13 b' = take 13 b))
   \<and> card (digitStrings n \<times> digitStrings m) = 36 ^ (n + m)
   \<and> (n \<le> 13 \<and> m \<le> 13 \<and> finite S \<longrightarrow>
        card {(a, b). a \<in> digitStrings n \<and> b \<in> digitStrings m
               \<and> dcr_generateSecureTempFilename (withRandom h a b) \<in> S} \<le> card S
        \<and> card {(a, b). a \<in> digitStrings n \<and> b \<in> digitStrings m
               \<and> lac_generateSecureTempFilename (withRandom h a b) \<in> S} \<le> card S)
   \<and> (systemTempDirectory h' = systemTempDirectory h \<longrightarrow>
        (cc_tempInputFile h' = cc_tempInputFile h \<longleftrightarrow> now h' = now h)
        \<and> (cc_tempOutputFile h' = cc_tempOutputFile h \<longleftrightarrow> now h' = now h))"
proof (intro conjI impI)
  show "take (length (systemTempDirectory h)) (dcr_generateSecureTempFilename h)
      = systemTempDirectory h"
    "take (length (systemTempDirectory h)) (lac_generateSecureTempFilename h)
      = systemTempDirectory h"
    "take (length (systemTempDirectory h)) (cc_tempInputFile h) = systemTempDirectory h"
    "take (length (systemTempDirectory h)) (cc_tempOutputFile h) = systemTempDirectory h"
    by (rule in_temp_dir)+
  show "card (digitStrings n \<times> digitStrings m) = 36 ^ (n + m)"
    by (rule pairs_card)
next
  assume "length a' = length a"
  then show "dcr_generateSecureTempFilename (withRandom h a' b')
           = dcr_generateSecureTempFilename (withRandom h a b)
         \<longleftrightarrow> take 13 a' = take 13 a \<and> take 13 b' = take 13 b"
    and "lac_generateSecureTempFilename (withRandom h a' b')
           = lac_generateSecureTempFilename (withRandom h a b)
         \<longleftrightarrow> take 13 a' = take 13 a \<and> take 13 b' = take 13 b"
    by (rule names_same_millisecond)+
next
  assume "n \<le> 13 \<and> m \<le> 13 \<and> finite S"
  then show "card {(a, b). a \<in> digitStrings n \<and> b \<in> digitStrings m
               \<and> dcr_generateSecureTempFilename (withRandom h a b) \<in> S} \<le> card S"
    and "card {(a, b). a \<in> digitStrings n \<and> b \<in> digitStrings m
               \<and> lac_generateSecureTempFilename (withRandom h a b) \<in> S} \<le> card S"
    using same_millisecond_collisions [of n m S h] by blast+
next
  assume "systemTempDirectory h' = systemTempDirectory h"
  then show "cc_tempInputFile h' = cc_tempInputFile h \<longleftrightarrow> now h' = now h"
    and "cc_tempOutputFile h' = cc_tempOutputFile h \<longleftrightarrow> now h' = now h"
    by (rule temp_names)+
qed

theorem temp_path_allocation_witness:
  "dcr_generateSecureTempFilename (withRandom (demo_env (demo_child 0 []) (\<lambda>f p. Unopenable) (\<lambda>v. True)) ''zzzz'' ''p7w1'')
     \<noteq> dcr_generateSecureTempFilename (demo_env (demo_child 0 []) (\<lambda>f p. Unopenable) (\<lambda>v. True))
   \<and> lac_generateSecureTempFilename (withRandom (demo_env (demo_child 0 []) (\<lambda>f p. Unopenable) (\<lambda>v. True)) ''k3j9'' ''p7w0'')
     \<noteq> lac_generateSecureTempFilename (demo_env (demo_child 0 []) (\<lambda>f p. Unopenable) (\<lambda>v. True))
   \<and> card {(a, b). a \<in> digitStrings 4 \<and> b \<in> digitStrings 4
            \<and> dcr_generateSecureTempFilename (withRandom (demo_env (demo_child 0 []) (\<lambda>f p. Unopenable) (\<lambda>v. True)) a b)
                \<in> {''/t/bbdcr_1703_k3j9p7w1.xisf''}} \<le> 1
   \<and> card (digitStrings 4 \<times> digitStrings 4) = 36 ^ 8
   \<and> cc_tempOutputFile ((demo_env (demo_child 0 []) (\<lambda>f p. Unopenable) (\<lambda>v. True))\<lparr>random1 := ''0.zzzz''\<rparr>) = cc_tempOutputFile (demo_env (demo_child 0 []) (\<lambda>f p. Unopenable) (\<lambda>v. True))"
  using temp_path_allocation [of "demo_env (demo_child 0 []) (\<lambda>f p. Unopenable) (\<lambda>v. True)" "''zzzz''" "''k3j9''" "''p7w1''" "''p7w1''" 4 4
      "{''/t/bbdcr_1703_k3j9p7w1.xisf''}" "(demo_env (demo_child 0 []) (\<lambda>f p. Unopenable) (\<lambda>v. True))\<lparr>random1 := ''0.zzzz''\<rparr>"]
    temp_path_allocation [of "demo_env (demo_child 0 []) (\<lambda>f p. Unopenable) (\<lambda>v. True)" "''k3j9''" "''k3j9''" "''p7w0''" "''p7w1''" 4 4
      "{''/t/bbdcr_1703_k3j9p7w1.xisf''}" "(demo_env (demo_child 0 []) (\<lambda>f p. Unopenable) (\<lambda>v. True))\<lparr>random1 := ''0.zzzz''\<rparr>"]
  by simp

theorem same_millisecond_counterexample:
  "randomSuffix ((demo_env (demo_child 0 []) (\<lambda>f p. Unopenable) (\<lambda>v. True))\<lparr>random1 := ''0.zz''\<rparr>)
     \<noteq> randomSuffix (demo_env (demo_child 0 []) (\<lambda>f p. Unopenable) (\<lambda>v. True))
   \<and> now ((demo_env (demo_child 0 []) (\<lambda>f p. Unopenable) (\<lambda>v. True))\<lparr>random1 := ''0.zz''\<rparr>)
     = now (demo_env (demo_child 0 []) (\<lambda>f p. Unopenable) (\<lambda>v. True))
   \<and> cc_tempInputFile
        ((demo_env (demo_child 0 []) (\<lambda>f p. Unopenable) (\<lambda>v. True))\<lparr>random1 := ''0.zz''\<rparr>)
     = cc_tempInputFile (demo_env (demo_child 0 []) (\<lambda>f p. Unopenable) (\<lambda>v. True))"
  by (simp add: demo_env_def randomSuffix_def substring_def cc_tempInputFile_def)

subsection \<open>Validation of the parameters\<close>

text \<open>
  C7 (the code at a failing input). The dialog refuses the threshold 5, but a process
  icon that holds it, dropped on an image (\<open>Parameters.isViewTarget\<close>), is imported and
  run as it is: \<open>buildCommandArray\<close> checks nothing, and the external process is started
  with the threshold 5 on its command line.
\<close>

theorem batch_path_launches_unvalidated:
  "\<not> dcr_thresholdAccepted (Some 5)
   \<and> Spawn ''/bin/bash /opt/run.sh /t/bbdcr_1703_k3j9p7w1.xisf /t 5 --save-mask --format XISF''
       \<in> set (events (snd (dcr_main
            (demo_env (demo_child 3 []) (\<lambda>f p. Unopenable) (\<lambda>v. True)) False True
            (dcr_exportParameters (demo_settings\<lparr>threshold := 5, preset := ''custom''\<rparr>) Map.empty)
            demo_settings demo_state)))"
proof -
  let ?E = "demo_env (demo_child 3 []) (\<lambda>f p. Unopenable) (\<lambda>v. True)"
  let ?s = "demo_settings\<lparr>threshold := 5, preset := ''custom''\<rparr>"
  have imp: "dcr_importParameters (dcr_exportParameters ?s Map.empty) demo_settings = Inr ?s"
    by (simp add: dcr_importParameters_def dcr_exportParameters_def importing_def
        Parameters_set_def Parameters_has_def getBoolean_def getReal_def getString_def
        demo_settings_def)
  have cmd: "dcr_command ?E ?s
      = ''/bin/bash /opt/run.sh /t/bbdcr_1703_k3j9p7w1.xisf /t 5 --save-mask --format XISF''"
    by (simp add: dcr_command_def dcr_buildCommandArray_def)
  have "newEvents demo_state (snd (executeDeepCR ?E ?s demo_state)) =
     [SaveAs (dcr_generateSecureTempFilename ?E), Spawn (dcr_command ?E ?s),
      Report (Failed (ProcessFailed (exitStatus (dcr_child ?E ?s)))),
      MessageBox (Failed (ProcessFailed (exitStatus (dcr_child ?E ?s)))),
      Cleanup [Some (dcr_generateSecureTempFilename ?E), None, None],
      Remove (dcr_generateSecureTempFilename ?E)]"
    by (rule dcr_exit_code_gating(1) [of ?s demo_state ?E 250]) simp_all
  then have "Spawn (dcr_command ?E ?s) \<in> set (events (snd (executeDeepCR ?E ?s demo_state)))"
    by (simp add: newEvents_def)
  then show ?thesis
    by (simp add: dcr_main_def imp cmd dcr_thresholdAccepted_def case_prod_unfold Let_def)
qed

subsection \<open>Formats of the result loader\<close>

lemma opens_append [simp]: "opens (xs @ ys) = opens xs @ opens ys"
  by (induction xs rule: opens.induct) simp_all

lemma readImageFile_opens:
  "opens (newEvents \<sigma> (snd (readImageFile h f p \<sigma>))) = [(f, p)]"
  by (simp add: readImageFile_def Let_def newEvents_def split: decoded.splits)

text \<open>
  C8 (amended). DeepCR's \<open>loadImage\<close> chooses the format from the lower-cased end of the
  path alone: \<open>.xisf\<close> is opened as XISF, \<open>.fits\<close> and \<open>.fit\<close> as FITS, with exactly one
  attempt to open the file; a path with any other end fails at once with the
  unsupported-format error and leaves the state as it is, so nothing is opened or read.
  L.A.Cosmic's \<open>loadFITSImage\<close> knows one format: it tries to open every path it is
  given as FITS, whatever its suffix.
\<close>

theorem result_loader_formats:
  "(endsWith (toLowerCase p) ''.xisf''
      \<longrightarrow> opens (newEvents \<sigma> (snd (loadImage h p \<sigma>))) = [(''.xisf'', p)])
   \<and> (\<not> endsWith (toLowerCase p) ''.xisf''
        \<and> (endsWith (toLowerCase p) ''.fits'' \<or> endsWith (toLowerCase p) ''.fit'')
      \<longrightarrow> opens (newEvents \<sigma> (snd (loadImage h p \<sigma>))) = [(''.fits'', p)])
   \<and> (\<not> endsWith (toLowerCase p) ''.xisf'' \<and> \<not> endsWith (toLowerCase p) ''.fits''
        \<and> \<not> endsWith (toLowerCase p) ''.fit''
      \<longrightarrow> loadImage h p \<sigma> = (Inl (UnsupportedFormat p), \<sigma>))
   \<and> opens (newEvents \<sigma> (snd (loadFITSImage h p \<sigma>))) = [(''.fits'', p)]"
  by (simp add: loadImage_def loadFITSImage_def Let_def readImageFile_opens)

theorem result_loader_formats_witness:
  "opens (newEvents demo_state
      (snd (loadImage (demo_env (demo_child 0 []) (\<lambda>f p. Unopenable) (\<lambda>v. True))
         ''/t/a.XISF'' demo_state))) = [(''.xisf'', ''/t/a.XISF'')]
   \<and> opens (newEvents demo_state
      (snd (loadImage (demo_env (demo_child 0 []) (\<lambda>f p. Unopenable) (\<lambda>v. True))
         ''/t/a.fit'' demo_state))) = [(''.fits'', ''/t/a.fit'')]
   \<and> loadImage (demo_env (demo_child 0 []) (\<lambda>f p. Unopenable) (\<lambda>v. True)) ''/t/a.png'' demo_state
      = (Inl (UnsupportedFormat ''/t/a.png''), demo_state)"
  using result_loader_formats [of "''/t/a.XISF''" demo_state
      "demo_env (demo_child 0 []) (\<lambda>f p. Unopenable) (\<lambda>v. True)"]
    result_loader_formats [of "''/t/a.fit''" demo_state
      "demo_env (demo_child 0 []) (\<lambda>f p. Unopenable) (\<lambda>v. True)"]
    result_loader_formats [of "''/t/a.png''" demo_state
      "demo_env (demo_child 0 []) (\<lambda>f p. Unopenable) (\<lambda>v. True)"]
  by (simp add: endsWith_def toLowerCase_def toLowerChar_def)

theorem fits_loader_counterexample:
  "loadFITSImage (demo_env (demo_child 0 []) (\<lambda>f p. Decoded demo_image) (\<lambda>v. True))
      ''/t/a.png'' (demo_state\<lparr>files := {''/t/a.png''}\<rparr>)
   = (Inr demo_image,
      demo_state\<lparr>files := {''/t/a.png''},
        events := [OpenFile ''.fits'' ''/t/a.png'', ReadImage ''/t/a.png'',
                   CloseFile ''/t/a.png'']\<rparr>)"
  by (simp add: loadFITSImage_def readImageFile_def Let_def File_exists_def emit_def
      demo_state_def)

subsection \<open>The process bracket of the replacement\<close>

lemma onView_member:
  "e \<in> set evs \<Longrightarrow> kind e = OnView v \<Longrightarrow> e \<in> set (onView v evs)"
  by (simp add: onView_def)

text \<open>
  C9 (amended). In each of the three scripts the replacement of the target image is the
  statement sequence \<open>beginProcess\<close>, \<open>image.assign\<close>, \<open>endProcess\<close> with no
  \<open>try\<close>/\<open>finally\<close> of its own. A job therefore either does not touch the active view at
  all, or it opens the bracket once, assigns once, and closes the bracket exactly when
  the assignment did not throw. When the assignment throws, \<open>endProcess\<close> is not called:
  the exception leaves the bracket open and goes to the \<open>catch\<close> of the job.
\<close>

theorem process_bracket:
  "(onView ActiveView (newEvents \<sigma> (snd (executeDeepCR h s \<sigma>))) = []
    \<or> onView ActiveView (newEvents \<sigma> (snd (executeDeepCR h s \<sigma>))) =
       BeginProcess ActiveView # Assign ActiveView
       # (if assignOk h ActiveView then [EndProcess ActiveView] else []))
   \<and> (onView ActiveView (newEvents \<sigma> (snd (executeCosmicRayRemoval h l \<sigma>))) = []
    \<or> onView ActiveView (newEvents \<sigma> (snd (executeCosmicRayRemoval h l \<sigma>))) =
       BeginProcess ActiveView # Assign ActiveView
       # (if assignOk h ActiveView then [EndProcess ActiveView] else []))
   \<and> (onView ActiveView (newEvents \<sigma> (snd (applyCosmeticCorrection h d \<sigma>))) = []
    \<or> onView ActiveView (newEvents \<sigma> (snd (applyCosmeticCorrection h d \<sigma>))) =
       BeginProcess ActiveView # Assign ActiveView
       # (if assignOk h ActiveView then [EndProcess ActiveView] else []))"
  using dcr_job_onView [of \<sigma> h s] lac_job_onView [of \<sigma> h l] cc_job_onView [of \<sigma> h d]
  by blast

theorem process_bracket_witness:
  "onView ActiveView (newEvents demo_state
      (snd (executeDeepCR
         (demo_env (demo_child 0 [''/t/bbdcr_1703_k3j9p7w1_deepcr_th0.1_cleaned.xisf'',
                                   ''/t/bbdcr_1703_k3j9p7w1_deepcr_th0.1_mask.xisf''])
            (\<lambda>f p. if p = ''/t/bbdcr_1703_k3j9p7w1_deepcr_th0.1_mask.xisf''
                    then Unopenable else Decoded demo_image)
            (\<lambda>v. True))
         demo_settings demo_state)))
   = [BeginProcess ActiveView, Assign ActiveView, EndProcess ActiveView]"
proof -
  let ?E = "demo_env (demo_child 0 [''/t/bbdcr_1703_k3j9p7w1_deepcr_th0.1_cleaned.xisf'',
                                       ''/t/bbdcr_1703_k3j9p7w1_deepcr_th0.1_mask.xisf''])
                (\<lambda>f p. if p = ''/t/bbdcr_1703_k3j9p7w1_deepcr_th0.1_mask.xisf''
                        then Unopenable else Decoded demo_image)
                (\<lambda>v. True)"
  have "Assign ActiveView
     \<in> set (newEvents demo_state (snd (executeDeepCR ?E demo_settings demo_state)))"
    using dcr_replaced_then_failed(3) [of demo_settings demo_state ?E 250 demo_image] by simp
  then have "Assign ActiveView
     \<in> set (onView ActiveView
          (newEvents demo_state (snd (executeDeepCR ?E demo_settings demo_state))))"
    by (rule onView_member) simp
  then have "onView ActiveView
          (newEvents demo_state (snd (executeDeepCR ?E demo_settings demo_state))) \<noteq> []"
    by auto
  then show ?thesis
    using process_bracket [of demo_state ?E demo_settings demo_lac demo_cc] by simp
qed

theorem open_bracket_counterexample:
  "onView ActiveView (newEvents demo_state
      (snd (executeDeepCR
         (demo_env (demo_child 0 [''/t/bbdcr_1703_k3j9p7w1_deepcr_th0.1_cleaned.xisf''])
            (\<lambda>f p. Decoded demo_image) (\<lambda>v. False))
         demo_settings demo_state)))
     = [BeginProcess ActiveView, Assign ActiveView]
   \<and> EndProcess ActiveView \<notin> set (newEvents demo_state
      (snd (executeDeepCR
         (demo_env (demo_child 0 [''/t/bbdcr_1703_k3j9p7w1_deepcr_th0.1_cleaned.xisf''])
            (\<lambda>f p. Decoded demo_image) (\<lambda>v. False))
         demo_settings demo_state)))
   \<and> Report (Failed (AssignFailed ActiveView)) \<in> set (newEvents demo_state
      (snd (executeDeepCR
         (demo_env (demo_child 0 [''/t/bbdcr_1703_k3j9p7w1_deepcr_th0.1_cleaned.xisf''])
            (\<lambda>f p. Decoded demo_image) (\<lambda>v. False))
         demo_settings demo_state)))"
proof -
  let ?E = "demo_env (demo_child 0 [''/t/bbdcr_1703_k3j9p7w1_deepcr_th0.1_cleaned.xisf''])
            (\<lambda>f p. Decoded demo_image) (\<lambda>v. False)"
  have a: "onView ActiveView
      (newEvents demo_state (snd (executeDeepCR ?E demo_settings demo_state)))
     = [BeginProcess ActiveView, Assign ActiveView]"
    using dcr_assign_throws(1) [of demo_settings demo_state ?E 250 demo_image] by simp
  have b: "Report (Failed (AssignFailed ActiveView))
     \<in> set (newEvents demo_state (snd (executeDeepCR ?E demo_settings demo_state)))"
    using dcr_assign_throws(2) [of demo_settings demo_state ?E 250 demo_image] by simp
  have c: "EndProcess ActiveView
     \<notin> set (newEvents demo_state (snd (executeDeepCR ?E demo_settings demo_state)))"
  proof
    assume "EndProcess ActiveView
      \<in> set (newEvents demo_state (snd (executeDeepCR ?E demo_settings demo_state)))"
    then have "EndProcess ActiveView \<in> set (onView ActiveView
      (newEvents demo_state (snd (executeDeepCR ?E demo_settings demo_state))))"
      by (rule onView_member) simp
    then show False unfolding a by simp
  qed
  show ?thesis using a b c by blast
qed

subsection \<open>A missing mask file\<close>

lemma lac_reported_outcome:
  assumes "filter (\<lambda>e. kind e = Outcome) (newEvents \<sigma> (snd (executeCosmicRayRemoval h s \<sigma>)))
    = [Report x]"
  shows "fst (executeCosmicRayRemoval h s \<sigma>) = x"
proof -
  obtain R where R: "newEvents \<sigma> (snd (executeCosmicRayRemoval h s \<sigma>)) =
          newEvents (jobStart \<sigma>) (snd (lac_try h s (jobStart \<sigma>)))
          @ lac_tellsFirst (lac_outcome h s \<sigma>)
          @ Cleanup [tempFile (snd (executeCosmicRayRemoval h s \<sigma>)),
                     outputPath (snd (executeCosmicRayRemoval h s \<sigma>)),
                     maskPath (snd (executeCosmicRayRemoval h s \<sigma>))] # R
          @ lac_tellsLast (lac_outcome h s \<sigma>)"
    "list_all (\<lambda>e. kind e = Removing) R"
    using lac_job_events by blast
  have "told (newEvents \<sigma> (snd (executeCosmicRayRemoval h s \<sigma>)))
      = lac_tellsFirst (lac_outcome h s \<sigma>) @ lac_tellsLast (lac_outcome h s \<sigma>)"
    unfolding R(1) by (rule job_shape(4) [OF lac_try_working R(2) tells_kind(2) tells_kind(3)])
  then have "lac_tellsFirst (lac_outcome h s \<sigma>) @ lac_tellsLast (lac_outcome h s \<sigma>) = [Report x]"
    using assms by (simp add: told_def)
  then have "lac_outcome h s \<sigma> = x"
    by (cases "lac_outcome h s \<sigma>") simp_all
  then show ?thesis
    by (simp add: executeCosmicRayRemoval_eq)
qed

text \<open>
  C10. Let a DeepCR or L.A.Cosmic job run with the mask requested (\<open>saveMask\<close>), let the
  child terminate within the time budget with exit code 0, let the cleaned image exist,
  be decoded and be assigned without an exception, and let the mask file be absent from
  its path (\<open>..._mask.xisf\<close> for DeepCR, \<open>..._crm.fits\<close> for L.A.Cosmic). Then the only
  outcome the job reports is success, no mask window is created, and the mask path is
  never opened.
\<close>

theorem missing_mask_is_not_an_error:
  "(wrapperScript s \<in> files \<sigma> \<and> activeWindow h \<and> saveAsOk h (dcr_generateSecureTempFilename h)
      \<and> waitLoop (duration (dcr_child h s)) (processEventsMillis h) 0 0 = Finished t
      \<and> exitStatus (dcr_child h s) = 0
      \<and> dcr_cleanedPath h s (dcr_generateSecureTempFilename h)
          \<in> files \<sigma> \<union> {dcr_generateSecureTempFilename h} \<union> set (written (dcr_child h s))
      \<and> decode h ''.xisf'' (dcr_cleanedPath h s (dcr_generateSecureTempFilename h)) = Decoded img
      \<and> (\<forall>v. assignOk h v)
      \<and> saveMask s
      \<and> dcr_maskPath h s (dcr_generateSecureTempFilename h)
          \<notin> files \<sigma> \<union> {dcr_generateSecureTempFilename h} \<union> set (written (dcr_child h s))
    \<longrightarrow> filter (\<lambda>e. kind e = Outcome) (newEvents \<sigma> (snd (executeDeepCR h s \<sigma>)))
          = [Report Success]
        \<and> NewWindow (mainViewId h @ ''_CR_Mask'')
            \<notin> set (newEvents \<sigma> (snd (executeDeepCR h s \<sigma>)))
        \<and> (\<forall>f. OpenFile f (dcr_maskPath h s (dcr_generateSecureTempFilename h))
            \<notin> set (newEvents \<sigma> (snd (executeDeepCR h s \<sigma>)))))
   \<and> (lac_wrapperScript l \<in> files \<sigma> \<and> activeWindow h
      \<and> saveAsOk h (lac_generateSecureTempFilename h)
      \<and> waitLoop (duration (lac_child h l)) (processEventsMillis h) 0 0 = Finished t'
      \<and> exitStatus (lac_child h l) = 0
      \<and> lac_outputPath l (lac_generateSecureTempFilename h)
          \<in> files \<sigma> \<union> {lac_generateSecureTempFilename h} \<union> set (written (lac_child h l))
      \<and> decode h ''.fits'' (lac_outputPath l (lac_generateSecureTempFilename h)) = Decoded img'
      \<and> (\<forall>v. assignOk h v)
      \<and> lac_saveMask l
      \<and> lac_maskPath l (lac_generateSecureTempFilename h)
          \<notin> files \<sigma> \<union> {lac_generateSecureTempFilename h} \<union> set (written (lac_child h l))
    \<longrightarrow> filter (\<lambda>e. kind e = Outcome) (newEvents \<sigma> (snd (executeCosmicRayRemoval h l \<sigma>)))
          = [Report Success]
        \<and> fst (executeCosmicRayRemoval h l \<sigma>) = Success
        \<and> NewWindow (mainViewId h @ ''_LACosmic_mask'')
            \<notin> set (newEvents \<sigma> (snd (executeCosmicRayRemoval h l \<sigma>)))
        \<and> (\<forall>f. OpenFile f (lac_maskPath l (lac_generateSecureTempFilename h))
            \<notin> set (newEvents \<sigma> (snd (executeCosmicRayRemoval h l \<sigma>)))))"
proof (intro conjI impI allI)
  fix f
  assume a: "wrapperScript s \<in> files \<sigma> \<and> activeWindow h
      \<and> saveAsOk h (dcr_generateSecureTempFilename h)
      \<and> waitLoop (duration (dcr_child h s)) (processEventsMillis h) 0 0 = Finished t
      \<and> exitStatus (dcr_child h s) = 0
      \<and> dcr_cleanedPath h s (dcr_generateSecureTempFilename h)
          \<in> files \<sigma> \<union> {dcr_generateSecureTempFilename h} \<union> set (written (dcr_child h s))
      \<and> decode h ''.xisf'' (dcr_cleanedPath h s (dcr_generateSecureTempFilename h)) = Decoded img
      \<and> (\<forall>v. assignOk h v)
      \<and> saveMask s
      \<and> dcr_maskPath h s (dcr_generateSecureTempFilename h)
          \<notin> files \<sigma> \<union> {dcr_generateSecureTempFilename h} \<union> set (written (dcr_child h s))"
  then show "OpenFile f (dcr_maskPath h s (dcr_generateSecureTempFilename h))
            \<notin> set (newEvents \<sigma> (snd (executeDeepCR h s \<sigma>)))"
    using dcr_mask_missing(3) [of s \<sigma> h t img f] by blast
next
  assume a: "wrapperScript s \<in> files \<sigma> \<and> activeWindow h
      \<and> saveAsOk h (dcr_generateSecureTempFilename h)
      \<and> waitLoop (duration (dcr_child h s)) (processEventsMillis h) 0 0 = Finished t
      \<and> exitStatus (dcr_child h s) = 0
      \<and> dcr_cleanedPath h s (dcr_generateSecureTempFilename h)
          \<in> files \<sigma> \<union> {dcr_generateSecureTempFilename h} \<union> set (written (dcr_child h s))
      \<and> decode h ''.xisf'' (dcr_cleanedPath h s (dcr_generateSecureTempFilename h)) = Decoded img
      \<and> (\<forall>v. assignOk h v)
      \<and> saveMask s
      \<and> dcr_maskPath h s (dcr_generateSecureTempFilename h)
          \<notin> files \<sigma> \<union> {dcr_generateSecureTempFilename h} \<union> set (written (dcr_child h s))"
  then show "filter (\<lambda>e. kind e = Outcome) (newEvents \<sigma> (snd (executeDeepCR h s \<sigma>)))
          = [Report Success]"
    using dcr_mask_missing(1) [of s \<sigma> h t img] by blast
  from a show "NewWindow (mainViewId h @ ''_CR_Mask'')
            \<notin> set (newEvents \<sigma> (snd (executeDeepCR h s \<sigma>)))"
    using dcr_mask_missing(2) [of s \<sigma> h t img] by blast
next
  fix f
  assume b: "lac_wrapperScript l \<in> files \<sigma> \<and> activeWindow h
      \<and> saveAsOk h (lac_generateSecureTempFilename h)
      \<and> waitLoop (duration (lac_child h l)) (processEventsMillis h) 0 0 = Finished t'
      \<and> exitStatus (lac_child h l) = 0
      \<and> lac_outputPath l (lac_generateSecureTempFilename h)
          \<in> files \<sigma> \<union> {lac_generateSecureTempFilename h} \<union> set (written (lac_child h l))
      \<and> decode h ''.fits'' (lac_outputPath l (lac_generateSecureTempFilename h)) = Decoded img'
      \<and> (\<forall>v. assignOk h v)
      \<and> lac_saveMask l
      \<and> lac_maskPath l (lac_generateSecureTempFilename h)
          \<notin> files \<sigma> \<union> {lac_generateSecureTempFilename h} \<union> set (written (lac_child h l))"
  then show "OpenFile f (lac_maskPath l (lac_generateSecureTempFilename h))
            \<notin> set (newEvents \<sigma> (snd (executeCosmicRayRemoval h l \<sigma>)))"
    using lac_mask_missing(3) [of l \<sigma> h t' img' f] by blast
next
  assume b: "lac_wrapperScript l \<in> files \<sigma> \<and> activeWindow h
      \<and> saveAsOk h (lac_generateSecureTempFilename h)
      \<and> waitLoop (duration (lac_child h l)) (processEventsMillis h) 0 0 = Finished t'
      \<and> exitStatus (lac_child h l) = 0
      \<and> lac_outputPath l (lac_generateSecureTempFilename h)
          \<in> files \<sigma> \<union> {lac_generateSecureTempFilename h} \<union> set (written (lac_child h l))
      \<and> decode h ''.fits'' (lac_outputPath l (lac_generateSecureTempFilename h)) = Decoded img'
      \<and> (\<forall>v. assignOk h v)
      \<and> lac_saveMask l
      \<and> lac_maskPath l (lac_generateSecureTempFilename h)
          \<notin> files \<sigma> \<union> {lac_generateSecureTempFilename h} \<union> set (written (lac_child h l))"
  then show r: "filter (\<lambda>e. kind e = Outcome) (newEvents \<sigma> (snd (executeCosmicRayRemoval h l \<sigma>)))
          = [Report Success]"
    using lac_mask_missing(1) [of l \<sigma> h t' img'] by blast
  from b show "NewWindow (mainViewId h @ ''_LACosmic_mask'')
            \<notin> set (newEvents \<sigma> (snd (executeCosmicRayRemoval h l \<sigma>)))"
    using lac_mask_missing(2) [of l \<sigma> h t' img'] by blast
  show "fst (executeCosmicRayRemoval h l \<sigma>) = Success"
    using r by (rule lac_reported_outcome)
qed

theorem missing_mask_is_not_an_error_witness:
  "filter (\<lambda>e. kind e = Outcome) (newEvents demo_state
      (snd (executeDeepCR
        (demo_env (demo_child 0 [''/t/bbdcr_1703_k3j9p7w1_deepcr_th0.1_cleaned.xisf''])
           (\<lambda>f p. Decoded demo_image) (\<lambda>v. True))
        demo_settings demo_state))) = [Report Success]
   \<and> NewWindow ''M31_CR_Mask'' \<notin> set (newEvents demo_state
      (snd (executeDeepCR
        (demo_env (demo_child 0 [''/t/bbdcr_1703_k3j9p7w1_deepcr_th0.1_cleaned.xisf''])
           (\<lambda>f p. Decoded demo_image) (\<lambda>v. True))
        demo_settings demo_state)))
   \<and> fst (executeCosmicRayRemoval
        (demo_env (demo_child 0 [''/t/bblac_1703_k3j9p7w1_crr.fits''])
           (\<lambda>f p. Decoded demo_image) (\<lambda>v. True))
        demo_lac demo_state) = Success
   \<and> NewWindow ''M31_LACosmic_mask'' \<notin> set (newEvents demo_state
      (snd (executeCosmicRayRemoval
        (demo_env (demo_child 0 [''/t/bblac_1703_k3j9p7w1_crr.fits''])
           (\<lambda>f p. Decoded demo_image) (\<lambda>v. True))
        demo_lac demo_state)))"
  using missing_mask_is_not_an_error [of demo_settings demo_state
      "demo_env (demo_child 0 [''/t/bbdcr_1703_k3j9p7w1_deepcr_th0.1_cleaned.xisf''])
           (\<lambda>f p. Decoded demo_image) (\<lambda>v. True)" 250 demo_image demo_lac 250 demo_image]
    missing_mask_is_not_an_error [of demo_settings demo_state
      "demo_env (demo_child 0 [''/t/bblac_1703_k3j9p7w1_crr.fits''])
           (\<lambda>f p. Decoded demo_image) (\<lambda>v. True)" 250 demo_image demo_lac 250 demo_image]
  by simp

end
